(* ===== verification/Prelude.thy ===== *)
theory Prelude
  imports Complex_Main "HOL-Library.Product_Lexorder"
begin

text \<open>
  Shared vocabulary of the development: the JavaScript values the three
  scripts under \<^verbatim>\<open>src/frontend/static/\<close> manipulate, written as HOL values.
  \<^item> \<open>undefined\<close>/\<open>null\<close> is \<open>None\<close> of an option; JavaScript truthiness of a string
    (\<open>!s\<close>, \<open>s || t\<close>) is \<open>js_truthy\<close> and \<open>js_or\<close>.
  \<^item> \<open>String(n)\<close> and template-literal interpolation of a number is
    \<open>string_of_nat\<close>/\<open>string_of_int\<close>; \<open>Number(s)\<close> on digit strings is \<open>digits_val\<close>.
  \<^item> \<open>s[0]\<close> of a string is \<open>str_at0\<close> (\<open>undefined\<close> on the empty string).
  \<^item> a thrown exception that a \<^verbatim>\<open>try\<close> block catches is the left summand of
    \<open>'e + 'a\<close>, sequenced by \<open>ebind\<close>.
  The named collection \<open>js_simps\<close> gathers the evaluation rules of these helpers.
\<close>

named_theorems js_simps "evaluation rules for the JavaScript helper functions"

section \<open>JavaScript truthiness of strings\<close>

definition js_truthy :: "string option \<Rightarrow> bool" where
  "js_truthy s = (case s of None \<Rightarrow> False | Some t \<Rightarrow> t \<noteq> [])"

definition js_or :: "string option \<Rightarrow> string \<Rightarrow> string" where
  "js_or s d = (case s of Some t \<Rightarrow> if t \<noteq> [] then t else d | None \<Rightarrow> d)"

lemma js_truthy_simps [simp, js_simps]:
  "js_truthy None = False" "js_truthy (Some t) = (t \<noteq> [])"
  by (simp_all add: js_truthy_def)

lemma js_or_simps [simp, js_simps]:
  "js_or None d = d" "js_or (Some t) d = (if t = [] then d else t)"
  by (simp_all add: js_or_def)

definition str_at0 :: "string \<Rightarrow> string option" where
  "str_at0 s = (case s of [] \<Rightarrow> None | c # _ \<Rightarrow> Some [c])"

lemma str_at0_simps [simp, js_simps]:
  "str_at0 [] = None" "str_at0 (c # cs) = Some [c]"
  by (simp_all add: str_at0_def)

text \<open>A template literal prints \<open>undefined\<close> as the word itself.\<close>

definition js_template :: "string option \<Rightarrow> string" where
  "js_template s = (case s of None \<Rightarrow> ''undefined'' | Some t \<Rightarrow> t)"

lemma js_template_simps [simp, js_simps]:
  "js_template None = ''undefined''" "js_template (Some t) = t"
  by (simp_all add: js_template_def)

section \<open>Decimal digits\<close>

definition digit_char :: "nat \<Rightarrow> char" where
  "digit_char n = ''0123456789'' ! n"

definition is_digit :: "char \<Rightarrow> bool" where
  "is_digit c = (48 \<le> (of_char c :: nat) \<and> (of_char c :: nat) \<le> 57)"

definition digit_of :: "char \<Rightarrow> nat" where
  "digit_of c = of_char c - 48"

lemma digit_of_digit_char [simp, js_simps]: "n < 10 \<Longrightarrow> digit_of (digit_char n) = n"
  by (auto simp: digit_of_def digit_char_def less_Suc_eq numeral_eq_Suc)

lemma is_digit_digit_char [simp, js_simps]: "n < 10 \<Longrightarrow> is_digit (digit_char n)"
  by (auto simp: is_digit_def digit_char_def less_Suc_eq numeral_eq_Suc)

fun string_of_nat :: "nat \<Rightarrow> string" where
  "string_of_nat n =
     (if n < 10 then [digit_char n] else string_of_nat (n div 10) @ [digit_char (n mod 10)])"

declare string_of_nat.simps [simp del]

definition string_of_int :: "int \<Rightarrow> string" where
  "string_of_int i = (if i < 0 then CHR ''-'' # string_of_nat (nat (- i)) else string_of_nat (nat i))"

definition digits_acc :: "nat \<Rightarrow> string \<Rightarrow> nat" where
  "digits_acc a s = foldl (\<lambda>v c. 10 * v + digit_of c) a s"

text \<open>\<open>Number(s)\<close> on a non-empty string of decimal digits.\<close>

definition digits_val :: "string \<Rightarrow> nat option" where
  "digits_val s = (if s \<noteq> [] \<and> list_all is_digit s then Some (digits_acc 0 s) else None)"

lemma digits_acc_snoc [simp]: "digits_acc a (s @ [c]) = 10 * digits_acc a s + digit_of c"
  by (simp add: digits_acc_def)

lemma digits_acc_Nil [simp]: "digits_acc a [] = a"
  by (simp add: digits_acc_def)

lemma digits_acc_single [simp]: "digits_acc a [c] = 10 * a + digit_of c"
  by (simp add: digits_acc_def)

lemma string_of_nat_nonempty [simp]: "string_of_nat n \<noteq> []"
  by (subst string_of_nat.simps) simp

lemma string_of_nat_digits [simp]: "list_all is_digit (string_of_nat n)"
proof (induction n rule: string_of_nat.induct)
  case (1 n)
  then show ?case by (subst string_of_nat.simps) simp
qed

lemma digits_acc_string_of_nat [simp]: "digits_acc 0 (string_of_nat n) = n"
proof (induction n rule: string_of_nat.induct)
  case (1 n)
  then show ?case by (subst string_of_nat.simps) simp
qed

lemma digits_val_string_of_nat [simp, js_simps]: "digits_val (string_of_nat n) = Some n"
  by (simp add: digits_val_def)

lemma string_of_nat_inj [simp]: "(string_of_nat m = string_of_nat n) = (m = n)"
  by (metis digits_val_string_of_nat option.inject)

lemma string_of_nat_small [simp, js_simps]: "n < 10 \<Longrightarrow> string_of_nat n = [digit_char n]"
  by (subst string_of_nat.simps) simp

text \<open>\<open>String.prototype.padStart(k, c)\<close>.\<close>

definition pad_start :: "nat \<Rightarrow> char \<Rightarrow> string \<Rightarrow> string" where
  "pad_start k c s = replicate (k - length s) c @ s"

lemma length_pad_start [simp]: "length (pad_start k c s) = max k (length s)"
  by (simp add: pad_start_def)

section \<open>Exceptions caught by a try block\<close>

text \<open>
  A computation that may throw is a value of \<open>'e + 'a\<close>: \<open>Inl\<close> carries what the
  enclosing \<^verbatim>\<open>catch\<close> receives (here, the state at the throw), \<open>Inr\<close> the normal result.
\<close>

definition ebind :: "'e + 'a \<Rightarrow> ('a \<Rightarrow> 'e + 'b) \<Rightarrow> 'e + 'b" where
  "ebind m f = (case m of Inl e \<Rightarrow> Inl e | Inr a \<Rightarrow> f a)"

lemma ebind_simps [simp, js_simps]:
  "ebind (Inl e) f = Inl e" "ebind (Inr a) f = f a"
  by (simp_all add: ebind_def)

definition caught :: "'a + 'a \<Rightarrow> 'a" where
  "caught r = (case r of Inl s \<Rightarrow> s | Inr s \<Rightarrow> s)"

lemma caught_simps [simp, js_simps]: "caught (Inl s) = s" "caught (Inr s) = s"
  by (simp_all add: caught_def)

section \<open>Lists\<close>

text \<open>\<open>xs.slice(-n)\<close>: the last \<open>n\<close> elements.\<close>

definition slice_last :: "nat \<Rightarrow> 'a list \<Rightarrow> 'a list" where
  "slice_last n xs = drop (length xs - n) xs"

lemma length_slice_last [simp]: "length (slice_last n xs) = min n (length xs)"
  by (simp add: slice_last_def)

lemma slice_last_all [simp]: "length xs \<le> n \<Longrightarrow> slice_last n xs = xs"
  by (simp add: slice_last_def)

lemma length_filter_disj:
  "(\<And>x. \<not> (P x \<and> Q x)) \<Longrightarrow>
   length (filter (\<lambda>x. P x \<or> Q x) xs) = length (filter P xs) + length (filter Q xs)"
  by (induction xs) auto

lemma length_filter_conj_le: "length (filter (\<lambda>x. P x \<and> Q x) xs) \<le> length (filter Q xs)"
  by (induction xs) auto

lemma length_string_of_nat_le: "n < 10 ^ k \<Longrightarrow> 0 < k \<Longrightarrow> length (string_of_nat n) \<le> k"
proof (induction n arbitrary: k rule: string_of_nat.induct)
  case (1 n)
  show ?case
  proof (cases "n < 10")
    case True
    with "1.prems" show ?thesis by simp
  next
    case False
    with "1.prems" have k: "1 < k" by (cases k) (auto simp: less_Suc_eq)
    with "1.prems" have "n div 10 < 10 ^ (k - 1)"
      by (cases k) (simp_all add: div_less_iff_less_mult ac_simps)
    with "1.IH" False k have "length (string_of_nat (n div 10)) \<le> k - 1" by simp
    with False k show ?thesis by (subst string_of_nat.simps) simp
  qed
qed

lemma digits_acc_append: "digits_acc a (xs @ ys) = digits_acc (digits_acc a xs) ys"
  by (simp add: digits_acc_def)

lemma digits_acc_zeros [simp]: "digits_acc 0 (replicate k CHR ''0'') = 0"
  by (induction k) (simp_all add: digits_acc_def digit_of_def)

lemma digits_val_pad_start [simp]:
  "digits_val (pad_start k CHR ''0'' (string_of_nat n)) = Some n"
proof -
  have "list_all is_digit (replicate (k - length (string_of_nat n)) CHR ''0'')"
    by (simp add: list_all_iff is_digit_def)
  then show ?thesis
    by (simp add: digits_val_def pad_start_def digits_acc_append)
qed
text \<open>\<open>s.split(c)\<close> with a one-character separator.\<close>

fun split_on :: "char \<Rightarrow> string \<Rightarrow> string list" where
  "split_on c [] = [[]]"
| "split_on c (x # xs) =
     (if x = c then [] # split_on c xs
      else (case split_on c xs of w # ws \<Rightarrow> (x # w) # ws | [] \<Rightarrow> [[x]]))"

lemma split_on_nonempty [simp]: "split_on c s \<noteq> []"
  by (induction s) (auto split: list.split)

lemma split_on_no_sep [simp]: "c \<notin> set s \<Longrightarrow> split_on c s = [s]"
  by (induction s) auto

lemma split_on_sep: "c \<notin> set s \<Longrightarrow> split_on c (s @ c # t) = s # split_on c t"
  by (induction s) auto

text \<open>Array destructuring \<open>const [a, b] = xs\<close>: a missing element is \<open>undefined\<close>.\<close>

definition js_nth :: "'a list \<Rightarrow> nat \<Rightarrow> 'a option" where
  "js_nth xs i = (if i < length xs then Some (xs ! i) else None)"

lemma js_nth_simps [simp, js_simps]:
  "js_nth [] i = None" "js_nth (x # xs) 0 = Some x" "js_nth (x # xs) (Suc i) = js_nth xs i"
  by (simp_all add: js_nth_def)

lemma pad_start_digits [simp]: "list_all is_digit (pad_start k CHR ''0'' (string_of_nat n))"
  using string_of_nat_digits[of n] by (auto simp: pad_start_def list_all_iff is_digit_def)

lemma pad_start_nonempty [simp]: "pad_start k c (string_of_nat n) \<noteq> []"
  by (simp add: pad_start_def)

lemma digits_no_char: "list_all is_digit s \<Longrightarrow> \<not> is_digit c \<Longrightarrow> c \<notin> set s"
  by (auto simp: list_all_iff)

lemma colon_not_digit [simp]: "\<not> is_digit CHR '':''"
  by (simp add: is_digit_def)

lemma string_of_nat_hd_digit: "\<exists>c cs. string_of_nat a = c # cs \<and> is_digit c"
proof -
  obtain c cs where "string_of_nat a = c # cs" using string_of_nat_nonempty by (cases "string_of_nat a") blast+
  moreover have "list_all is_digit (string_of_nat a)" by simp
  ultimately show ?thesis by auto
qed

lemma takeWhile_all_digits: "list_all is_digit s \<Longrightarrow> takeWhile is_digit (s @ t) = s @ takeWhile is_digit t"
  by (induction s) simp_all

lemma dropWhile_all_digits: "list_all is_digit s \<Longrightarrow> dropWhile is_digit (s @ t) = dropWhile is_digit t"
  by (induction s) simp_all

end
