(* ===== verification/Calendar.thy ===== *)
theory Calendar
  imports Prelude
begin

text \<open>
  The part of JavaScript's \<open>Date\<close> that the employee dashboard relies on.
  \<open>new Date(s)\<close> on a date-only ISO string \<open>YYYY-MM-DD\<close> (the format the backend
  serialises dates in) denotes midnight UTC of that day in the proleptic Gregorian
  calendar; \<open>getMonth()\<close> and \<open>getFullYear()\<close> read the date back in the browser's
  local time zone. A string of any other shape, or an impossible day, gives an
  invalid date (\<open>NaN\<close>), which is \<open>None\<close> here.
  \<^item> \<open>parse_iso_date\<close>: the parser, with its round trip against \<open>format_iso_date\<close>;
  \<^item> \<open>day_number\<close>: days since 1970-01-01 (\<open>getTime() / 86400000\<close>), with
    \<open>day_number (next_day d) = day_number d + 1\<close>;
  \<^item> \<open>local_date\<close>: the local calendar date of UTC midnight at a zone offset of
    \<open>off\<close> minutes east of UTC.
\<close>

record date =
  year :: int
  month :: nat
  day :: nat

definition is_leap :: "int \<Rightarrow> bool" where
  "is_leap y = (4 dvd y \<and> (\<not> 100 dvd y \<or> 400 dvd y))"

definition days_in_month :: "int \<Rightarrow> nat \<Rightarrow> nat" where
  "days_in_month y m =
     (if m = 2 then (if is_leap y then 29 else 28)
      else if m = 4 \<or> m = 6 \<or> m = 9 \<or> m = 11 then 30 else 31)"

definition valid_date :: "date \<Rightarrow> bool" where
  "valid_date d = (1 \<le> month d \<and> month d \<le> 12 \<and> 1 \<le> day d \<and> day d \<le> days_in_month (year d) (month d))"

subsection \<open>Parsing the backend's date strings\<close>

definition parse_iso_date :: "string \<Rightarrow> date option" where
  "parse_iso_date s =
     (if length s = 10 \<and> s ! 4 = CHR ''-'' \<and> s ! 7 = CHR ''-'' then
        (case (digits_val (take 4 s), digits_val (take 2 (drop 5 s)), digits_val (drop 8 s)) of
           (Some y, Some m, Some d) \<Rightarrow>
             (let dt = \<lparr>year = int y, month = m, day = d\<rparr> in if valid_date dt then Some dt else None)
         | _ \<Rightarrow> None)
      else None)"

definition format_iso_date :: "date \<Rightarrow> string" where
  "format_iso_date d =
     pad_start 4 CHR ''0'' (string_of_nat (nat (year d))) @ ''-'' @
     pad_start 2 CHR ''0'' (string_of_nat (month d)) @ ''-'' @
     pad_start 2 CHR ''0'' (string_of_nat (day d))"

subsection \<open>Day numbers\<close>

definition days_before_year :: "int \<Rightarrow> int" where
  "days_before_year y = 365 * (y - 1) + (y - 1) div 4 - (y - 1) div 100 + (y - 1) div 400"

definition days_before_month :: "int \<Rightarrow> nat \<Rightarrow> nat" where
  "days_before_month y m = sum_list (map (days_in_month y) [1..<m])"

definition day_number :: "date \<Rightarrow> int" where
  "day_number d =
     days_before_year (year d) + int (days_before_month (year d) (month d)) + int (day d) - 1 - 719162"

definition next_day :: "date \<Rightarrow> date" where
  "next_day d =
     (if day d < days_in_month (year d) (month d) then d\<lparr>day := Suc (day d)\<rparr>
      else if month d < 12 then d\<lparr>month := Suc (month d), day := 1\<rparr>
      else \<lparr>year = year d + 1, month = 1, day = 1\<rparr>)"

definition prev_day :: "date \<Rightarrow> date" where
  "prev_day d =
     (if 1 < day d then d\<lparr>day := day d - 1\<rparr>
      else if 1 < month d then d\<lparr>month := month d - 1, day := days_in_month (year d) (month d - 1)\<rparr>
      else \<lparr>year = year d - 1, month = 12, day = 31\<rparr>)"

definition shift_days :: "int \<Rightarrow> date \<Rightarrow> date" where
  "shift_days k d = (if 0 \<le> k then (next_day ^^ nat k) d else (prev_day ^^ nat (- k)) d)"

text \<open>
  Local date of the instant \<open>00:00 UTC\<close> of \<open>d\<close>, in a zone \<open>off\<close> minutes east of
  UTC: the instant is \<open>off\<close> minutes past local midnight of the day
  \<open>off div 1440\<close> days away (\<open>div\<close> rounds down, as the clock does).
\<close>

definition local_date :: "int \<Rightarrow> date \<Rightarrow> date" where
  "local_date off d = shift_days (off div 1440) d"

text \<open>\<open>new Date(s)\<close> read in local time: \<open>None\<close> is an invalid date.\<close>

definition js_local_date :: "int \<Rightarrow> string \<Rightarrow> date option" where
  "js_local_date off s = map_option (local_date off) (parse_iso_date s)"

text \<open>\<open>getMonth()\<close> counts months from 0.\<close>

definition js_get_month :: "date \<Rightarrow> nat" where
  "js_get_month d = month d - 1"

lemma days_in_month_pos [simp]: "0 < days_in_month y m"
  by (simp add: days_in_month_def)

lemma days_in_month_ge1 [simp]: "Suc 0 \<le> days_in_month y m"
  by (simp add: days_in_month_def)

lemma days_in_month_le31: "days_in_month y m \<le> 31"
  by (simp add: days_in_month_def)

subsection \<open>Day-number arithmetic\<close>

lemma div_pred_step:
  assumes k: "0 < (k::int)"
  shows "y div k - (y - 1) div k = (if k dvd y then 1 else 0)"
proof -
  define q r where "q = y div k" and "r = y mod k"
  have y: "y = k * q + r" by (simp add: q_def r_def)
  have r: "0 \<le> r" "r < k" using k by (simp_all add: r_def)
  show ?thesis
  proof (cases "r = 0")
    case True
    have "y - 1 = k * (q - 1) + (k - 1)" using y True by (simp add: algebra_simps)
    then have "(y - 1) div k = q - 1" by (rule int_div_pos_eq) (use k in simp_all)
    moreover have "k dvd y" using True by (simp add: r_def dvd_eq_mod_eq_0)
    ultimately show ?thesis by (simp add: q_def)
  next
    case False
    have "y - 1 = k * q + (r - 1)" using y by simp
    then have "(y - 1) div k = q" by (rule int_div_pos_eq) (use r False in simp_all)
    moreover have "\<not> k dvd y" using False by (simp add: r_def dvd_eq_mod_eq_0)
    ultimately show ?thesis by (simp add: q_def)
  qed
qed

lemma days_before_year_Suc:
  "days_before_year (y + 1) = days_before_year y + 365 + (if is_leap y then 1 else 0)"
proof -
  have d: "days_before_year (y + 1) =
      days_before_year y + 365 + (y div 4 - (y - 1) div 4) - (y div 100 - (y - 1) div 100)
      + (y div 400 - (y - 1) div 400)"
    unfolding days_before_year_def by (simp only: add_diff_cancel_right') (simp add: algebra_simps)
  have s4: "y div 4 - (y - 1) div 4 = (if 4 dvd y then 1 else 0)" by (rule div_pred_step) simp
  have s100: "y div 100 - (y - 1) div 100 = (if 100 dvd y then 1 else 0)" by (rule div_pred_step) simp
  have s400: "y div 400 - (y - 1) div 400 = (if 400 dvd y then 1 else 0)" by (rule div_pred_step) simp
  have t1: "400 dvd y \<Longrightarrow> 100 dvd y" by (erule dvd_trans[rotated]) simp
  have t2: "100 dvd y \<Longrightarrow> 4 dvd y" by (erule dvd_trans[rotated]) simp
  show ?thesis unfolding d s4 s100 s400 is_leap_def
    using t1 t2 by (cases "4 dvd y"; cases "100 dvd y"; cases "400 dvd y") simp_all
qed

lemma days_before_month_Suc:
  "1 \<le> m \<Longrightarrow> days_before_month y (Suc m) = days_before_month y m + days_in_month y m"
  by (simp add: days_before_month_def)

lemma days_before_month_12: "days_before_month y 12 + 31 = 365 + (if is_leap y then 1 else 0)"
  by (simp add: days_before_month_def days_in_month_def upt_rec)

lemma valid_next_day: "valid_date d \<Longrightarrow> valid_date (next_day d)"
  by (auto simp: valid_date_def next_day_def)

lemma day_number_next_day:
  assumes v: "valid_date d"
  shows "day_number (next_day d) = day_number d + 1"
proof (cases "day d < days_in_month (year d) (month d)")
  case True
  then show ?thesis by (simp add: next_day_def day_number_def)
next
  case False
  with v have dd: "day d = days_in_month (year d) (month d)" by (simp add: valid_date_def)
  show ?thesis
  proof (cases "month d < 12")
    case True
    with v have "days_before_month (year d) (Suc (month d)) = days_before_month (year d) (month d) + day d"
      using dd days_before_month_Suc[of "month d" "year d"] by (simp add: valid_date_def)
    with False True show ?thesis by (simp add: next_day_def day_number_def)
  next
    case False': False
    with v have m: "month d = 12" by (simp add: valid_date_def)
    with dd have "day d = 31" by (simp add: days_in_month_def)
    with m False False' show ?thesis
      using days_before_month_12[of "year d"] days_before_year_Suc[of "year d"]
      by (simp add: next_day_def day_number_def days_before_month_def)
  qed
qed

lemma days_in_month_12 [simp]: "days_in_month y 12 = 31"
  by (simp add: days_in_month_def)

lemma prev_next_day:
  assumes v: "valid_date d"
  shows "prev_day (next_day d) = d"
proof (cases "day d < days_in_month (year d) (month d)")
  case True
  with v show ?thesis by (simp add: next_day_def prev_day_def valid_date_def)
next
  case False
  with v have dd: "day d = days_in_month (year d) (month d)" by (simp add: valid_date_def)
  show ?thesis
  proof (cases "month d < 12")
    case True
    with v False dd show ?thesis by (simp add: next_day_def prev_day_def valid_date_def)
  next
    case False': False
    with v have "month d = 12" by (simp add: valid_date_def)
    with False False' dd show ?thesis by (cases d) (simp add: next_day_def prev_day_def)
  qed
qed

lemma valid_prev_day: "valid_date d \<Longrightarrow> valid_date (prev_day d)"
  by (auto simp: valid_date_def prev_day_def)

lemma next_prev_day:
  assumes v: "valid_date d"
  shows "next_day (prev_day d) = d"
proof (cases "1 < day d")
  case True
  with v have "day d - 1 < days_in_month (year d) (month d)" unfolding valid_date_def by linarith
  with True show ?thesis by (simp add: next_day_def prev_day_def)
next
  case False
  with v have d1: "day d = 1" by (simp add: valid_date_def)
  show ?thesis
  proof (cases "1 < month d")
    case True
    with v d1 show ?thesis by (simp add: next_day_def prev_day_def valid_date_def)
  next
    case False': False
    with v have "month d = 1" by (simp add: valid_date_def)
    with d1 show ?thesis by (cases d) (simp add: next_day_def prev_day_def)
  qed
qed

lemma day_number_prev_day: "valid_date d \<Longrightarrow> day_number (prev_day d) = day_number d - 1"
  using day_number_next_day[OF valid_prev_day, of d] next_prev_day[of d] by simp

lemma valid_funpow_next: "valid_date d \<Longrightarrow> valid_date ((next_day ^^ n) d)"
  by (induction n) (simp_all add: valid_next_day)

lemma valid_funpow_prev: "valid_date d \<Longrightarrow> valid_date ((prev_day ^^ n) d)"
  by (induction n) (simp_all add: valid_prev_day)

lemma valid_shift_days: "valid_date d \<Longrightarrow> valid_date (shift_days k d)"
  by (simp add: shift_days_def valid_funpow_next valid_funpow_prev)

lemma day_number_funpow_next: "valid_date d \<Longrightarrow> day_number ((next_day ^^ n) d) = day_number d + int n"
  by (induction n) (simp_all add: day_number_next_day valid_funpow_next)

lemma day_number_funpow_prev: "valid_date d \<Longrightarrow> day_number ((prev_day ^^ n) d) = day_number d - int n"
  by (induction n) (simp_all add: day_number_prev_day valid_funpow_prev)

lemma day_number_shift_days: "valid_date d \<Longrightarrow> day_number (shift_days k d) = day_number d + k"
  by (simp add: shift_days_def day_number_funpow_next day_number_funpow_prev)

text \<open>East of UTC, or at UTC, the local date of UTC midnight is the date itself.\<close>

lemma local_date_east: "0 \<le> off \<Longrightarrow> off < 1440 \<Longrightarrow> local_date off d = d"
  by (simp add: local_date_def shift_days_def)

text \<open>West of UTC (within a day) it is the day before.\<close>

lemma local_date_west: "- 1440 \<le> off \<Longrightarrow> off < 0 \<Longrightarrow> local_date off d = prev_day d"
proof -
  assume "- 1440 \<le> off" "off < 0"
  then have "off div 1440 = - 1" by (intro int_div_pos_eq[of off 1440 "-1" "off + 1440"]) simp_all
  then show ?thesis by (simp add: local_date_def shift_days_def)
qed

subsection \<open>Round trip of the date format\<close>

lemma length_pad_field:
  "n < 10 ^ k \<Longrightarrow> 0 < k \<Longrightarrow> length (pad_start k CHR ''0'' (string_of_nat n)) = k"
  using length_string_of_nat_le[of n k] by simp

lemma parse_format_iso_date:
  assumes v: "valid_date d" and y: "0 \<le> year d" "year d < 10000"
  shows "parse_iso_date (format_iso_date d) = Some d"
proof -
  let ?Y = "pad_start 4 CHR ''0'' (string_of_nat (nat (year d)))"
  let ?M = "pad_start 2 CHR ''0'' (string_of_nat (month d))"
  let ?D = "pad_start 2 CHR ''0'' (string_of_nat (day d))"
  have lY: "length ?Y = 4" using y by (intro length_pad_field) simp_all
  have lM: "length ?M = 2" using v by (intro length_pad_field) (simp_all add: valid_date_def)
  have "day d \<le> 31" using v days_in_month_le31[of "year d" "month d"] by (simp add: valid_date_def)
  then have lD: "length ?D = 2" by (intro length_pad_field) simp_all
  have s: "format_iso_date d = ?Y @ CHR ''-'' # ?M @ CHR ''-'' # ?D"
    by (simp add: format_iso_date_def)
  have "\<lparr>year = int (nat (year d)), month = month d, day = day d\<rparr> = d"
    using y by (cases d) simp
  with v show ?thesis
    unfolding s parse_iso_date_def using lY lM lD by (simp add: nth_append)
qed

lemma parse_iso_date_valid: "parse_iso_date s = Some d \<Longrightarrow> valid_date d"
  by (auto simp: parse_iso_date_def Let_def split: if_splits option.splits)

end
