(* ===== verification/Attendance.thy ===== *)
theory Attendance
  imports Calendar "HOL-Library.Multiset"
begin

text \<open>
  Attendance records of the employee dashboard (\<^verbatim>\<open>employee_dashboard.js\<close>):
  the cached record \<open>attendance\<close> built from the backend's JSON by \<open>att_of_raw\<close>
  (\<^verbatim>\<open>loadMyData\<close>), the monthly statistics of \<^verbatim>\<open>refreshDashboard\<close> and
  \<^verbatim>\<open>renderMyProfile\<close> (present and absent days, attendance rate), the recent-records
  slice, the date-descending table of \<^verbatim>\<open>loadMyAttendance\<close>, and
  \<^verbatim>\<open>calculateWorkingHours\<close> with JavaScript's \<open>Math.floor\<close> and \<open>%\<close>.
  A JavaScript number that is an integer or \<open>NaN\<close> is an \<open>int option\<close>.
\<close>

type_synonym js_num = "int option"

subsection \<open>Records\<close>

text \<open>The backend's JSON object for one attendance record (snake_case fields).\<close>

record att_raw =
  raw_att_id :: nat
  raw_employee :: nat
  raw_date :: string
  raw_status :: string
  raw_clock_in :: "string option"
  raw_clock_out :: "string option"
  raw_notes :: "string option"

record attendance =
  att_id :: nat
  att_employeeId :: nat
  att_date :: string
  att_status :: string
  clockIn :: "string option"
  clockOut :: "string option"
  att_notes :: string

definition att_of_raw :: "att_raw \<Rightarrow> attendance" where
  "att_of_raw a =
     \<lparr>att_id = raw_att_id a, att_employeeId = raw_employee a, att_date = raw_date a,
      att_status = raw_status a, clockIn = raw_clock_in a, clockOut = raw_clock_out a,
      att_notes = js_or (raw_notes a) ''''\<rparr>"

subsection \<open>Monthly statistics\<close>

text \<open>
  \<open>new Date(a.date)\<close> read with \<open>getMonth()\<close>/\<open>getFullYear()\<close> in the zone \<open>off\<close>;
  \<open>today\<close> is \<open>new Date()\<close> read in the same zone. An invalid date compares unequal.
\<close>

definition in_month :: "int \<Rightarrow> date \<Rightarrow> string \<Rightarrow> bool" where
  "in_month off today s =
     (case js_local_date off s of
        None \<Rightarrow> False
      | Some dt \<Rightarrow> js_get_month dt = js_get_month today \<and> year dt = year today)"

definition month_attendance :: "int \<Rightarrow> date \<Rightarrow> attendance list \<Rightarrow> attendance list" where
  "month_attendance off today xs = filter (\<lambda>a. in_month off today (att_date a)) xs"

definition is_present :: "attendance \<Rightarrow> bool" where
  "is_present a = (att_status a = ''Present'' \<or> att_status a = ''Late'')"

definition present_days :: "int \<Rightarrow> date \<Rightarrow> attendance list \<Rightarrow> nat" where
  "present_days off today xs = length (filter is_present (month_attendance off today xs))"

definition absent_days :: "int \<Rightarrow> date \<Rightarrow> attendance list \<Rightarrow> nat" where
  "absent_days off today xs =
     length (filter (\<lambda>a. att_status a = ''Absent'') (month_attendance off today xs))"

definition working_days :: nat where
  "working_days = 22"

text \<open>\<open>Math.round(x)\<close> is \<open>\<lfloor>x + 1/2\<rfloor>\<close>.\<close>

definition js_round :: "rat \<Rightarrow> int" where
  "js_round x = \<lfloor>x + 1 / 2\<rfloor>"

definition attendance_rate :: "nat \<Rightarrow> int" where
  "attendance_rate present =
     (if 0 < working_days then js_round (of_nat present / of_nat working_days * 100) else 0)"

subsection \<open>Recent records and the sorted table\<close>

text \<open>\<open>myAttendance.slice(-7).reverse()\<close>.\<close>

definition recent_attendance :: "attendance list \<Rightarrow> attendance list" where
  "recent_attendance xs = rev (slice_last 7 xs)"

text \<open>
  \<open>[...myAttendance].sort((a, b) => new Date(b.date) - new Date(a.date))\<close>: the sort is
  stable; with an invalid date the comparator returns \<open>NaN\<close> and the order is
  implementation-defined, which is \<open>None\<close>.
\<close>

definition sorted_attendance :: "attendance list \<Rightarrow> attendance list option" where
  "sorted_attendance xs =
     (if list_all (\<lambda>a. parse_iso_date (att_date a) \<noteq> None) xs
      then Some (sort_key (\<lambda>a. - day_number (the (parse_iso_date (att_date a)))) xs)
      else None)"

subsection \<open>Working hours\<close>

text \<open>
  \<open>Number(s)\<close> on the parts of a backend time: a string of decimal digits, or the
  empty string (\<open>0\<close>); any other string is \<open>NaN\<close>. An \<open>undefined\<close> part is \<open>NaN\<close>.
\<close>

definition js_number :: "string option \<Rightarrow> js_num" where
  "js_number s =
     (case s of None \<Rightarrow> None | Some t \<Rightarrow> if t = [] then Some 0 else map_option int (digits_val t))"

text \<open>\<open>a % b\<close>: the remainder takes the sign of the dividend.\<close>

definition js_rem :: "int \<Rightarrow> int \<Rightarrow> int" where
  "js_rem a b = sgn a * (\<bar>a\<bar> mod \<bar>b\<bar>)"

definition js_num_string :: "js_num \<Rightarrow> string" where
  "js_num_string n = (case n of None \<Rightarrow> ''NaN'' | Some i \<Rightarrow> string_of_int i)"

text \<open>The hours and minutes \<^verbatim>\<open>calculateWorkingHours\<close> computes, before printing.\<close>

definition working_parts :: "string \<Rightarrow> string \<Rightarrow> js_num \<times> js_num" where
  "working_parts cin cout =
     (let ins = split_on CHR '':'' cin; outs = split_on CHR '':'' cout;
          inH = js_number (js_nth ins 0); inM = js_number (js_nth ins 1);
          outH = js_number (js_nth outs 0); outM = js_number (js_nth outs 1);
          diff = (case (inH, inM, outH, outM) of
                    (Some a, Some b, Some c, Some d) \<Rightarrow> Some ((c * 60 + d) - (a * 60 + b))
                  | _ \<Rightarrow> None)
      in (map_option (\<lambda>x. x div 60) diff, map_option (\<lambda>x. js_rem x 60) diff))"

definition calculateWorkingHours :: "string option \<Rightarrow> string option \<Rightarrow> string" where
  "calculateWorkingHours cin cout =
     (if \<not> js_truthy cin \<or> \<not> js_truthy cout then ''-''
      else (case working_parts (the cin) (the cout) of
              (h, m) \<Rightarrow> js_num_string h @ ''h '' @ js_num_string m @ ''m''))"

text \<open>One row of the attendance table: date, status, clock-in, clock-out, hours, notes.\<close>

definition attendance_row :: "attendance \<Rightarrow> string list" where
  "attendance_row r =
     [att_date r, att_status r, js_or (clockIn r) ''-'', js_or (clockOut r) ''-'',
      calculateWorkingHours (clockIn r) (clockOut r), js_or (Some (att_notes r)) ''-'']"

subsection \<open>Properties of the statistics\<close>

lemma attendance_rate_div: "attendance_rate p = (200 * int p + 22) div 44"
proof -
  have e: "of_nat p / of_nat 22 * 100 + 1 / 2 = (of_int (200 * int p + 22) / of_int 44 :: rat)"
    by (simp add: field_simps)
  have "attendance_rate p = \<lfloor>of_int (200 * int p + 22) / of_int 44 :: rat\<rfloor>"
    unfolding attendance_rate_def working_days_def js_round_def e by simp
  then show ?thesis by (simp only: floor_divide_of_int_eq)
qed

subsection \<open>Working hours on backend times\<close>

text \<open>A backend time \<open>HH:MM\<close>, possibly followed by \<open>:SS\<close>.\<close>

definition format_hhmm :: "nat \<Rightarrow> nat \<Rightarrow> string" where
  "format_hhmm h m = pad_start 2 CHR ''0'' (string_of_nat h) @ '':'' @ pad_start 2 CHR ''0'' (string_of_nat m)"

lemma split_on_time:
  assumes "sfx = [] \<or> (\<exists>ss. sfx = CHR '':'' # ss)"
  shows "js_nth (split_on CHR '':'' (format_hhmm h m @ sfx)) 0 = Some (pad_start 2 CHR ''0'' (string_of_nat h))
       \<and> js_nth (split_on CHR '':'' (format_hhmm h m @ sfx)) 1 = Some (pad_start 2 CHR ''0'' (string_of_nat m))"
proof -
  let ?H = "pad_start 2 CHR ''0'' (string_of_nat h)"
  let ?M = "pad_start 2 CHR ''0'' (string_of_nat m)"
  have nh: "CHR '':'' \<notin> set ?H" and nm: "CHR '':'' \<notin> set ?M"
    by (simp_all add: digits_no_char)
  have "split_on CHR '':'' (format_hhmm h m @ sfx) = ?H # split_on CHR '':'' (?M @ sfx)"
    using nh split_on_sep[of "CHR '':''" ?H "?M @ sfx"] by (simp add: format_hhmm_def)
  moreover have "\<exists>r. split_on CHR '':'' (?M @ sfx) = ?M # r"
    using assms nm split_on_sep[of "CHR '':''" ?M] by auto
  ultimately show ?thesis by auto
qed

lemma js_number_field [simp]: "js_number (Some (pad_start 2 CHR ''0'' (string_of_nat n))) = Some (int n)"
  by (simp add: js_number_def)

lemma working_parts_format:
  fixes h1 m1 h2 m2 :: nat
  assumes "sfx1 = [] \<or> (\<exists>ss. sfx1 = CHR '':'' # ss)" "sfx2 = [] \<or> (\<exists>ss. sfx2 = CHR '':'' # ss)"
  defines "d \<equiv> int (h2 * 60 + m2) - int (h1 * 60 + m1)"
  shows "working_parts (format_hhmm h1 m1 @ sfx1) (format_hhmm h2 m2 @ sfx2) = (Some (d div 60), Some (js_rem d 60))"
  using split_on_time[OF assms(1), of h1 m1] split_on_time[OF assms(2), of h2 m2]
  by (simp add: working_parts_def Let_def d_def)

lemma js_rem_nonneg: "0 \<le> a \<Longrightarrow> js_rem a b = a mod \<bar>b\<bar>"
  by (cases "a = 0") (simp_all add: js_rem_def)

lemma js_num_string_nat [simp]: "js_num_string (Some (int n)) = string_of_nat n"
  by (simp add: js_num_string_def string_of_int_def)

lemma format_hhmm_nonempty [simp]: "format_hhmm h m \<noteq> []"
  by (simp add: format_hhmm_def)

subsection \<open>Theorems\<close>

text \<open>
  C22: the attendance rate is \<open>100 \<times> presentDays / 22\<close> rounded to the nearest integer,
  halves upwards, as \<open>Math.round\<close> does.
\<close>

theorem attendance_rate_nearest:
  "of_int (attendance_rate p) - 1 / 2 \<le> (of_nat p * 100 / 22 :: rat)
   \<and> (of_nat p * 100 / 22 :: rat) < of_int (attendance_rate p) + 1 / 2"
proof -
  have "attendance_rate p = \<lfloor>of_nat p * 100 / 22 + 1 / 2 :: rat\<rfloor>"
    by (simp add: attendance_rate_def working_days_def js_round_def)
  then show ?thesis by linarith
qed

text \<open>
  C23: the rate stays within 100\% exactly when at most 22 records of the month count as
  present; the code does not cap it, so a month with more present or late records than
  the assumed 22 working days shows a rate above 100\%.
\<close>

theorem attendance_rate_le_100: "attendance_rate p \<le> 100 \<longleftrightarrow> p \<le> 22"
  by (simp add: attendance_rate_div) linarith

text \<open>
  C24: on backend times \<open>HH:MM\<close> or \<open>HH:MM:SS\<close> with the clock-out not before the
  clock-in, \<^verbatim>\<open>calculateWorkingHours\<close> prints the elapsed minutes as whole hours and the
  remaining minutes.
\<close>

theorem calculateWorkingHours_correct:
  assumes "sfx1 = [] \<or> (\<exists>ss. sfx1 = CHR '':'' # ss)" "sfx2 = [] \<or> (\<exists>ss. sfx2 = CHR '':'' # ss)"
    and le: "h1 * 60 + m1 \<le> h2 * 60 + m2"
  shows "calculateWorkingHours (Some (format_hhmm h1 m1 @ sfx1)) (Some (format_hhmm h2 m2 @ sfx2)) =
         string_of_nat (((h2 * 60 + m2) - (h1 * 60 + m1)) div 60) @ ''h '' @
         string_of_nat (((h2 * 60 + m2) - (h1 * 60 + m1)) mod 60) @ ''m''"
proof -
  let ?d = "(h2 * 60 + m2) - (h1 * 60 + m1)"
  have d: "int (h2 * 60 + m2) - int (h1 * 60 + m1) = int ?d" using le by simp
  have "int ?d div 60 = int (?d div 60)" "js_rem (int ?d) 60 = int (?d mod 60)"
    by (simp_all add: zdiv_int js_rem_nonneg zmod_int)
  then show ?thesis
    using working_parts_format[OF assms(1,2), of h1 m1 h2 m2]
    by (simp add: calculateWorkingHours_def d del: of_nat_add of_nat_mult)
qed

text \<open>
  C25: when the clock-out is earlier than the clock-in (a night shift across midnight,
  or a wrong record) the hours are rounded down by \<open>Math.floor\<close> but the minutes keep
  the sign of the difference under \<open>%\<close>: 22:00 to 21:30, thirty minutes back, is
  printed as \<open>-1h -30m\<close>, which reads as minus ninety minutes.
\<close>

theorem calculateWorkingHours_negative:
  "calculateWorkingHours (Some ''22:00'') (Some ''21:30'') = ''-1h -30m''"
proof -
  have a: "format_hhmm 22 0 = ''22:00''" "format_hhmm 21 30 = ''21:30''"
    by (simp_all add: format_hhmm_def pad_start_def string_of_nat.simps digit_char_def)
  have "working_parts ''22:00'' ''21:30'' = (Some (- 1), Some (- 30))"
    using working_parts_format[of "[]" "[]" 22 0 21 30] a by (simp add: js_rem_def)
  then show ?thesis
    by (simp add: calculateWorkingHours_def js_num_string_def string_of_int_def
        string_of_nat.simps digit_char_def)
qed

lemma in_month_east:
  assumes "0 \<le> off" "off < 1440" "parse_iso_date s = Some d" "valid_date today"
  shows "in_month off today s \<longleftrightarrow> month d = month today \<and> year d = year today"
proof -
  have "valid_date d" using assms(3) by (rule parse_iso_date_valid)
  with assms show ?thesis
    by (auto simp: in_month_def js_local_date_def local_date_east js_get_month_def valid_date_def)
qed

lemma in_month_west:
  assumes "- 1440 \<le> off" "off < 0" "parse_iso_date s = Some d"
  shows "in_month off today s \<longleftrightarrow>
           js_get_month (prev_day d) = js_get_month today \<and> year (prev_day d) = year today"
  using assms by (simp add: in_month_def js_local_date_def local_date_west)

text \<open>
  C26: in a time zone at or east of UTC (the deployment's UTC+8 included), a record counts
  towards the current month's present days exactly when its \<open>YYYY-MM-DD\<close> date lies in
  that month and it is \<open>Present\<close> or \<open>Late\<close>.
\<close>

theorem present_days_east:
  assumes "0 \<le> off" "off < 1440" "valid_date today"
    and "list_all (\<lambda>a. parse_iso_date (att_date a) \<noteq> None) xs"
  shows "present_days off today xs =
           length (filter (\<lambda>a. is_present a \<and>
                     month (the (parse_iso_date (att_date a))) = month today \<and>
                     year (the (parse_iso_date (att_date a))) = year today) xs)"
  using assms(4)
proof (induction xs)
  case Nil
  then show ?case by (simp add: present_days_def month_attendance_def)
next
  case (Cons a xs)
  then obtain d where d: "parse_iso_date (att_date a) = Some d" by auto
  with Cons show ?case
    using in_month_east[OF assms(1,2) d assms(3)]
    by (auto simp: present_days_def month_attendance_def)
qed

lemma parse_2024_03_01: "parse_iso_date ''2024-03-01'' = Some \<lparr>year = 2024, month = 3, day = 1\<rparr>"
proof -
  have "format_iso_date \<lparr>year = 2024, month = 3, day = 1\<rparr> = ''2024-03-01''"
    by (simp add: format_iso_date_def pad_start_def string_of_nat.simps digit_char_def)
  moreover have "valid_date \<lparr>year = 2024, month = 3, day = 1\<rparr>"
    by (simp add: valid_date_def days_in_month_def)
  ultimately show ?thesis using parse_format_iso_date by fastforce
qed

lemma parse_2024_04_01: "parse_iso_date ''2024-04-01'' = Some \<lparr>year = 2024, month = 4, day = 1\<rparr>"
proof -
  have "format_iso_date \<lparr>year = 2024, month = 4, day = 1\<rparr> = ''2024-04-01''"
    by (simp add: format_iso_date_def pad_start_def string_of_nat.simps digit_char_def)
  moreover have "valid_date \<lparr>year = 2024, month = 4, day = 1\<rparr>"
    by (simp add: valid_date_def days_in_month_def)
  ultimately show ?thesis using parse_format_iso_date by fastforce
qed

text \<open>
  C27: west of UTC the month filter is off by one day. \<open>new Date(''2024-03-01'')\<close> is
  midnight UTC, which is the evening of 29 February in New York (UTC-5), so on
  15 March 2024 a \<open>Present\<close> record dated 1 March is not counted and one dated
  1 April is.
\<close>

theorem present_days_west_shift:
  "present_days (- 300) \<lparr>year = 2024, month = 3, day = 15\<rparr>
      [\<lparr>att_id = 1, att_employeeId = 1, att_date = ''2024-03-01'', att_status = ''Present'',
        clockIn = None, clockOut = None, att_notes = ''''\<rparr>] = 0
   \<and> present_days (- 300) \<lparr>year = 2024, month = 3, day = 15\<rparr>
      [\<lparr>att_id = 2, att_employeeId = 1, att_date = ''2024-04-01'', att_status = ''Present'',
        clockIn = None, clockOut = None, att_notes = ''''\<rparr>] = 1"
  using in_month_west[OF _ _ parse_2024_03_01, of "- 300"] in_month_west[OF _ _ parse_2024_04_01, of "- 300"]
  by (simp add: present_days_def month_attendance_def is_present_def prev_day_def
      days_in_month_def is_leap_def js_get_month_def)

text \<open>The sort key: newest date first (\<open>new Date(b.date) - new Date(a.date)\<close>).\<close>

definition att_day :: "attendance \<Rightarrow> int" where
  "att_day a = day_number (the (parse_iso_date (att_date a)))"

text \<open>
  C28: when every record's date parses, the attendance table holds the same records,
  newest date first, and records of the same day keep the order the backend sent
  them in (the sort is stable).
\<close>

theorem sorted_attendance_correct:
  assumes "sorted_attendance xs = Some ys"
  shows "mset ys = mset xs \<and> sorted_wrt (\<lambda>a b. att_day b \<le> att_day a) ys
         \<and> (\<forall>k. filter (\<lambda>a. att_day a = k) ys = filter (\<lambda>a. att_day a = k) xs)"
proof -
  have ys: "ys = sort_key (\<lambda>a. - att_day a) xs"
    using assms by (simp add: sorted_attendance_def att_day_def split: if_splits)
  have "sorted (map (\<lambda>a. - att_day a) ys)" by (simp add: ys)
  then have "sorted_wrt (\<lambda>a b. att_day b \<le> att_day a) ys"
    by (simp add: sorted_map)
  moreover have "filter (\<lambda>a. att_day a = k) ys = filter (\<lambda>a. att_day a = k) xs" for k
    using sort_key_stable[of "\<lambda>a. - att_day a" "- k" xs] by (simp add: ys)
  ultimately show ?thesis by (simp add: ys)
qed


end
