(* ===== verification/Leave.thy ===== *)
theory Leave
  imports Attendance
begin

text \<open>
  Leave requests of the employee dashboard (\<^verbatim>\<open>employee_dashboard.js\<close>): the cached
  record \<open>leave\<close> built by \<open>leave_of_raw\<close> (\<^verbatim>\<open>loadMyData\<close>), the day count that
  \<^verbatim>\<open>handleLeaveRequest\<close> computes from two dates before posting, the leave days taken
  this year (\<^verbatim>\<open>refreshDashboard\<close>, \<^verbatim>\<open>renderMyProfile\<close>) and the counters of
  \<^verbatim>\<open>renderMyLeaves\<close>.
\<close>

record leave_raw =
  raw_leave_id :: nat
  raw_leave_employee :: nat
  raw_leave_type :: string
  raw_start_date :: string
  raw_end_date :: string
  raw_days :: int
  raw_leave_status :: string
  raw_reason :: "string option"

record leave =
  leave_id :: nat
  leave_employeeId :: nat
  leave_type :: string
  startDate :: string
  endDate :: string
  days :: int
  leave_status :: string
  reason :: string

definition leave_of_raw :: "leave_raw \<Rightarrow> leave" where
  "leave_of_raw l =
     \<lparr>leave_id = raw_leave_id l, leave_employeeId = raw_leave_employee l,
      leave_type = raw_leave_type l, startDate = raw_start_date l, endDate = raw_end_date l,
      days = raw_days l, leave_status = raw_leave_status l, reason = js_or (raw_reason l) ''''\<rparr>"

subsection \<open>The day count of a new request\<close>

text \<open>\<open>Math.ceil(a / b)\<close> for integers, \<open>b > 0\<close>.\<close>

definition js_ceil_div :: "int \<Rightarrow> int \<Rightarrow> int" where
  "js_ceil_div a b = - ((- a) div b)"

definition ms_per_day :: int where
  "ms_per_day = 1000 * 60 * 60 * 24"

text \<open>
  \<open>Math.ceil(Math.abs(end - start) / (1000*60*60*24)) + 1\<close> on \<open>new Date(startDate)\<close> and
  \<open>new Date(endDate)\<close> (both midnight UTC); an invalid date makes it \<open>NaN\<close>.
\<close>

definition request_days :: "string \<Rightarrow> string \<Rightarrow> js_num" where
  "request_days s e =
     (case (parse_iso_date s, parse_iso_date e) of
        (Some a, Some b) \<Rightarrow>
          (let diffTime = \<bar>day_number b * ms_per_day - day_number a * ms_per_day\<bar>
           in Some (js_ceil_div diffTime ms_per_day + 1))
      | _ \<Rightarrow> None)"

subsection \<open>Statistics\<close>

definition approved_this_year :: "int \<Rightarrow> date \<Rightarrow> leave \<Rightarrow> bool" where
  "approved_this_year off today l =
     ((case js_local_date off (startDate l) of None \<Rightarrow> False | Some d \<Rightarrow> year d = year today)
      \<and> leave_status l = ''Approved'')"

definition leaves_taken :: "int \<Rightarrow> date \<Rightarrow> leave list \<Rightarrow> int" where
  "leaves_taken off today ls = foldl (\<lambda>sum l. sum + days l) 0 (filter (approved_this_year off today) ls)"

definition pending_leaves :: "leave list \<Rightarrow> leave list" where
  "pending_leaves ls = filter (\<lambda>l. leave_status l = ''Pending'') ls"

definition count_status :: "string \<Rightarrow> leave list \<Rightarrow> nat" where
  "count_status st ls = length (filter (\<lambda>l. leave_status l = st) ls)"

subsection \<open>Properties\<close>

lemma js_ceil_div_mult: "0 < b \<Longrightarrow> js_ceil_div (k * b) b = k"
  unfolding js_ceil_div_def by (metis minus_minus minus_mult_left nonzero_mult_div_cancel_right less_irrefl)

lemma request_days_dates:
  assumes "parse_iso_date s = Some a" "parse_iso_date e = Some b"
  shows "request_days s e = Some (\<bar>day_number b - day_number a\<bar> + 1)"
proof -
  have pos: "0 < ms_per_day" by (simp add: ms_per_day_def)
  have "day_number b * ms_per_day - day_number a * ms_per_day = (day_number b - day_number a) * ms_per_day"
    by (simp only: left_diff_distrib)
  then have "\<bar>day_number b * ms_per_day - day_number a * ms_per_day\<bar> = \<bar>day_number b - day_number a\<bar> * ms_per_day"
    using pos by (simp add: abs_mult)
  then show ?thesis using assms pos by (simp add: request_days_def js_ceil_div_mult)
qed

lemma foldl_plus_sum: "foldl (\<lambda>s l. s + f l) a xs = a + sum_list (map f xs)"
  by (induction xs arbitrary: a) (simp_all add: add.assoc)

text \<open>
  C29: for two dates that parse, the day count the client posts is the number of
  calendar days from the start to the end inclusive: \<open>n\<close> days after the start gives
  \<open>n + 1\<close>.
\<close>

theorem request_days_inclusive:
  assumes "parse_iso_date s = Some a" "parse_iso_date e = Some ((next_day ^^ n) a)"
  shows "request_days s e = Some (int n + 1)"
proof -
  have "valid_date a" using assms(1) by (rule parse_iso_date_valid)
  then have "day_number ((next_day ^^ n) a) = day_number a + int n"
    by (rule day_number_funpow_next)
  then show ?thesis using request_days_dates[OF assms] by simp
qed

text \<open>
  C30: the day count is symmetric in the two dates (\<open>Math.abs\<close>): a request whose end
  precedes its start is posted with the same positive count as the swapped request,
  where the specification's \<open>end - start + 1\<close> would be zero or negative.
\<close>

theorem request_days_swap: "request_days s e = request_days e s"
proof (cases "parse_iso_date s")
  case None
  then show ?thesis by (simp add: request_days_def split: option.split)
next
  case (Some a)
  show ?thesis
  proof (cases "parse_iso_date e")
    case None
    then show ?thesis by (simp add: request_days_def split: option.split)
  next
    case (Some b)
    with \<open>parse_iso_date s = Some a\<close> show ?thesis
      using request_days_dates abs_minus_commute by metis
  qed
qed

end
