(* ===== verification/Payroll.thy ===== *)
theory Payroll
  imports Prelude "HOL-Library.Multiset"
begin

text \<open>
  Payroll records as the employee dashboard receives them (\<^verbatim>\<open>loadMyData\<close> keeps the
  backend's objects as they are), the year-then-month descending order of
  \<^verbatim>\<open>renderMyPayroll\<close>, and the cells of one table row. The backend serialises the
  decimal amounts as strings; the row template is kept cell by cell.
\<close>

record payroll =
  pay_id :: nat
  pay_employee :: nat
  pay_month :: int
  pay_year :: int
  basic_salary :: string
  allowances :: string
  overtime :: string
  deductions :: string
  net_salary :: string

text \<open>
  \<open>sort((a, b) => b.year !== a.year ? b.year - a.year : b.month - a.month)\<close>:
  a stable sort on the key \<open>(-year, -month)\<close>.
\<close>

definition sorted_payroll :: "payroll list \<Rightarrow> payroll list" where
  "sorted_payroll ps = sort_key (\<lambda>p. (- pay_year p, - pay_month p)) ps"

text \<open>
  The cells of one row of \<^verbatim>\<open>renderMyPayroll\<close> (lines 476-486). The amount cells are written
  \<^verbatim>\<open>{parseFloat(payroll.basic_salary).toLocaleString()}\<close> without the \<^verbatim>\<open>$\<close> of a
  template substitution, so the browser prints that text itself. The period cell is
  abstracted to the month number and year (\<open>toLocaleString\<close> of the month name is not
  modelled); the last cell is the button calling \<open>viewMyPayslip(id)\<close>.
\<close>

definition payroll_row :: "payroll \<Rightarrow> string list" where
  "payroll_row p =
     [string_of_int (pay_month p) @ '' '' @ string_of_int (pay_year p),
      ''{parseFloat(payroll.basic_salary).toLocaleString()}'',
      ''+{parseFloat(payroll.allowances).toLocaleString()}'',
      ''+{parseFloat(payroll.overtime).toLocaleString()}'',
      ''-{parseFloat(payroll.deductions).toLocaleString()}'',
      ''{parseFloat(payroll.net_salary).toLocaleString()}'',
      ''viewMyPayslip('' @ string_of_nat (pay_id p) @ '')'']"

text \<open>The table body: a placeholder row when there is no record.\<close>

datatype payroll_table = NoPayroll | PayrollRows "string list list"

definition render_payroll :: "payroll list \<Rightarrow> payroll_table" where
  "render_payroll ps =
     (let sorted = sorted_payroll ps in
      if sorted = [] then NoPayroll else PayrollRows (map payroll_row sorted))"

subsection \<open>Properties\<close>

text \<open>
  C31: the payroll table never shows the amounts: two records for the same period and
  id render identical rows whatever their basic salary, allowances, overtime, deductions
  and net salary.
\<close>

theorem payroll_row_ignores_amounts:
  "pay_id p = pay_id q \<Longrightarrow> pay_month p = pay_month q \<Longrightarrow> pay_year p = pay_year q \<Longrightarrow>
   payroll_row p = payroll_row q"
  by (simp add: payroll_row_def)

text \<open>
  C32: the payroll table lists every record once, latest year first and, within a year,
  latest month first; records of the same period keep the backend's order.
\<close>

theorem sorted_payroll_correct:
  "mset (sorted_payroll ps) = mset ps
   \<and> sorted_wrt (\<lambda>a b. pay_year b < pay_year a \<or> (pay_year b = pay_year a \<and> pay_month b \<le> pay_month a))
       (sorted_payroll ps)
   \<and> (\<forall>k. filter (\<lambda>p. (pay_year p, pay_month p) = k) (sorted_payroll ps)
           = filter (\<lambda>p. (pay_year p, pay_month p) = k) ps)"
proof -
  let ?f = "\<lambda>p. (- pay_year p, - pay_month p)"
  have "sorted (map ?f (sorted_payroll ps))" by (simp add: sorted_payroll_def)
  then have s: "sorted_wrt (\<lambda>a b. ?f a \<le> ?f b) (sorted_payroll ps)" by (simp add: sorted_map)
  have "sorted_wrt (\<lambda>a b. pay_year b < pay_year a \<or> (pay_year b = pay_year a \<and> pay_month b \<le> pay_month a))
       (sorted_payroll ps)"
    by (rule sorted_wrt_mono_rel[OF _ s]) (auto simp: less_eq_prod_def)
  moreover have "filter (\<lambda>p. (pay_year p, pay_month p) = k) (sorted_payroll ps)
           = filter (\<lambda>p. (pay_year p, pay_month p) = k) ps" for k
  proof -
    have "filter (\<lambda>p. ?f p = (- fst k, - snd k)) (sorted_payroll ps) = filter (\<lambda>p. ?f p = (- fst k, - snd k)) ps"
      unfolding sorted_payroll_def by (rule sort_key_stable)
    then show ?thesis by (cases k) simp
  qed
  ultimately show ?thesis by (simp add: sorted_payroll_def)
qed

end
