(* ===== verification/Session.thy ===== *)
theory Session
  imports Prelude
begin

text \<open>
  The session guard of the employee dashboard (\<^verbatim>\<open>employee_dashboard.js\<close>,
  \<^verbatim>\<open>checkAuth\<close>, \<^verbatim>\<open>loadUserInfo\<close>, \<^verbatim>\<open>handleLogout\<close>). Local storage holds strings
  under the keys \<open>token\<close> and \<open>user\<close>; \<open>JSON.parse\<close> is the browser's, given as a
  parameter \<open>parse\<close> that returns \<open>None\<close> where it throws.
\<close>

record user =
  role :: string
  u_first_name :: "string option"
  u_last_name :: "string option"
  u_email :: string
  username :: "string option"

record storage =
  st_token :: "string option"
  st_user :: "string option"

datatype auth = Redirect string | Authed user | ParseError

text \<open>\<^verbatim>\<open>checkAuth\<close>: both keys must be present and non-empty, the user must be an employee.\<close>

definition checkAuth :: "(string \<Rightarrow> user option) \<Rightarrow> storage \<Rightarrow> auth" where
  "checkAuth parse st =
     (if \<not> js_truthy (st_token st) \<or> \<not> js_truthy (st_user st) then Redirect ''/login''
      else (case parse (the (st_user st)) of
              None \<Rightarrow> ParseError
            | Some u \<Rightarrow> if role u \<noteq> ''employee'' then Redirect ''/'' else Authed u))"

subsection \<open>The user panel\<close>

definition first_char :: "string option \<Rightarrow> string option" where
  "first_char s = (case s of None \<Rightarrow> None | Some t \<Rightarrow> str_at0 t)"

text \<open>
  \<open>toUpperCase()\<close> of one character, with Unicode's case mapping restricted to the
  model's characters (code points below 256): the ASCII and Latin-1 small letters
  become their capitals, the sharp s (U+00DF) becomes the two letters \<open>SS\<close>. The capitals
  of U+00B5 and U+00FF lie above U+00FF and are not characters of the model; they
  are left as they are.
\<close>

definition upper_char :: "char \<Rightarrow> string" where
  "upper_char c =
     (let n = (of_char c :: nat) in
      if (97 \<le> n \<and> n \<le> 122) \<or> (224 \<le> n \<and> n \<le> 254 \<and> n \<noteq> 247) then [char_of (n - 32)]
      else if n = 223 then ''SS'' else [c])"

definition user_initials :: "user \<Rightarrow> string" where
  "user_initials u =
     (let initials = js_or (first_char (u_first_name u)) '''' @ js_or (first_char (u_last_name u)) ''''
      in if initials \<noteq> [] then initials
         else js_or (map_option (\<lambda>t. concat (map upper_char t)) (first_char (username u))) ''?'')"

text \<open>The displayed name; \<open>textContent = undefined\<close> shows nothing.\<close>

definition user_display_name :: "user \<Rightarrow> string" where
  "user_display_name u =
     (if js_truthy (u_first_name u) \<and> js_truthy (u_last_name u)
      then the (u_first_name u) @ '' '' @ the (u_last_name u)
      else (case username u of None \<Rightarrow> '''' | Some n \<Rightarrow> n))"

text \<open>
  \<^verbatim>\<open>handleLogout\<close> after the confirmation: the logout request's outcome is ignored, both
  keys are removed and the page goes to \<^verbatim>\<open>/login\<close>.
\<close>

definition handleLogout :: "bool \<Rightarrow> storage \<Rightarrow> storage \<times> string option" where
  "handleLogout confirmed st =
     (if \<not> confirmed then (st, None) else (st\<lparr>st_token := None, st_user := None\<rparr>, Some ''/login''))"

subsection \<open>Properties\<close>

text \<open>
  C33: the guard admits a page load exactly when a non-empty token and a non-empty user
  are stored, the user parses, and its role is \<open>employee\<close>; an admin (or any other
  role) is sent to \<^verbatim>\<open>/\<close> and a missing token or user to \<^verbatim>\<open>/login\<close>.
\<close>

theorem checkAuth_admits:
  "(checkAuth parse st = Authed u \<longleftrightarrow>
      js_truthy (st_token st) \<and> js_truthy (st_user st) \<and> parse (the (st_user st)) = Some u
      \<and> role u = ''employee'')
   \<and> (checkAuth parse st = Redirect ''/login'' \<longleftrightarrow>
      \<not> js_truthy (st_token st) \<or> \<not> js_truthy (st_user st))"
  by (auto simp: checkAuth_def split: option.split)

text \<open>C34: after a confirmed logout the guard sends every later page load to the login page.\<close>

theorem logout_then_login:
  "handleLogout True st = (st', r) \<Longrightarrow> r = Some ''/login'' \<and> checkAuth parse st' = Redirect ''/login''"
  by (auto simp: handleLogout_def checkAuth_def)

end
