(* ===== verification/Api.thy ===== *)
theory Api
  imports Prelude
begin

text \<open>
  The API client (\<^verbatim>\<open>api.js\<close>) and the shapes of the backend's answers that every
  page shares. A \<^verbatim>\<open>fetch\<close> either rejects (\<open>NetworkError\<close>) or resolves with a status
  and a body that \<open>response.json()\<close> parses (\<open>Json\<close>) or fails to parse (\<open>BadJson\<close>).
  Each wrapper of the \<^verbatim>\<open>api\<close> object is a function from the endpoint, the data and
  the backend's answer to the request it sends and its outcome: \<open>Inr\<close> the resolved
  value, \<open>Inl\<close> what the returned promise rejects with. \<open>JSON.stringify\<close> is a
  parameter \<open>js\<close>. The resource objects (\<^verbatim>\<open>employeeAPI\<close>, \<^verbatim>\<open>attendanceAPI\<close>,
  \<^verbatim>\<open>leaveAPI\<close>, \<^verbatim>\<open>payrollAPI\<close>) differ only in the path, so they are one group of
  definitions over \<open>resource\<close>. \<open>URLSearchParams\<close> serialisation is modelled byte
  for byte on characters below 256.
\<close>

record employee =
  emp_id :: nat
  first_name :: string
  last_name :: string
  email :: string
  department :: string
  position :: string
  salary :: string
  join_date :: string
  emp_status :: string

subsection \<open>Responses\<close>

datatype 'a body = BadJson | Json 'a

datatype 'a response = NetworkError | Response nat "'a body"

text \<open>\<open>data.results || data\<close>: a paginated answer or a bare array.\<close>

datatype 'a listing = Page "'a list" | Bare "'a list"

definition resp_ok :: "nat \<Rightarrow> bool" where
  "resp_ok st = (200 \<le> st \<and> st \<le> 299)"

definition items :: "'a listing \<Rightarrow> 'a list" where
  "items d = (case d of Page xs \<Rightarrow> xs | Bare xs \<Rightarrow> xs)"

definition api_base :: string where
  "api_base = ''http://127.0.0.1:8000/api''"

subsection \<open>The generic wrappers\<close>

datatype http_method = GET | POST | PUT | PATCH | DELETE

text \<open>A request; its body is the value \<open>JSON.stringify\<close> serialises.\<close>

record 'p http_request =
  rq_method :: http_method
  rq_url :: string
  rq_headers :: "(string \<times> string) list"
  rq_body :: "'p option"

text \<open>
  What a wrapper's promise rejects with: the browser's \<open>TypeError\<close> of a rejected
  fetch, the \<open>SyntaxError\<close> of \<open>response.json()\<close>, or an \<open>Error\<close> with a message.
\<close>

datatype api_error = FetchFailed | JsonSyntax | ErrorMessage string

definition http_error :: "nat \<Rightarrow> api_error" where
  "http_error st = ErrorMessage (''HTTP error! status: '' @ string_of_nat st)"

definition json_request :: "http_method \<Rightarrow> string \<Rightarrow> 'p \<Rightarrow> 'p http_request" where
  "json_request m endpoint data =
     \<lparr>rq_method = m, rq_url = api_base @ endpoint, rq_headers = [(''Content-Type'', ''application/json'')],
      rq_body = Some data\<rparr>"

text \<open>\<open>return await response.json()\<close> after the status check.\<close>

definition read_json :: "'a body \<Rightarrow> api_error + 'a" where
  "read_json b = (case b of BadJson \<Rightarrow> Inl JsonSyntax | Json v \<Rightarrow> Inr v)"

definition api_get :: "string \<Rightarrow> 'a response \<Rightarrow> 'p http_request \<times> (api_error + 'a)" where
  "api_get endpoint r =
     (\<lparr>rq_method = GET, rq_url = api_base @ endpoint, rq_headers = [], rq_body = None\<rparr>,
      case r of
        NetworkError \<Rightarrow> Inl FetchFailed
      | Response st b \<Rightarrow> if \<not> resp_ok st then Inl (http_error st) else read_json b)"

text \<open>\<open>post\<close> alone parses a failed answer's body and throws it stringified.\<close>

definition api_post ::
  "('a \<Rightarrow> string) \<Rightarrow> string \<Rightarrow> 'p \<Rightarrow> 'a response \<Rightarrow> 'p http_request \<times> (api_error + 'a)" where
  "api_post js endpoint data r =
     (json_request POST endpoint data,
      case r of
        NetworkError \<Rightarrow> Inl FetchFailed
      | Response st b \<Rightarrow>
          if \<not> resp_ok st then (case b of BadJson \<Rightarrow> Inl JsonSyntax | Json e \<Rightarrow> Inl (ErrorMessage (js e)))
          else read_json b)"

definition api_put :: "string \<Rightarrow> 'p \<Rightarrow> 'a response \<Rightarrow> 'p http_request \<times> (api_error + 'a)" where
  "api_put endpoint data r =
     (json_request PUT endpoint data,
      case r of
        NetworkError \<Rightarrow> Inl FetchFailed
      | Response st b \<Rightarrow> if \<not> resp_ok st then Inl (http_error st) else read_json b)"

text \<open>\<open>patch(endpoint, data = {})\<close>: a caller without data passes \<open>EmptyObject\<close>.\<close>

datatype empty_object = EmptyObject

definition api_patch :: "string \<Rightarrow> 'p \<Rightarrow> 'a response \<Rightarrow> 'p http_request \<times> (api_error + 'a)" where
  "api_patch endpoint data r =
     (json_request PATCH endpoint data,
      case r of
        NetworkError \<Rightarrow> Inl FetchFailed
      | Response st b \<Rightarrow> if \<not> resp_ok st then Inl (http_error st) else read_json b)"

text \<open>\<open>delete\<close> resolves with \<open>true\<close> without reading the body.\<close>

definition api_delete :: "string \<Rightarrow> 'a response \<Rightarrow> 'p http_request \<times> (api_error + bool)" where
  "api_delete endpoint r =
     (\<lparr>rq_method = DELETE, rq_url = api_base @ endpoint, rq_headers = [], rq_body = None\<rparr>,
      case r of
        NetworkError \<Rightarrow> Inl FetchFailed
      | Response st b \<Rightarrow> if \<not> resp_ok st then Inl (http_error st) else Inr True)"

subsection \<open>Query strings\<close>

text \<open>\<open>Array.prototype.join\<close>.\<close>

fun js_join :: "string \<Rightarrow> string list \<Rightarrow> string" where
  "js_join sep [] = []"
| "js_join sep [x] = x"
| "js_join sep (x # xs) = x @ sep @ js_join sep xs"

text \<open>
  The \<open>application/x-www-form-urlencoded\<close> serialiser that
  \<open>new URLSearchParams(params).toString()\<close> applies to each key and value: ASCII
  letters, digits and \<open>*-._\<close> are kept, a space becomes \<open>+\<close>, every other character is
  written as the \<open>%XX\<close> escapes (upper-case hex) of its UTF-8 bytes. A character is a
  code point below 256, so it takes one byte below 128 and two bytes above.
\<close>

definition hex_digit :: "nat \<Rightarrow> char" where
  "hex_digit n = ''0123456789ABCDEF'' ! n"

definition pct :: "nat \<Rightarrow> string" where
  "pct b = [CHR ''%'', hex_digit (b div 16), hex_digit (b mod 16)]"

definition url_unreserved :: "char \<Rightarrow> bool" where
  "url_unreserved c =
     (is_digit c \<or> (65 \<le> (of_char c :: nat) \<and> (of_char c :: nat) \<le> 90)
      \<or> (97 \<le> (of_char c :: nat) \<and> (of_char c :: nat) \<le> 122) \<or> c \<in> set ''*-._'')"

definition form_urlencode_char :: "char \<Rightarrow> string" where
  "form_urlencode_char c =
     (if url_unreserved c then [c]
      else if c = CHR '' '' then ''+''
      else (let n = (of_char c :: nat) in
            if n < 128 then pct n else pct (192 + n div 64) @ pct (128 + n mod 64)))"

definition form_urlencode :: "string \<Rightarrow> string" where
  "form_urlencode s = concat (map form_urlencode_char s)"

definition url_search_params :: "(string \<times> string) list \<Rightarrow> string" where
  "url_search_params ps = js_join ''&'' (map (\<lambda>(k, v). form_urlencode k @ ''='' @ form_urlencode v) ps)"

text \<open>\<open>`/res/${queryString ? '?' + queryString : ''}`\<close>.\<close>

definition query_suffix :: "(string \<times> string) list \<Rightarrow> string" where
  "query_suffix ps = (let q = url_search_params ps in if q = [] then [] else ''?'' @ q)"

subsection \<open>The resource endpoints\<close>

datatype resource = REmployees | RAttendance | RLeaves | RPayroll

definition resource_path :: "resource \<Rightarrow> string" where
  "resource_path res =
     (case res of REmployees \<Rightarrow> ''/employees/'' | RAttendance \<Rightarrow> ''/attendance/''
      | RLeaves \<Rightarrow> ''/leaves/'' | RPayroll \<Rightarrow> ''/payroll/'')"

text \<open>\<open>getAll\<close>, \<open>getById\<close>, \<open>create\<close>, \<open>update\<close> and \<open>delete\<close>, the same in the four objects.\<close>

definition get_all :: "resource \<Rightarrow> (string \<times> string) list \<Rightarrow> 'a response \<Rightarrow> 'p http_request \<times> (api_error + 'a)" where
  "get_all res params r = api_get (resource_path res @ query_suffix params) r"

definition get_by_id :: "resource \<Rightarrow> nat \<Rightarrow> 'a response \<Rightarrow> 'p http_request \<times> (api_error + 'a)" where
  "get_by_id res i r = api_get (resource_path res @ string_of_nat i @ ''/'') r"

definition create :: "('a \<Rightarrow> string) \<Rightarrow> resource \<Rightarrow> 'p \<Rightarrow> 'a response \<Rightarrow> 'p http_request \<times> (api_error + 'a)" where
  "create js res data r = api_post js (resource_path res) data r"

definition update :: "resource \<Rightarrow> nat \<Rightarrow> 'p \<Rightarrow> 'a response \<Rightarrow> 'p http_request \<times> (api_error + 'a)" where
  "update res i data r = api_put (resource_path res @ string_of_nat i @ ''/'') data r"

definition delete_by_id :: "resource \<Rightarrow> nat \<Rightarrow> 'a response \<Rightarrow> 'p http_request \<times> (api_error + bool)" where
  "delete_by_id res i r = api_delete (resource_path res @ string_of_nat i @ ''/'') r"

text \<open>\<open>getStats\<close> of employees, attendance and leaves.\<close>

definition get_stats :: "resource \<Rightarrow> 'a response \<Rightarrow> 'p http_request \<times> (api_error + 'a)" where
  "get_stats res r = api_get (resource_path res @ ''stats/'') r"

record clock_data =
  cd_employee_id :: nat
  cd_clock_type :: string

definition clock :: "('a \<Rightarrow> string) \<Rightarrow> nat \<Rightarrow> string \<Rightarrow> 'a response \<Rightarrow> clock_data http_request \<times> (api_error + 'a)" where
  "clock js employeeId clockType r =
     api_post js ''/attendance/clock/'' \<lparr>cd_employee_id = employeeId, cd_clock_type = clockType\<rparr> r"

definition get_today :: "'a response \<Rightarrow> 'p http_request \<times> (api_error + 'a)" where
  "get_today r = api_get ''/attendance/today/'' r"

definition approve :: "nat \<Rightarrow> 'a response \<Rightarrow> empty_object http_request \<times> (api_error + 'a)" where
  "approve i r = api_patch (''/leaves/'' @ string_of_nat i @ ''/approve/'') EmptyObject r"

definition reject :: "nat \<Rightarrow> 'a response \<Rightarrow> empty_object http_request \<times> (api_error + 'a)" where
  "reject i r = api_patch (''/leaves/'' @ string_of_nat i @ ''/reject/'') EmptyObject r"

definition get_pending :: "'a response \<Rightarrow> 'p http_request \<times> (api_error + 'a)" where
  "get_pending r = api_get ''/leaves/pending/'' r"

record period =
  pd_month :: int
  pd_year :: int

definition process :: "('a \<Rightarrow> string) \<Rightarrow> int \<Rightarrow> int \<Rightarrow> 'a response \<Rightarrow> period http_request \<times> (api_error + 'a)" where
  "process js month year r = api_post js ''/payroll/process/'' \<lparr>pd_month = month, pd_year = year\<rparr> r"

definition get_payslip :: "nat \<Rightarrow> 'a response \<Rightarrow> 'p http_request \<times> (api_error + 'a)" where
  "get_payslip i r = api_get (''/payroll/'' @ string_of_nat i @ ''/payslip/'') r"

definition payroll_stats :: "int \<Rightarrow> int \<Rightarrow> 'a response \<Rightarrow> 'p http_request \<times> (api_error + 'a)" where
  "payroll_stats month year r =
     api_get (''/payroll/stats/?month='' @ string_of_int month @ ''&year='' @ string_of_int year) r"

subsection \<open>The entry points\<close>

text \<open>
  Every function of the four resource objects, as one datatype of operations, and the
  request each one sends. The bodies are the caller's data or the objects the
  functions build themselves. \<^verbatim>\<open>payrollAPI.getStats\<close> takes a period, so the
  operation \<open>OpGetStats RPayroll\<close> has no entry point (\<open>None\<close>).
\<close>

datatype 'p api_body = ApiData 'p | ApiClock clock_data | ApiPeriod period | ApiEmpty empty_object

datatype 'p api_op =
    OpGetAll resource "(string \<times> string) list" | OpGetById resource nat | OpCreate resource 'p
  | OpUpdate resource nat 'p | OpDelete resource nat | OpGetStats resource
  | OpClock nat string | OpGetToday | OpApprove nat | OpReject nat | OpGetPending
  | OpProcess int int | OpGetPayslip nat | OpPayrollStats int int

definition rq_retype :: "('p \<Rightarrow> 'q) \<Rightarrow> 'p http_request \<Rightarrow> 'q http_request" where
  "rq_retype f rq =
     \<lparr>rq_method = rq_method rq, rq_url = rq_url rq, rq_headers = rq_headers rq, rq_body = map_option f (rq_body rq)\<rparr>"

text \<open>The request does not depend on the answer; \<open>no_answer\<close> stands for any.\<close>

definition no_answer :: "unit response" where
  "no_answer = NetworkError"

definition api_request :: "'p api_op \<Rightarrow> 'p api_body http_request option" where
  "api_request op =
     (case op of
        OpGetAll res ps \<Rightarrow> Some (fst (get_all res ps no_answer))
      | OpGetById res i \<Rightarrow> Some (fst (get_by_id res i no_answer))
      | OpCreate res d \<Rightarrow> Some (rq_retype ApiData (fst (create (\<lambda>_. []) res d no_answer)))
      | OpUpdate res i d \<Rightarrow> Some (rq_retype ApiData (fst (update res i d no_answer)))
      | OpDelete res i \<Rightarrow> Some (fst (delete_by_id res i no_answer))
      | OpGetStats res \<Rightarrow> if res = RPayroll then None else Some (fst (get_stats res no_answer))
      | OpClock i ty \<Rightarrow> Some (rq_retype ApiClock (fst (clock (\<lambda>_. []) i ty no_answer)))
      | OpGetToday \<Rightarrow> Some (fst (get_today no_answer))
      | OpApprove i \<Rightarrow> Some (rq_retype ApiEmpty (fst (approve i no_answer)))
      | OpReject i \<Rightarrow> Some (rq_retype ApiEmpty (fst (reject i no_answer)))
      | OpGetPending \<Rightarrow> Some (fst (get_pending no_answer))
      | OpProcess m y \<Rightarrow> Some (rq_retype ApiPeriod (fst (process (\<lambda>_. []) m y no_answer)))
      | OpGetPayslip i \<Rightarrow> Some (fst (get_payslip i no_answer))
      | OpPayrollStats m y \<Rightarrow> Some (fst (payroll_stats m y no_answer)))"

subsection \<open>Properties\<close>

lemma resource_path_slash [simp]:
  "take (Suc 0) (resource_path res) = ''/''" "Suc 0 - length (resource_path res) = 0"
  by (cases res; simp add: resource_path_def)+

lemmas api_request_defs = api_request_def get_all_def get_by_id_def create_def update_def delete_by_id_def
  get_stats_def clock_def get_today_def approve_def reject_def get_pending_def process_def get_payslip_def
  payroll_stats_def api_get_def api_post_def api_put_def api_patch_def api_delete_def json_request_def
  rq_retype_def

text \<open>
  C16: the two error channels of the client. On a non-2xx status \<open>get\<close>, \<open>put\<close>,
  \<open>patch\<close> and \<open>delete\<close> reject with \<open>HTTP error! status: N\<close> whatever the body, while
  \<open>post\<close> rejects with the stringified JSON body, or with the parser's error when the
  body is not JSON.
\<close>

theorem api_error_channels:
  assumes "\<not> resp_ok st"
  shows "snd (api_get e (Response st b) :: 'p http_request \<times> _) = Inl (http_error st)
       \<and> snd (api_put e d (Response st b)) = Inl (http_error st)
       \<and> snd (api_patch e d (Response st b)) = Inl (http_error st)
       \<and> snd (api_delete e (Response st b) :: 'p http_request \<times> _) = Inl (http_error st)
       \<and> snd (api_post js e d (Response st (Json v))) = Inl (ErrorMessage (js v))
       \<and> snd (api_post js e d (Response st BadJson)) = Inl JsonSyntax"
  using assms by (simp add: api_get_def api_put_def api_patch_def api_delete_def api_post_def)


text \<open>
  C17: every request of the API client is well formed the same way: its URL is under
  the API base, it carries no \<open>Authorization\<close> header (the specification's
  bearer token is never sent), a GET or DELETE has neither body nor header, and every
  other method sends its JSON body with the \<open>Content-Type: application/json\<close>
  header alone.
\<close>

theorem api_request_wellformed:
  assumes "api_request op = Some rq"
  shows "take (length api_base + 1) (rq_url rq) = api_base @ ''/''
       \<and> ''Authorization'' \<notin> fst ` set (rq_headers rq)
       \<and> (rq_body rq = None \<longleftrightarrow> rq_method rq \<in> {GET, DELETE})
       \<and> (rq_body rq = None \<longrightarrow> rq_headers rq = [])
       \<and> (rq_body rq \<noteq> None \<longrightarrow> rq_headers rq = [(''Content-Type'', ''application/json'')])"
  using assms by (cases op) (auto simp: api_request_defs split: if_splits)

end
