(* ===== verification/Dashboard.thy ===== *)
theory Dashboard
  imports Leave Payroll Session Api
begin

text \<open>
  The employee dashboard's client state and its data-sync protocol
  (\<^verbatim>\<open>employee_dashboard.js\<close>). The module-level variables \<open>currentUser\<close>,
  \<open>currentEmployee\<close>, \<open>myAttendance\<close>, \<open>myLeaves\<close> and \<open>myPayroll\<close> are fields of the
  record \<open>emp_state\<close>, together with what the handlers write to the page: the
  dashboard statistics (\<open>view\<close>), the open modals, the alerts shown, and the log of
  HTTP requests sent. The backend is an input: \<open>backend\<close> gives the response each
  GET of the dashboard receives, a POST's response is an argument of its handler.
  A \<^verbatim>\<open>fetch\<close> that rejects, or a \<open>response.json()\<close> that throws, is caught by the
  handler's \<^verbatim>\<open>try\<close>; this is the left summand threaded by \<open>ebind\<close>.
\<close>

subsection \<open>The backend\<close>

record backend =
  employees_resp :: "employee listing response"
  attendance_resp :: "nat \<Rightarrow> att_raw listing response"
  leaves_resp :: "nat \<Rightarrow> leave_raw listing response"
  payroll_resp :: "nat \<Rightarrow> payroll listing response"

record leave_req =
  lr_employee :: nat
  lr_leave_type :: string
  lr_start_date :: string
  lr_end_date :: string
  lr_days :: js_num
  lr_reason :: string

datatype payload = NoBody | ClockBody nat string | LeaveBody leave_req

datatype request = Request string string payload

subsection \<open>Client state\<close>

text \<open>The local time zone (minutes east of UTC) and today's local date.\<close>

record env =
  tz_off :: int
  today :: date

datatype pending_panel = NoPendingRequests | PendingCards "leave list"

record dash_view =
  stat_days_present :: string
  stat_days_absent :: string
  stat_leaves_taken :: string
  stat_attendance_rate :: string
  recent_rows :: "string list list"
  pending_leaves_count :: string
  my_leaves_list :: pending_panel

record emp_state =
  currentUser :: "user option"
  currentEmployee :: "employee option"
  myAttendance :: "attendance list"
  myLeaves :: "leave list"
  myPayroll :: "payroll list"
  user_panel :: "(string \<times> string) option"
  clock_type :: string
  view :: "dash_view option"
  open_modals :: "string set"
  alerts :: "string list"
  sent :: "request list"

definition init_state :: "string \<Rightarrow> emp_state" where
  "init_state ct =
     \<lparr>currentUser = None, currentEmployee = None, myAttendance = [], myLeaves = [], myPayroll = [],
      user_panel = None, clock_type = ct, view = None, open_modals = {}, alerts = [], sent = []\<rparr>"

definition alert :: "string \<Rightarrow> emp_state \<Rightarrow> emp_state" where
  "alert msg s = s\<lparr>alerts := alerts s @ [msg]\<rparr>"

definition closeModal :: "string \<Rightarrow> emp_state \<Rightarrow> emp_state" where
  "closeModal m s = s\<lparr>open_modals := open_modals s - {m}\<rparr>"

definition send :: "string \<Rightarrow> string \<Rightarrow> payload \<Rightarrow> emp_state \<Rightarrow> emp_state" where
  "send meth url b s = s\<lparr>sent := sent s @ [Request meth url b]\<rparr>"

subsection \<open>The derived view\<close>

definition recent_row :: "attendance \<Rightarrow> string list" where
  "recent_row a = [att_date a, att_status a, js_or (clockIn a) ''-'', js_or (clockOut a) ''-'']"

definition dashboard_view :: "env \<Rightarrow> attendance list \<Rightarrow> leave list \<Rightarrow> dash_view" where
  "dashboard_view ev atts ls =
     (let present = present_days (tz_off ev) (today ev) atts;
          absent = absent_days (tz_off ev) (today ev) atts;
          rate = attendance_rate present;
          taken = leaves_taken (tz_off ev) (today ev) ls;
          pend = pending_leaves ls
      in \<lparr>stat_days_present = string_of_nat present, stat_days_absent = string_of_nat absent,
          stat_leaves_taken = string_of_int taken, stat_attendance_rate = string_of_int rate @ ''%'',
          recent_rows = map recent_row (recent_attendance atts),
          pending_leaves_count = string_of_nat (length pend),
          my_leaves_list = (if pend = [] then NoPendingRequests else PendingCards (take 3 pend))\<rparr>)"

definition refreshDashboard :: "env \<Rightarrow> emp_state \<Rightarrow> emp_state" where
  "refreshDashboard ev s =
     (if currentEmployee s = None then s
      else s\<lparr>view := Some (dashboard_view ev (myAttendance s) (myLeaves s))\<rparr>)"

subsection \<open>Reloading the cache\<close>

text \<open>
  One awaited GET of a collection: a rejected fetch or a body that is not JSON throws;
  a non-2xx status leaves the cached array as it is; a 2xx JSON answer replaces it.
\<close>

definition fetch_list ::
  "'r listing response \<Rightarrow> ('r list \<Rightarrow> emp_state \<Rightarrow> emp_state) \<Rightarrow> emp_state \<Rightarrow> emp_state + emp_state" where
  "fetch_list r upd s =
     (case r of
        NetworkError \<Rightarrow> Inl s
      | Response st b \<Rightarrow>
          if resp_ok st then (case b of BadJson \<Rightarrow> Inl s | Json d \<Rightarrow> Inr (upd (items d) s)) else Inr s)"

definition collection_url :: "string \<Rightarrow> nat \<Rightarrow> string" where
  "collection_url res i = api_base @ ''/'' @ res @ ''/?employee='' @ string_of_nat i"

definition loadMyData :: "backend \<Rightarrow> env \<Rightarrow> emp_state \<Rightarrow> emp_state" where
  "loadMyData srv ev s =
     (case currentEmployee s of
        None \<Rightarrow> s
      | Some e \<Rightarrow> caught
          (ebind (fetch_list (attendance_resp srv (emp_id e))
                    (\<lambda>xs st. st\<lparr>myAttendance := map att_of_raw xs\<rparr>)
                    (send ''GET'' (collection_url ''attendance'' (emp_id e)) NoBody s))
           (\<lambda>s1. ebind (fetch_list (leaves_resp srv (emp_id e))
                          (\<lambda>xs st. st\<lparr>myLeaves := map leave_of_raw xs\<rparr>)
                          (send ''GET'' (collection_url ''leaves'' (emp_id e)) NoBody s1))
           (\<lambda>s2. ebind (fetch_list (payroll_resp srv (emp_id e))
                          (\<lambda>xs st. st\<lparr>myPayroll := xs\<rparr>)
                          (send ''GET'' (collection_url ''payroll'' (emp_id e)) NoBody s2))
           (\<lambda>s3. Inr (refreshDashboard ev s3))))))"

text \<open>
  \<^verbatim>\<open>loadEmployeeProfile\<close>: fetch all employees and take the first whose e-mail is the
  signed-in user's; \<open>loadMyData()\<close> is called (its promise is not awaited, and nothing
  else runs in between in this model) or the profile-not-found alert shown.
\<close>

definition loadEmployeeProfile :: "backend \<Rightarrow> env \<Rightarrow> emp_state \<Rightarrow> emp_state" where
  "loadEmployeeProfile srv ev s =
     (let s0 = send ''GET'' (api_base @ ''/employees/'') NoBody s in
      case employees_resp srv of
        NetworkError \<Rightarrow> s0
      | Response st b \<Rightarrow>
          if \<not> resp_ok st then s0
          else (case (b, currentUser s0) of
                  (Json d, Some u) \<Rightarrow>
                    (let ce = find (\<lambda>emp. email emp = u_email u) (items d);
                         s1 = s0\<lparr>currentEmployee := ce\<rparr>
                     in if ce \<noteq> None then loadMyData srv ev s1
                        else alert ''Employee profile not found. Please contact administrator.'' s1)
                | _ \<Rightarrow> s0))"

definition loadUserInfo ::
  "(string \<Rightarrow> user option) \<Rightarrow> storage \<Rightarrow> backend \<Rightarrow> env \<Rightarrow> emp_state \<Rightarrow> emp_state \<times> string option" where
  "loadUserInfo parse st srv ev s =
     (case checkAuth parse st of
        Redirect url \<Rightarrow> (s\<lparr>currentUser := None\<rparr>, Some url)
      | ParseError \<Rightarrow> (s, None)
      | Authed u \<Rightarrow>
          (loadEmployeeProfile srv ev
             (s\<lparr>currentUser := Some u, user_panel := Some (user_initials u, user_display_name u)\<rparr>), None))"

subsection \<open>Form handlers\<close>

definition setClockType :: "string \<Rightarrow> emp_state \<Rightarrow> emp_state" where
  "setClockType ty s = s\<lparr>clock_type := ty\<rparr>"

text \<open>The clock endpoint answers with an object whose \<open>error\<close> field may be absent.\<close>

definition handleClockSubmit ::
  "string option response \<Rightarrow> backend \<Rightarrow> env \<Rightarrow> emp_state \<Rightarrow> emp_state" where
  "handleClockSubmit r srv ev s =
     (case currentEmployee s of
        None \<Rightarrow> alert ''Employee profile not loaded'' s
      | Some e \<Rightarrow>
          (let ty = clock_type s;
               s0 = send ''POST'' (api_base @ ''/attendance/clock/'') (ClockBody (emp_id e) ty) s
           in case r of
                NetworkError \<Rightarrow> alert ''Failed to clock in/out'' s0
              | Response st b \<Rightarrow>
                  if resp_ok st then
                    (case b of
                       BadJson \<Rightarrow> alert ''Failed to clock in/out'' s0
                     | Json _ \<Rightarrow> loadMyData srv ev
                                   (closeModal ''clock-modal'' (alert (''Successfully clocked '' @ ty @ ''!'') s0)))
                  else
                    (case b of
                       BadJson \<Rightarrow> alert ''Failed to clock in/out'' s0
                     | Json err \<Rightarrow> alert (js_or err ''Failed to clock in/out'') s0)))"

record leave_form =
  f_type :: string
  f_startDate :: string
  f_endDate :: string
  f_reason :: string

text \<open>A failed leave POST's body, as \<open>JSON.stringify\<close> prints it.\<close>

definition handleLeaveRequest ::
  "leave_form \<Rightarrow> string response \<Rightarrow> backend \<Rightarrow> env \<Rightarrow> emp_state \<Rightarrow> emp_state" where
  "handleLeaveRequest f r srv ev s =
     (case currentEmployee s of
        None \<Rightarrow> alert ''Employee profile not loaded'' s
      | Some e \<Rightarrow>
          (let req = \<lparr>lr_employee = emp_id e, lr_leave_type = f_type f, lr_start_date = f_startDate f,
                      lr_end_date = f_endDate f, lr_days = request_days (f_startDate f) (f_endDate f),
                      lr_reason = f_reason f\<rparr>;
               s0 = send ''POST'' (api_base @ ''/leaves/'') (LeaveBody req) s
           in case r of
                NetworkError \<Rightarrow> alert ''Failed to submit leave request'' s0
              | Response st b \<Rightarrow>
                  if resp_ok st then
                    loadMyData srv ev
                      (closeModal ''request-leave-modal'' (alert ''Leave request submitted successfully!'' s0))
                  else
                    (case b of
                       BadJson \<Rightarrow> alert ''Failed to submit leave request'' s0
                     | Json err \<Rightarrow> alert (''Failed to submit leave request: '' @ err) s0)))"

subsection \<open>Outcome of one fetch\<close>

text \<open>
  What one awaited GET does to the cache: \<open>None\<close> when it throws, \<open>Some None\<close> when
  the status is not 2xx (the array is kept), \<open>Some (Some xs)\<close> when \<open>xs\<close> replaces it.
\<close>

definition outcome :: "'r listing response \<Rightarrow> 'r list option option" where
  "outcome r =
     (case r of
        NetworkError \<Rightarrow> None
      | Response st b \<Rightarrow>
          if resp_ok st then (case b of BadJson \<Rightarrow> None | Json d \<Rightarrow> Some (Some (items d))) else Some None)"

lemma fetch_list_outcome:
  "fetch_list r upd s =
     (case outcome r of None \<Rightarrow> Inl s | Some None \<Rightarrow> Inr s | Some (Some xs) \<Rightarrow> Inr (upd xs s))"
  by (simp add: fetch_list_def outcome_def split: response.split body.split)

lemma outcome_cases [case_names thrown kept loaded]:
  "(x = None \<Longrightarrow> P) \<Longrightarrow> (x = Some None \<Longrightarrow> P) \<Longrightarrow> (\<And>xs. x = Some (Some xs) \<Longrightarrow> P) \<Longrightarrow> P"
  by (metis option.exhaust)

lemma outcome_simps [simp]:
  "outcome (NetworkError :: 'r listing response) = None"
  "outcome (Response st (BadJson :: 'r listing body)) = (if resp_ok st then None else Some None)"
  "outcome (Response st (Json d)) = (if resp_ok st then Some (Some (items d)) else Some None)"
  by (simp_all add: outcome_def)

lemma outcome_loaded: "outcome r = Some (Some xs) \<Longrightarrow> fetch_list r upd s = Inr (upd xs s)"
  by (auto simp: outcome_def fetch_list_def split: response.splits body.splits if_splits)

lemma fetch_list_thrown: "outcome r = None \<Longrightarrow> fetch_list r upd s = Inl s"
  by (simp add: fetch_list_outcome)

lemma fetch_list_answered:
  "outcome r = Some ro \<Longrightarrow> fetch_list r upd s = Inr (case ro of None \<Rightarrow> s | Some xs \<Rightarrow> upd xs s)"
  by (simp add: fetch_list_outcome split: option.split)

lemmas reload_simps = loadMyData_def fetch_list_outcome send_def refreshDashboard_def

subsection \<open>Properties of the reload\<close>

lemma loadMyData_no_employee [simp]: "currentEmployee s = None \<Longrightarrow> loadMyData srv ev s = s"
  by (simp add: loadMyData_def)

text \<open>
  C1: the reload refines the backend: when the three GETs of \<^verbatim>\<open>loadMyData\<close> answer 2xx
  with JSON, the cached arrays are exactly the backend's collections for the current
  employee (mapped field by field), the dashboard statistics are recomputed from them,
  and the three requests are sent in the order attendance, leaves, payroll; nothing
  else in the state changes.
\<close>

theorem loadMyData_refines_backend:
  assumes "currentEmployee s = Some e"
    and "attendance_resp srv (emp_id e) = Response sa (Json da)" "resp_ok sa"
    and "leaves_resp srv (emp_id e) = Response sl (Json dl)" "resp_ok sl"
    and "payroll_resp srv (emp_id e) = Response sp (Json dp)" "resp_ok sp"
  shows "loadMyData srv ev s =
           s\<lparr>myAttendance := map att_of_raw (items da), myLeaves := map leave_of_raw (items dl),
             myPayroll := items dp,
             view := Some (dashboard_view ev (map att_of_raw (items da)) (map leave_of_raw (items dl))),
             sent := sent s @ [Request ''GET'' (collection_url ''attendance'' (emp_id e)) NoBody,
                               Request ''GET'' (collection_url ''leaves'' (emp_id e)) NoBody,
                               Request ''GET'' (collection_url ''payroll'' (emp_id e)) NoBody]\<rparr>"
  using assms by (simp add: reload_simps)

text \<open>
  C2: the reload is idempotent: running it twice against an unchanged backend leaves the
  same cache, the same rendered statistics and the same everything else as running it
  once; only the request log grows. This holds whatever the backend answers, failures
  included.
\<close>

theorem loadMyData_idempotent:
  "(loadMyData srv ev (loadMyData srv ev s))\<lparr>sent := []\<rparr> = (loadMyData srv ev s)\<lparr>sent := []\<rparr>"
proof (cases "currentEmployee s")
  case None
  then show ?thesis by simp
next
  case (Some e)
  show ?thesis
    using Some unfolding loadMyData_def fetch_list_outcome
    by (cases "outcome (attendance_resp srv (emp_id e))" rule: outcome_cases;
        cases "outcome (leaves_resp srv (emp_id e))" rule: outcome_cases;
        cases "outcome (payroll_resp srv (emp_id e))" rule: outcome_cases)
       (simp_all add: send_def refreshDashboard_def)
qed

text \<open>
  C3: a GET answered with a non-2xx status does not replace the cached array: the
  dashboard is then recomputed from the previous attendance records and shown as if it
  were current.
\<close>

theorem loadMyData_keeps_stale:
  assumes "currentEmployee s = Some e"
    and "attendance_resp srv (emp_id e) = Response sa b" "\<not> resp_ok sa"
    and "outcome (leaves_resp srv (emp_id e)) = Some (Some ls)"
    and "outcome (payroll_resp srv (emp_id e)) = Some (Some ps)"
  shows "myAttendance (loadMyData srv ev s) = myAttendance s
       \<and> view (loadMyData srv ev s) = Some (dashboard_view ev (myAttendance s) (map leave_of_raw ls))"
proof -
  have a: "fetch_list (attendance_resp srv (emp_id e)) upd s' = Inr s'" for upd s'
    using assms(2,3) by (simp add: fetch_list_def)
  show ?thesis
    using assms(1) by (simp add: loadMyData_def a outcome_loaded[OF assms(4)] outcome_loaded[OF assms(5)]
        send_def refreshDashboard_def)
qed

text \<open>
  C4: a GET that throws (network failure, or a body that is not JSON) ends the reload,
  whichever of the three it is: the later collections are not requested, the arrays
  loaded before the failure keep their new contents (a non-2xx answer before it kept
  the old one), the failed one and the later ones are unchanged, and the dashboard is
  not recomputed.
\<close>

theorem loadMyData_throw_ends_reload:
  assumes "currentEmployee s = Some e"
  shows "(outcome (attendance_resp srv (emp_id e)) = None \<longrightarrow>
            loadMyData srv ev s =
              s\<lparr>sent := sent s @ [Request ''GET'' (collection_url ''attendance'' (emp_id e)) NoBody]\<rparr>)
       \<and> (outcome (attendance_resp srv (emp_id e)) = Some oa \<and> outcome (leaves_resp srv (emp_id e)) = None \<longrightarrow>
            loadMyData srv ev s =
              s\<lparr>myAttendance := case_option (myAttendance s) (map att_of_raw) oa,
                sent := sent s @ [Request ''GET'' (collection_url ''attendance'' (emp_id e)) NoBody,
                                  Request ''GET'' (collection_url ''leaves'' (emp_id e)) NoBody]\<rparr>)
       \<and> (outcome (attendance_resp srv (emp_id e)) = Some oa \<and> outcome (leaves_resp srv (emp_id e)) = Some ol
            \<and> outcome (payroll_resp srv (emp_id e)) = None \<longrightarrow>
            loadMyData srv ev s =
              s\<lparr>myAttendance := case_option (myAttendance s) (map att_of_raw) oa,
                myLeaves := case_option (myLeaves s) (map leave_of_raw) ol,
                sent := sent s @ [Request ''GET'' (collection_url ''attendance'' (emp_id e)) NoBody,
                                  Request ''GET'' (collection_url ''leaves'' (emp_id e)) NoBody,
                                  Request ''GET'' (collection_url ''payroll'' (emp_id e)) NoBody]\<rparr>)"
  using assms by (auto simp: loadMyData_def fetch_list_thrown fetch_list_answered send_def split: option.split)

subsection \<open>The page as a state machine\<close>

text \<open>
  After the page load (\<^verbatim>\<open>loadUserInfo\<close>) the dashboard reacts to events: a reload, a
  clock submission, a leave request, a change of clock type, a switch to the dashboard
  view (which calls \<^verbatim>\<open>refreshDashboard\<close>). The backend may change between events; a
  backend \<open>no_throw_all\<close> answers every dashboard GET with a status and a JSON body.
\<close>

definition no_throw_all :: "backend \<Rightarrow> bool" where
  "no_throw_all srv =
     (\<forall>i. outcome (attendance_resp srv i) \<noteq> None \<and> outcome (leaves_resp srv i) \<noteq> None
          \<and> outcome (payroll_resp srv i) \<noteq> None)"

definition view_consistent :: "env \<Rightarrow> emp_state \<Rightarrow> bool" where
  "view_consistent ev s =
     (view s = None \<or> view s = Some (dashboard_view ev (myAttendance s) (myLeaves s)))"

inductive dash_step :: "env \<Rightarrow> emp_state \<Rightarrow> emp_state \<Rightarrow> bool" for ev where
  reload: "no_throw_all srv \<Longrightarrow> dash_step ev s (loadMyData srv ev s)"
| clock: "no_throw_all srv \<Longrightarrow> dash_step ev s (handleClockSubmit r srv ev s)"
| leave: "no_throw_all srv \<Longrightarrow> dash_step ev s (handleLeaveRequest f r srv ev s)"
| set_clock: "dash_step ev s (setClockType ty s)"
| show_dashboard: "dash_step ev s (refreshDashboard ev s)"

inductive dash_reachable :: "env \<Rightarrow> emp_state \<Rightarrow> bool" for ev where
  start: "no_throw_all srv \<Longrightarrow> dash_reachable ev (fst (loadUserInfo parse st srv ev (init_state ct)))"
| step: "dash_reachable ev s \<Longrightarrow> dash_step ev s s' \<Longrightarrow> dash_reachable ev s'"

lemma view_consistent_frame [simp]:
  "view_consistent ev (alert m s) = view_consistent ev s"
  "view_consistent ev (send meth url b s) = view_consistent ev s"
  "view_consistent ev (closeModal x s) = view_consistent ev s"
  "view_consistent ev (setClockType ty s) = view_consistent ev s"
  "view_consistent ev (s\<lparr>currentEmployee := ce\<rparr>) = view_consistent ev s"
  "view_consistent ev (s\<lparr>currentUser := cu, user_panel := up\<rparr>) = view_consistent ev s"
  by (simp_all add: view_consistent_def alert_def send_def closeModal_def setClockType_def)

lemma view_consistent_refresh: "view_consistent ev s \<Longrightarrow> view_consistent ev (refreshDashboard ev s)"
  by (simp add: view_consistent_def refreshDashboard_def)

lemma outcome_not_thrown:
  "outcome r \<noteq> None \<Longrightarrow> (\<exists>xs. \<forall>upd s. fetch_list r upd s = Inr (upd xs s)) \<or> (\<forall>upd s. fetch_list r upd s = Inr s)"
  by (cases "outcome r" rule: outcome_cases) (auto simp: fetch_list_outcome)

lemma loadMyData_consistent:
  assumes "no_throw_all srv" "view_consistent ev s"
  shows "view_consistent ev (loadMyData srv ev s)"
proof (cases "currentEmployee s")
  case None
  with assms(2) show ?thesis by simp
next
  case (Some e)
  from assms(1) have a: "outcome (attendance_resp srv (emp_id e)) \<noteq> None"
    and l: "outcome (leaves_resp srv (emp_id e)) \<noteq> None"
    and p: "outcome (payroll_resp srv (emp_id e)) \<noteq> None"
    by (simp_all add: no_throw_all_def)
  show ?thesis
    using Some outcome_not_thrown[OF a] outcome_not_thrown[OF l] outcome_not_thrown[OF p]
    by (auto simp: loadMyData_def send_def refreshDashboard_def view_consistent_def)
qed

lemma handleClockSubmit_consistent:
  "no_throw_all srv \<Longrightarrow> view_consistent ev s \<Longrightarrow> view_consistent ev (handleClockSubmit r srv ev s)"
  by (auto simp: handleClockSubmit_def Let_def loadMyData_consistent
           split: option.split response.split body.split)

lemma handleLeaveRequest_consistent:
  "no_throw_all srv \<Longrightarrow> view_consistent ev s \<Longrightarrow> view_consistent ev (handleLeaveRequest f r srv ev s)"
  by (auto simp: handleLeaveRequest_def Let_def loadMyData_consistent
           split: option.split response.split body.split)

lemma dash_step_consistent: "dash_step ev s s' \<Longrightarrow> view_consistent ev s \<Longrightarrow> view_consistent ev s'"
  by (induction rule: dash_step.induct)
     (simp_all add: loadMyData_consistent handleClockSubmit_consistent handleLeaveRequest_consistent
        view_consistent_refresh)

lemma loadEmployeeProfile_consistent:
  "no_throw_all srv \<Longrightarrow> view_consistent ev s \<Longrightarrow> view_consistent ev (loadEmployeeProfile srv ev s)"
  by (auto simp: loadEmployeeProfile_def Let_def loadMyData_consistent
           split: response.split body.split option.split prod.split)

lemma loadUserInfo_consistent:
  assumes "no_throw_all srv"
  shows "view_consistent ev (fst (loadUserInfo parse st srv ev (init_state ct)))"
proof (cases "checkAuth parse st")
  case (Authed u)
  have "view_consistent ev ((init_state ct)\<lparr>currentUser := Some u, user_panel := Some (user_initials u, user_display_name u)\<rparr>)"
    by (simp add: view_consistent_def init_state_def)
  with Authed assms show ?thesis by (simp add: loadUserInfo_def loadEmployeeProfile_consistent)
qed (simp_all add: loadUserInfo_def view_consistent_def init_state_def)

lemma sent_loadMyData: "\<exists>l. sent (loadMyData srv ev s) = sent s @ l"
proof (cases "currentEmployee s")
  case (Some e)
  show ?thesis
    using Some unfolding loadMyData_def fetch_list_outcome
    by (cases "outcome (attendance_resp srv (emp_id e))" rule: outcome_cases;
        cases "outcome (leaves_resp srv (emp_id e))" rule: outcome_cases;
        cases "outcome (payroll_resp srv (emp_id e))" rule: outcome_cases)
       (simp_all add: send_def refreshDashboard_def)
qed simp

lemma currentEmployee_loadMyData [simp]: "currentEmployee (loadMyData srv ev s) = currentEmployee s"
proof (cases "currentEmployee s")
  case (Some e)
  show ?thesis
    using Some unfolding loadMyData_def fetch_list_outcome
    by (cases "outcome (attendance_resp srv (emp_id e))" rule: outcome_cases;
        cases "outcome (leaves_resp srv (emp_id e))" rule: outcome_cases;
        cases "outcome (payroll_resp srv (emp_id e))" rule: outcome_cases)
       (simp_all add: send_def refreshDashboard_def)
qed simp

text \<open>
  C5: view consistency. In every state reachable from the page load through events whose
  backend answers each GET with a status and a JSON body, the rendered dashboard
  statistics are either not yet rendered or exactly those computed from the cached
  attendance and leave arrays.
\<close>

theorem dash_reachable_view_consistent: "dash_reachable ev s \<Longrightarrow> view_consistent ev s"
proof (induction rule: dash_reachable.induct)
  case (start srv parse st ct)
  then show ?case by (rule loadUserInfo_consistent)
next
  case (step s s')
  then show ?case by (blast intro: dash_step_consistent)
qed

text \<open>
  C6: without that condition the invariant fails. From a dashboard rendered from an
  empty cache, a reload whose attendance GET returns one \<open>Present\<close> record of this month
  and whose leaves GET fails on the network stores the record but skips
  \<^verbatim>\<open>refreshDashboard\<close>: the page still shows 0 days present while the cache holds 1.
\<close>

theorem partial_reload_inconsistent:
  "view_consistent \<lparr>tz_off = 480, today = \<lparr>year = 2024, month = 3, day = 15\<rparr>\<rparr>
      ((init_state ''in'')\<lparr>currentEmployee := Some \<lparr>emp_id = 7, first_name = ''Ana'', last_name = ''Cruz'',
          email = ''ana@hr.test'', department = ''IT'', position = ''Dev'', salary = ''20000.00'',
          join_date = ''2024-01-08'', emp_status = ''Active''\<rparr>,
        view := Some (dashboard_view \<lparr>tz_off = 480, today = \<lparr>year = 2024, month = 3, day = 15\<rparr>\<rparr> [] [])\<rparr>)
   \<and> \<not> view_consistent \<lparr>tz_off = 480, today = \<lparr>year = 2024, month = 3, day = 15\<rparr>\<rparr>
      (loadMyData
        \<lparr>employees_resp = NetworkError,
         attendance_resp = (\<lambda>_. Response 200 (Json (Bare [\<lparr>raw_att_id = 1, raw_employee = 7,
            raw_date = ''2024-03-01'', raw_status = ''Present'', raw_clock_in = None, raw_clock_out = None,
            raw_notes = None\<rparr>]))),
         leaves_resp = (\<lambda>_. NetworkError), payroll_resp = (\<lambda>_. NetworkError)\<rparr>
        \<lparr>tz_off = 480, today = \<lparr>year = 2024, month = 3, day = 15\<rparr>\<rparr>
        ((init_state ''in'')\<lparr>currentEmployee := Some \<lparr>emp_id = 7, first_name = ''Ana'', last_name = ''Cruz'',
          email = ''ana@hr.test'', department = ''IT'', position = ''Dev'', salary = ''20000.00'',
          join_date = ''2024-01-08'', emp_status = ''Active''\<rparr>,
        view := Some (dashboard_view \<lparr>tz_off = 480, today = \<lparr>year = 2024, month = 3, day = 15\<rparr>\<rparr> [] [])\<rparr>))"
proof -
  have p: "in_month 480 \<lparr>year = 2024, month = 3, day = 15\<rparr> ''2024-03-01''"
    using in_month_east[OF _ _ parse_2024_03_01, of 480 "\<lparr>year = 2024, month = 3, day = 15\<rparr>"]
    by (simp add: valid_date_def days_in_month_def)
  have "present_days 480 \<lparr>year = 2024, month = 3, day = 15\<rparr>
          [att_of_raw \<lparr>raw_att_id = 1, raw_employee = 7, raw_date = ''2024-03-01'', raw_status = ''Present'',
                       raw_clock_in = None, raw_clock_out = None, raw_notes = None\<rparr>] = 1"
    using p by (simp add: present_days_def month_attendance_def is_present_def att_of_raw_def)
  moreover have "present_days 480 \<lparr>year = 2024, month = 3, day = 15\<rparr> [] = 0"
    by (simp add: present_days_def month_attendance_def)
  ultimately show ?thesis
    by (simp add: view_consistent_def init_state_def loadMyData_def fetch_list_def send_def resp_ok_def
        items_def dashboard_view_def Let_def digit_char_def)
qed

text \<open>
  C7: write, then reload. A successful clock submission posts the employee's id and the
  selected clock type, shows the success alert, closes the modal and then reloads all
  three collections, in that order; with the backend answering the GETs, the cache is
  the backend's new state.
\<close>

theorem handleClockSubmit_write_then_reload:
  assumes "currentEmployee s = Some e" and "resp_ok st"
    and "attendance_resp srv (emp_id e) = Response sa (Json da)" "resp_ok sa"
    and "leaves_resp srv (emp_id e) = Response sl (Json dl)" "resp_ok sl"
    and "payroll_resp srv (emp_id e) = Response sp (Json dp)" "resp_ok sp"
  shows "sent (handleClockSubmit (Response st (Json x)) srv ev s) =
           sent s @ [Request ''POST'' (api_base @ ''/attendance/clock/'') (ClockBody (emp_id e) (clock_type s)),
                     Request ''GET'' (collection_url ''attendance'' (emp_id e)) NoBody,
                     Request ''GET'' (collection_url ''leaves'' (emp_id e)) NoBody,
                     Request ''GET'' (collection_url ''payroll'' (emp_id e)) NoBody]
       \<and> alerts (handleClockSubmit (Response st (Json x)) srv ev s) =
           alerts s @ [''Successfully clocked '' @ clock_type s @ ''!'']
       \<and> ''clock-modal'' \<notin> open_modals (handleClockSubmit (Response st (Json x)) srv ev s)
       \<and> myAttendance (handleClockSubmit (Response st (Json x)) srv ev s) = map att_of_raw (items da)
       \<and> myLeaves (handleClockSubmit (Response st (Json x)) srv ev s) = map leave_of_raw (items dl)"
  using assms by (simp add: handleClockSubmit_def Let_def alert_def closeModal_def reload_simps)

text \<open>
  C8: without a loaded employee profile neither form sends anything: both handlers only
  show the alert \<open>Employee profile not loaded\<close>.
\<close>

theorem handlers_need_profile:
  "currentEmployee s = None \<Longrightarrow>
     handleClockSubmit r srv ev s = alert ''Employee profile not loaded'' s
   \<and> handleLeaveRequest f r' srv ev s = alert ''Employee profile not loaded'' s"
  by (simp add: handleClockSubmit_def handleLeaveRequest_def)

text \<open>
  C9: whatever the backend answers, the first request of a leave submission is the POST
  of the form's fields with the employee's id and the day count \<open>request_days\<close>
  computes from the two dates; the reload, if any, comes after it.
\<close>

theorem handleLeaveRequest_posts_days:
  assumes "currentEmployee s = Some e"
  shows "\<exists>l. sent (handleLeaveRequest f r srv ev s) =
           sent s @ Request ''POST'' (api_base @ ''/leaves/'')
             (LeaveBody \<lparr>lr_employee = emp_id e, lr_leave_type = f_type f, lr_start_date = f_startDate f,
                         lr_end_date = f_endDate f, lr_days = request_days (f_startDate f) (f_endDate f),
                         lr_reason = f_reason f\<rparr>) # l"
proof (cases r)
  case (Response st b)
  show ?thesis
  proof (cases "resp_ok st")
    case True
    let ?s1 = "closeModal ''request-leave-modal'' (alert ''Leave request submitted successfully!''
                 (send ''POST'' (api_base @ ''/leaves/'')
                   (LeaveBody \<lparr>lr_employee = emp_id e, lr_leave_type = f_type f, lr_start_date = f_startDate f,
                               lr_end_date = f_endDate f, lr_days = request_days (f_startDate f) (f_endDate f),
                               lr_reason = f_reason f\<rparr>) s))"
    obtain l where "sent (loadMyData srv ev ?s1) = sent ?s1 @ l" using sent_loadMyData by blast
    with assms Response True show ?thesis
      by (simp add: handleLeaveRequest_def Let_def alert_def closeModal_def send_def)
  next
    case False
    with assms Response show ?thesis
      by (cases b) (simp_all add: handleLeaveRequest_def Let_def alert_def send_def)
  qed
qed (use assms in \<open>simp add: handleLeaveRequest_def Let_def alert_def send_def\<close>)

text \<open>
  C10: the profile lookup matches the signed-in user's e-mail only. The employee found
  becomes the current employee and its data are loaded whatever its \<open>status\<close>: a
  \<open>Pending\<close> account, which the specification keeps out of the employee views, gets
  the full dashboard. With 2xx JSON answers the employees GET is followed by the three
  GETs of that employee's collections, the cache holds them and the statistics are
  computed from them.
\<close>

theorem loadEmployeeProfile_any_status:
  assumes "currentUser s = Some u" and "employees_resp srv = Response st (Json d)" "resp_ok st"
    and "find (\<lambda>emp. email emp = u_email u) (items d) = Some e"
    and "outcome (attendance_resp srv (emp_id e)) = Some (Some xa)"
    and "outcome (leaves_resp srv (emp_id e)) = Some (Some xl)"
    and "outcome (payroll_resp srv (emp_id e)) = Some (Some xp)"
  shows "loadEmployeeProfile srv ev s =
           s\<lparr>currentEmployee := Some e, myAttendance := map att_of_raw xa, myLeaves := map leave_of_raw xl,
             myPayroll := xp, view := Some (dashboard_view ev (map att_of_raw xa) (map leave_of_raw xl)),
             sent := sent s @ [Request ''GET'' (api_base @ ''/employees/'') NoBody,
                               Request ''GET'' (collection_url ''attendance'' (emp_id e)) NoBody,
                               Request ''GET'' (collection_url ''leaves'' (emp_id e)) NoBody,
                               Request ''GET'' (collection_url ''payroll'' (emp_id e)) NoBody]\<rparr>"
proof -
  let ?s1 = "(send ''GET'' (api_base @ ''/employees/'') NoBody s)\<lparr>currentEmployee := Some e\<rparr>"
  have eq: "loadEmployeeProfile srv ev s = loadMyData srv ev ?s1"
    using assms(1-4) by (simp add: loadEmployeeProfile_def send_def)
  show ?thesis
    by (simp add: eq loadMyData_def outcome_loaded[OF assms(5)] outcome_loaded[OF assms(6)]
        outcome_loaded[OF assms(7)] send_def refreshDashboard_def)
qed

end
