(* ===== verification/Views.thy ===== *)
theory Views
  imports Dashboard
begin

text \<open>
  The two views of \<^verbatim>\<open>employee_dashboard.js\<close> that re-derive their content from the
  cache when they are shown: \<^verbatim>\<open>renderMyProfile\<close> (the profile card and its
  statistics) and \<^verbatim>\<open>renderMyLeaves\<close> (the leave counters and table). Each returns
  what it writes into the page, or \<open>None\<close> when it returns early without a profile.
\<close>

subsection \<open>The profile\<close>

text \<open>
  \<open>first_name[0] + last_name[0]\<close>: an empty name contributes \<open>undefined\<close>, and two
  of them add up to the number \<open>NaN\<close>.
\<close>

definition js_plus_chars :: "string option \<Rightarrow> string option \<Rightarrow> string" where
  "js_plus_chars a b = (if a = None \<and> b = None then ''NaN'' else js_template a @ js_template b)"

definition emp_id_label :: "nat \<Rightarrow> string" where
  "emp_id_label i = ''EMP-'' @ pad_start 4 CHR ''0'' (string_of_nat i)"

record profile_view =
  pf_initials :: string
  pf_name :: string
  pf_position :: string
  pf_department :: string
  pf_join_date :: string
  pf_status :: string
  pf_first_name :: string
  pf_last_name :: string
  pf_email :: string
  pf_emp_id :: string
  pf_present :: string
  pf_absent :: string
  pf_leaves :: string
  pf_rate :: string

text \<open>
  \<^verbatim>\<open>renderMyProfile\<close>: the statistics are computed again, line by line as in
  \<^verbatim>\<open>refreshDashboard\<close>, from the cached arrays (\<open>workingDays > 0\<close> always holds).
\<close>

definition renderMyProfile :: "env \<Rightarrow> emp_state \<Rightarrow> profile_view option" where
  "renderMyProfile ev s =
     (case currentEmployee s of
        None \<Rightarrow> None
      | Some e \<Rightarrow>
          (let monthAttendance = month_attendance (tz_off ev) (today ev) (myAttendance s);
               presentDays = length (filter is_present monthAttendance);
               absentDays = length (filter (\<lambda>a. att_status a = ''Absent'') monthAttendance);
               attendanceRate = attendance_rate presentDays;
               leavesTaken = leaves_taken (tz_off ev) (today ev) (myLeaves s)
           in Some \<lparr>pf_initials = js_plus_chars (str_at0 (first_name e)) (str_at0 (last_name e)),
                    pf_name = first_name e @ '' '' @ last_name e, pf_position = position e,
                    pf_department = department e, pf_join_date = join_date e, pf_status = emp_status e,
                    pf_first_name = first_name e, pf_last_name = last_name e, pf_email = email e,
                    pf_emp_id = emp_id_label (emp_id e),
                    pf_present = string_of_nat presentDays, pf_absent = string_of_nat absentDays,
                    pf_leaves = string_of_int leavesTaken, pf_rate = string_of_int attendanceRate @ ''%''\<rparr>))"

subsection \<open>The attendance view\<close>

definition first_of_month :: "date \<Rightarrow> date" where
  "first_of_month d = d\<lparr>day := 1\<rparr>"

text \<open>
  \<open>dateInput.valueAsDate = date\<close> writes the UTC date of the instant. Local midnight of
  \<open>d\<close> in a zone \<open>off\<close> minutes east of UTC is the instant \<open>off\<close> minutes before
  midnight UTC of \<open>d\<close>, whose UTC date is \<open>\<lceil>off / 1440\<rceil>\<close> days before \<open>d\<close>.
\<close>

definition utc_date_of_local_midnight :: "int \<Rightarrow> date \<Rightarrow> date" where
  "utc_date_of_local_midnight off d = shift_days (- ((off + 1439) div 1440)) d"

text \<open>
  \<^verbatim>\<open>loadMyAttendance\<close>: an empty month input is set to
  \<open>new Date(year, month, 1)\<close> (local midnight of the first of this month) through
  \<open>valueAsDate\<close>; the table rows are the cache sorted newest first. The result is the
  input's value and the rows (\<open>None\<close> when a date is invalid and the order unspecified).
\<close>

definition loadMyAttendance :: "env \<Rightarrow> string \<Rightarrow> emp_state \<Rightarrow> (string \<times> string list list option) option" where
  "loadMyAttendance ev input s =
     (if currentEmployee s = None then None
      else Some (if input = [] then format_iso_date (utc_date_of_local_midnight (tz_off ev) (first_of_month (today ev)))
                 else input,
                 map_option (map attendance_row) (sorted_attendance (myAttendance s))))"

subsection \<open>The leave view\<close>

text \<open>
  One row of the leave table; \<open>leave.reason || '-'\<close> on the cached reason, which
  \<^verbatim>\<open>loadMyData\<close> already defaulted to the empty string.
\<close>

definition leave_row :: "leave \<Rightarrow> string list" where
  "leave_row l =
     [leave_type l, startDate l, endDate l, string_of_int (days l) @ '' days'', leave_status l,
      if reason l = [] then ''-'' else reason l]"

text \<open>
  \<open>[...myLeaves].sort((a, b) => new Date(b.startDate) - new Date(a.startDate))\<close>: newest
  start first, stable; with an invalid date the comparator returns \<open>NaN\<close> and the order
  is implementation-defined, which is \<open>None\<close> here.
\<close>

definition sorted_leaves :: "leave list \<Rightarrow> leave list option" where
  "sorted_leaves ls =
     (if list_all (\<lambda>l. parse_iso_date (startDate l) \<noteq> None) ls
      then Some (sort_key (\<lambda>l. - day_number (the (parse_iso_date (startDate l)))) ls)
      else None)"

record leaves_view =
  lv_total :: string
  lv_approved :: string
  lv_pending :: string
  lv_rejected :: string
  lv_rows :: "string list list option"

definition renderMyLeaves :: "emp_state \<Rightarrow> leaves_view option" where
  "renderMyLeaves s =
     (if currentEmployee s = None then None
      else Some \<lparr>lv_total = string_of_nat (length (myLeaves s)),
                 lv_approved = string_of_nat (count_status ''Approved'' (myLeaves s)),
                 lv_pending = string_of_nat (count_status ''Pending'' (myLeaves s)),
                 lv_rejected = string_of_nat (count_status ''Rejected'' (myLeaves s)),
                 lv_rows = map_option (map leave_row) (sorted_leaves (myLeaves s))\<rparr>)"

subsection \<open>The payslip\<close>

text \<open>
  The backend's payslip projection. The amounts are of a type \<open>'n\<close> whose
  \<open>toLocaleString()\<close> is the parameter \<open>loc\<close> (a string is returned as it is, a
  number is grouped by the browser's locale).
\<close>

record 'n payslip =
  ps_month :: int
  ps_year :: int
  ps_pay_date :: string
  ps_name :: string
  ps_department :: string
  ps_position :: string
  ps_employee_id :: string
  ps_basic_salary :: 'n
  ps_allowances :: 'n
  ps_overtime :: 'n
  ps_gross_salary :: 'n
  ps_deductions_total :: 'n
  ps_net_salary :: 'n

text \<open>
  \<open>new Date(year, month - 1, 1).toLocaleString('default', {month: 'long'})\<close> in an
  English locale; the \<open>Date\<close> constructor carries a month outside 1..12 into the
  neighbouring year, which leaves the month name that of \<open>(month - 1) mod 12\<close>.
\<close>

definition month_name :: "int \<Rightarrow> string" where
  "month_name m =
     [''January'', ''February'', ''March'', ''April'', ''May'', ''June'', ''July'', ''August'',
      ''September'', ''October'', ''November'', ''December''] ! nat ((m - 1) mod 12)"

text \<open>
  \<open>new Date(pay_date).toLocaleDateString()\<close> in the \<open>en-US\<close> format \<open>M/D/YYYY\<close>: the
  date-only string is midnight UTC, printed in local time.
\<close>

definition pay_date_label :: "int \<Rightarrow> string \<Rightarrow> string" where
  "pay_date_label off s =
     (case js_local_date off s of
        None \<Rightarrow> ''Invalid Date''
      | Some d \<Rightarrow> string_of_nat (month d) @ ''/'' @ string_of_nat (day d) @ ''/'' @ string_of_int (year d))"

record payslip_view =
  pv_title :: string
  pv_details :: "string list"
  pv_pay_date :: string
  pv_rows :: "(string \<times> string) list"

text \<open>\<^verbatim>\<open>displayPayslip\<close>: the header, the details and the six amount rows (the peso sign is U+20B1).\<close>

definition displayPayslip :: "('n \<Rightarrow> string) \<Rightarrow> int \<Rightarrow> 'n payslip \<Rightarrow> payslip_view" where
  "displayPayslip loc off data =
     \<lparr>pv_title = ''Payslip for '' @ month_name (ps_month data) @ '' '' @ string_of_int (ps_year data),
      pv_details = [ps_name data, ps_department data, ps_position data, ps_employee_id data],
      pv_pay_date = pay_date_label off (ps_pay_date data),
      pv_rows = [(''Basic Salary'', ''<U+20B1>'' @ loc (ps_basic_salary data)),
                 (''Allowances'', ''+<U+20B1>'' @ loc (ps_allowances data)),
                 (''Overtime'', ''+<U+20B1>'' @ loc (ps_overtime data)),
                 (''Gross Salary'', ''<U+20B1>'' @ loc (ps_gross_salary data)),
                 (''Deductions'', ''-<U+20B1>'' @ loc (ps_deductions_total data)),
                 (''NET SALARY'', ''<U+20B1>'' @ loc (ps_net_salary data))]\<rparr>"

text \<open>
  \<^verbatim>\<open>viewMyPayslip\<close>: one GET; a 2xx JSON answer fills the payslip modal and opens it,
  everything else alerts \<open>Failed to load payslip\<close>. The result is the content written
  into the modal, if any, and the new state.
\<close>

definition viewMyPayslip ::
  "('n \<Rightarrow> string) \<Rightarrow> nat \<Rightarrow> 'n payslip response \<Rightarrow> env \<Rightarrow> emp_state \<Rightarrow> payslip_view option \<times> emp_state" where
  "viewMyPayslip loc payrollId r ev s =
     (let s0 = send ''GET'' (api_base @ ''/payroll/'' @ string_of_nat payrollId @ ''/payslip/'') NoBody s
      in case r of
           Response st (Json data) \<Rightarrow>
             if resp_ok st
             then (Some (displayPayslip loc (tz_off ev) data), s0\<lparr>open_modals := insert ''payslip-modal'' (open_modals s0)\<rparr>)
             else (None, alert ''Failed to load payslip'' s0)
         | _ \<Rightarrow> (None, alert ''Failed to load payslip'' s0))"

subsection \<open>Properties\<close>

text \<open>
  C21: the profile's statistics are the dashboard's. For a loaded profile, the present
  days, absent days, leave days taken and attendance rate that \<^verbatim>\<open>renderMyProfile\<close>
  writes are the values \<^verbatim>\<open>refreshDashboard\<close> writes for the same cache: the two
  copies of the computation agree.
\<close>

theorem profile_matches_dashboard:
  assumes "currentEmployee s \<noteq> None"
  shows "\<exists>p v. renderMyProfile ev s = Some p \<and> view (refreshDashboard ev s) = Some v
           \<and> pf_present p = stat_days_present v \<and> pf_absent p = stat_days_absent v
           \<and> pf_leaves p = stat_leaves_taken v \<and> pf_rate p = stat_attendance_rate v"
  using assms
  by (auto simp: renderMyProfile_def refreshDashboard_def dashboard_view_def Let_def present_days_def absent_days_def)

text \<open>
  C39: the employee id label \<open>EMP-\<close> followed by the id padded to four digits gives
  the id back, so distinct employees get distinct labels; ids below 10000 give labels
  of exactly eight characters.
\<close>

theorem emp_id_label_roundtrip:
  "take 4 (emp_id_label i) = ''EMP-'' \<and> digits_val (drop 4 (emp_id_label i)) = Some i
   \<and> (i < 10000 \<longrightarrow> length (emp_id_label i) = 8)"
proof -
  have "i < 10000 \<Longrightarrow> length (string_of_nat i) \<le> 4"
    by (rule length_string_of_nat_le) simp_all
  then show ?thesis by (auto simp: emp_id_label_def)
qed

text \<open>
  C37: the payslip reproduces the backend's projection. On a 2xx JSON answer the modal
  opens with the six amounts of the answer, each as its \<open>toLocaleString\<close>, in the
  order basic, allowances, overtime, gross, deductions, net (nothing is recomputed, so
  a net that differs from gross minus deductions is shown as sent). On a network
  failure, a non-2xx status or a body that is not JSON, no content is written, the
  modal stays as it was, and \<open>Failed to load payslip\<close> is alerted.
\<close>

theorem viewMyPayslip_outcome:
  "(resp_ok st \<longrightarrow>
      map snd (pv_rows (the (fst (viewMyPayslip loc i (Response st (Json data)) ev s)))) =
        [''<U+20B1>'' @ loc (ps_basic_salary data), ''+<U+20B1>'' @ loc (ps_allowances data),
         ''+<U+20B1>'' @ loc (ps_overtime data), ''<U+20B1>'' @ loc (ps_gross_salary data),
         ''-<U+20B1>'' @ loc (ps_deductions_total data), ''<U+20B1>'' @ loc (ps_net_salary data)]
      \<and> ''payslip-modal'' \<in> open_modals (snd (viewMyPayslip loc i (Response st (Json data)) ev s))
      \<and> alerts (snd (viewMyPayslip loc i (Response st (Json data)) ev s)) = alerts s)
   \<and> (\<not> (\<exists>st' d. r = Response st' (Json d) \<and> resp_ok st') \<longrightarrow>
      fst (viewMyPayslip loc i r ev s) = None
      \<and> open_modals (snd (viewMyPayslip loc i r ev s)) = open_modals s
      \<and> alerts (snd (viewMyPayslip loc i r ev s)) = alerts s @ [''Failed to load payslip''])"
  by (auto simp: viewMyPayslip_def displayPayslip_def Let_def send_def alert_def
        split: response.split body.split)

lemma utc_midnight_east: "0 < off \<Longrightarrow> off \<le> 1440 \<Longrightarrow> utc_date_of_local_midnight off d = prev_day d"
proof -
  assume "0 < off" "off \<le> 1440"
  then have "(off + 1439) div 1440 = 1" by (intro int_div_pos_eq[of _ 1440 1 "off - 1"]) simp_all
  then show ?thesis by (simp add: utc_date_of_local_midnight_def shift_days_def)
qed

lemma utc_midnight_west: "- 1440 < off \<Longrightarrow> off \<le> 0 \<Longrightarrow> utc_date_of_local_midnight off d = d"
proof -
  assume "- 1440 < off" "off \<le> 0"
  then have "(off + 1439) div 1440 = 0" by (intro int_div_pos_eq[of _ 1440 0 "off + 1439"]) simp_all
  then show ?thesis by (simp add: utc_date_of_local_midnight_def shift_days_def)
qed

text \<open>
  C18: the attendance month input is off by one day east of UTC. When the input is
  empty, \<^verbatim>\<open>loadMyAttendance\<close> means to set it to the first of the current month, but
  \<open>valueAsDate\<close> takes the UTC date of local midnight: in every zone east of UTC up to
  UTC+24h (the deployment's UTC+8 among them) the input shows the day before, the last
  day of the previous month; at UTC and west of it it shows the first. A value
  already in the input is kept.
\<close>

theorem attendance_date_default:
  assumes "currentEmployee s \<noteq> None"
  shows "(0 < tz_off ev \<and> tz_off ev \<le> 1440 \<longrightarrow>
            fst (the (loadMyAttendance ev [] s)) = format_iso_date (prev_day (first_of_month (today ev))))
       \<and> (- 1440 < tz_off ev \<and> tz_off ev \<le> 0 \<longrightarrow>
            fst (the (loadMyAttendance ev [] s)) = format_iso_date (first_of_month (today ev)))
       \<and> (input \<noteq> [] \<longrightarrow> fst (the (loadMyAttendance ev input s)) = input)"
  using assms by (auto simp: loadMyAttendance_def utc_midnight_east utc_midnight_west)




text \<open>
  C20: the leave table. When every cached leave's start date parses,
  \<^verbatim>\<open>renderMyLeaves\<close> writes one row per cached leave, no leave lost or repeated,
  newest start date first, leaves starting on the same day in the order of the cache;
  when a start date does not parse, the order is not determined (\<open>None\<close>).
\<close>

theorem renderMyLeaves_table:
  assumes "currentEmployee s \<noteq> None"
  shows "(list_all (\<lambda>l. parse_iso_date (startDate l) \<noteq> None) (myLeaves s) \<longrightarrow>
           (\<exists>ls. lv_rows (the (renderMyLeaves s)) = Some (map leave_row ls) \<and> mset ls = mset (myLeaves s)
              \<and> sorted_wrt (\<lambda>a b. day_number (the (parse_iso_date (startDate b)))
                                  \<le> day_number (the (parse_iso_date (startDate a)))) ls
              \<and> (\<forall>k. filter (\<lambda>l. day_number (the (parse_iso_date (startDate l))) = k) ls
                     = filter (\<lambda>l. day_number (the (parse_iso_date (startDate l))) = k) (myLeaves s))))
       \<and> (\<not> list_all (\<lambda>l. parse_iso_date (startDate l) \<noteq> None) (myLeaves s) \<longrightarrow>
           lv_rows (the (renderMyLeaves s)) = None)"
proof -
  let ?key = "\<lambda>l. day_number (the (parse_iso_date (startDate l)))"
  let ?ls = "sort_key (\<lambda>l. - ?key l) (myLeaves s)"
  have "sorted (map (\<lambda>l. - ?key l) ?ls)" by simp
  then have "sorted_wrt (\<lambda>a b. ?key b \<le> ?key a) ?ls" by (simp add: sorted_map)
  moreover have "filter (\<lambda>l. ?key l = k) ?ls = filter (\<lambda>l. ?key l = k) (myLeaves s)" for k
    using sort_key_stable[of "\<lambda>l. - ?key l" "- k" "myLeaves s"] by simp
  ultimately show ?thesis
    using assms by (auto simp: renderMyLeaves_def sorted_leaves_def)
qed

end
