(* ===== verification/Chrome.thy ===== *)
theory Chrome
  imports Views
begin

text \<open>
  The page chrome of \<^verbatim>\<open>employee_dashboard.js\<close>: the clock display
  (\<^verbatim>\<open>updateClock\<close>), the mobile menu (\<^verbatim>\<open>toggleMobileMenu\<close>), view switching
  (\<^verbatim>\<open>switchView\<close>), the modals (\<^verbatim>\<open>openModal\<close>) and printing (\<^verbatim>\<open>printPayslip\<close>).
  The record \<open>chrome\<close> holds the classes these functions toggle: which view sections
  are shown, which sidebar links are active, whether the sidebar is off-screen
  (\<open>-translate-x-full\<close>) and the overlay hidden, and the two clock texts. The section
  names of the markup are a field; the markup has a link \<open>nav-v\<close> for each section
  \<open>view-v\<close>.
\<close>

record chrome =
  ch_sections :: "string list"
  ch_visible :: "string set"
  ch_active :: "string set"
  ch_sidebar_hidden :: bool
  ch_overlay_hidden :: bool
  ch_time :: string
  ch_date :: string
  ch_rendered :: "string list"

subsection \<open>The clock\<close>

text \<open>
  \<open>toLocaleDateString('en-US', {weekday, year, month: 'long', day})\<close> of the local date;
  1 January 1970 was a Thursday.
\<close>

definition weekday_name :: "date \<Rightarrow> string" where
  "weekday_name d =
     [''Sunday'', ''Monday'', ''Tuesday'', ''Wednesday'', ''Thursday'', ''Friday'', ''Saturday'']
       ! nat ((day_number d + 4) mod 7)"

definition date_label :: "date \<Rightarrow> string" where
  "date_label d =
     weekday_name d @ '', '' @ month_name (int (month d)) @ '' '' @ string_of_nat (day d) @ '', ''
     @ string_of_int (year d)"

text \<open>
  \<open>toLocaleTimeString('en-US', {hour12: false})\<close>: two-digit fields. Engines differ on
  the hour after midnight (\<open>00\<close> with the \<open>h23\<close> cycle, \<open>24\<close> with \<open>h24\<close>), so the
  cycle is the parameter \<open>h24\<close>.
\<close>

definition time_label :: "bool \<Rightarrow> nat \<Rightarrow> nat \<Rightarrow> nat \<Rightarrow> string" where
  "time_label h24 h m sec =
     pad_start 2 CHR ''0'' (string_of_nat (if h24 \<and> h = 0 then 24 else h)) @ '':''
     @ pad_start 2 CHR ''0'' (string_of_nat m) @ '':'' @ pad_start 2 CHR ''0'' (string_of_nat sec)"

text \<open>\<^verbatim>\<open>updateClock\<close> at a local date and time of day (hours, minutes, seconds).\<close>

definition updateClock :: "bool \<Rightarrow> date \<Rightarrow> nat \<Rightarrow> nat \<Rightarrow> nat \<Rightarrow> chrome \<Rightarrow> chrome" where
  "updateClock h24 d h m sec c = c\<lparr>ch_time := time_label h24 h m sec, ch_date := date_label d\<rparr>"

subsection \<open>Menu, views and modals\<close>

definition toggleMobileMenu :: "chrome \<Rightarrow> chrome" where
  "toggleMobileMenu c = c\<lparr>ch_sidebar_hidden := \<not> ch_sidebar_hidden c, ch_overlay_hidden := \<not> ch_overlay_hidden c\<rparr>"

text \<open>The render function \<^verbatim>\<open>switchView\<close> calls for each view.\<close>

definition view_renderer :: "string \<Rightarrow> string option" where
  "view_renderer v =
     (if v = ''dashboard'' then Some ''refreshDashboard'' else if v = ''attendance'' then Some ''loadMyAttendance''
      else if v = ''leave'' then Some ''renderMyLeaves'' else if v = ''payroll'' then Some ''renderMyPayroll''
      else if v = ''profile'' then Some ''renderMyProfile'' else None)"

text \<open>
  \<^verbatim>\<open>switchView(viewName)\<close> at window width \<open>w\<close>: all sections are hidden first; when the
  markup has no section \<open>view-viewName\<close>, \<open>getElementById\<close> returns \<open>null\<close> and the call
  throws there, leaving every section hidden. Otherwise the section and its link are
  made the only visible and active ones, the menu is toggled on narrow windows, and
  the view's render function runs (\<^verbatim>\<open>refreshDashboard\<close> is the one that changes the
  client state).
\<close>

definition switchView :: "env \<Rightarrow> int \<Rightarrow> string \<Rightarrow> chrome \<times> emp_state \<Rightarrow> chrome \<times> emp_state" where
  "switchView ev w v cs =
     (let (c, s) = cs; c0 = c\<lparr>ch_visible := {}\<rparr>
      in if v \<notin> set (ch_sections c) then (c0, s)
         else (let c1 = c0\<lparr>ch_visible := {v}, ch_active := {v}\<rparr>;
                   c2 = (if w < 1024 then toggleMobileMenu c1 else c1);
                   c3 = c2\<lparr>ch_rendered := ch_rendered c2 @ (case view_renderer v of None \<Rightarrow> [] | Some f \<Rightarrow> [f])\<rparr>
               in (c3, if v = ''dashboard'' then refreshDashboard ev s else s)))"

definition openModal :: "string \<Rightarrow> emp_state \<Rightarrow> emp_state" where
  "openModal m s = s\<lparr>open_modals := insert m (open_modals s)\<rparr>"

subsection \<open>Printing\<close>

text \<open>
  \<^verbatim>\<open>printPayslip\<close>: what it does to the new window, in order. The document written is
  the title, the stylesheet script and the payslip markup (its fixed layout text is not
  modelled); printing and closing wait for a 250 ms timer.
\<close>

record print_doc =
  pd_title :: string
  pd_script :: string
  pd_body :: payslip_view

datatype win_event = WinOpen string | WinWrite print_doc | WinDocClose | WinFocus
  | WinTimeout nat "win_event list" | WinPrint | WinClose

definition printPayslip :: "payslip_view \<Rightarrow> win_event list" where
  "printPayslip content =
     [WinOpen ''_blank'',
      WinWrite \<lparr>pd_title = ''Payslip'', pd_script = ''https://cdn.tailwindcss.com'', pd_body = content\<rparr>,
      WinDocClose, WinFocus, WinTimeout 250 [WinPrint, WinClose]]"

subsection \<open>Chrome events\<close>

text \<open>
  From the markup's initial classes (the dashboard section shown and its link active,
  sidebar and overlay in the same state), the events: a clock tick, a menu toggle, a
  switch to any view name at any width, opening a modal.
\<close>

inductive chrome_step :: "env \<Rightarrow> chrome \<times> emp_state \<Rightarrow> chrome \<times> emp_state \<Rightarrow> bool" for ev where
  tick: "chrome_step ev (c, s) (updateClock h24 d h m sec c, s)"
| toggle: "chrome_step ev (c, s) (toggleMobileMenu c, s)"
| switch: "chrome_step ev cs (switchView ev w v cs)"
| modal: "chrome_step ev (c, s) (c, openModal mid s)"

inductive chrome_reachable :: "env \<Rightarrow> chrome \<times> emp_state \<Rightarrow> bool" for ev where
  start: "''dashboard'' \<in> set secs \<Longrightarrow>
    chrome_reachable ev (\<lparr>ch_sections = secs, ch_visible = {''dashboard''}, ch_active = {''dashboard''},
                           ch_sidebar_hidden = b, ch_overlay_hidden = b, ch_time = [], ch_date = [],
                           ch_rendered = []\<rparr>, s)"
| step: "chrome_reachable ev cs \<Longrightarrow> chrome_step ev cs cs' \<Longrightarrow> chrome_reachable ev cs'"

subsection \<open>Properties\<close>

definition chrome_ok :: "chrome \<Rightarrow> bool" where
  "chrome_ok c =
     (ch_sidebar_hidden c = ch_overlay_hidden c \<and> ch_visible c \<subseteq> ch_active c
      \<and> ch_visible c \<subseteq> set (ch_sections c) \<and> card (ch_visible c) \<le> 1)"

lemma chrome_ok_switchView: "chrome_ok (fst cs) \<Longrightarrow> chrome_ok (fst (switchView ev w v cs))"
  by (cases cs) (auto simp: chrome_ok_def switchView_def toggleMobileMenu_def Let_def)

lemma chrome_step_ok: "chrome_step ev cs cs' \<Longrightarrow> chrome_ok (fst cs) \<Longrightarrow> chrome_ok (fst cs')"
  by (induction rule: chrome_step.induct)
     (simp_all add: chrome_ok_switchView, auto simp: chrome_ok_def updateClock_def toggleMobileMenu_def)

text \<open>
  A window narrower than 1024 pixels toggles the menu on every successful switch,
  whether it was open or not; an unknown view name leaves every section hidden.
\<close>

lemma switchView_narrow_toggles:
  "v \<in> set (ch_sections c) \<Longrightarrow> w < 1024 \<Longrightarrow>
     ch_sidebar_hidden (fst (switchView ev w v (c, s))) = (\<not> ch_sidebar_hidden c)"
  by (simp add: switchView_def toggleMobileMenu_def Let_def)

lemma switchView_unknown_blank:
  "v \<notin> set (ch_sections c) \<Longrightarrow> ch_visible (fst (switchView ev w v (c, s))) = {}"
  by (simp add: switchView_def)

text \<open>
  C38: the chrome's classes stay coherent. In every state reached from the markup's
  initial classes through clock ticks, menu toggles, view switches (to any name, at any
  width) and modals, the sidebar and the overlay are shown or hidden together, at most
  one view section is visible, and a visible section is one of the markup's sections
  with its sidebar link active.
\<close>

theorem chrome_invariant: "chrome_reachable ev cs \<Longrightarrow> chrome_ok (fst cs)"
proof (induction rule: chrome_reachable.induct)
  case (start secs b s)
  then show ?case by (simp add: chrome_ok_def)
next
  case (step cs cs')
  then show ?case by (blast intro: chrome_step_ok)
qed

end
