(* ===== verification/Admin.thy ===== *)
theory Admin
  imports Api
begin

text \<open>
  The admin dashboard's extensions (\<^verbatim>\<open>admin_extensions.js\<close>): the pending-employee
  badge (\<^verbatim>\<open>loadPendingEmployees\<close>), the pending list (\<^verbatim>\<open>viewPendingEmployees\<close>),
  the edit modal (\<^verbatim>\<open>openEditEmployee\<close>, \<^verbatim>\<open>handleEditEmployee\<close>) and the hook that
  wraps the admin page's \<^verbatim>\<open>loadDataFromAPI\<close>. The page state they read and write is
  the record \<open>admin_state\<close>: the admin page's global \<open>employees\<close> array (\<open>None\<close> when
  it is undefined), the stored token, the badge element (\<open>None\<close> when the page has
  none; else its text and whether it is hidden), the banner, the pending table, the
  filters, the edit form, the open modals, the alerts shown and the requests sent.
  Characters outside Latin-1 in alert texts are written \<open><U+XXXX>\<close>.
\<close>

text \<open>An element of the admin page's \<open>employees\<close> array (camel-case fields).\<close>

record admin_employee =
  ae_id :: nat
  ae_firstName :: string
  ae_lastName :: string
  ae_email :: string
  ae_department :: string
  ae_position :: string
  ae_salary :: string
  ae_joinDate :: string
  ae_status :: string

text \<open>\<open>openEditEmployee\<close>'s conversion of the backend's object (lines 143-153).\<close>

definition to_admin_employee :: "employee \<Rightarrow> admin_employee" where
  "to_admin_employee d =
     \<lparr>ae_id = emp_id d, ae_firstName = first_name d, ae_lastName = last_name d, ae_email = email d,
      ae_department = department d, ae_position = position d, ae_salary = salary d,
      ae_joinDate = join_date d, ae_status = emp_status d\<rparr>"

text \<open>The body of the edit PUT; \<open>parseFloat\<close> gives \<open>None\<close> for \<open>NaN\<close>.\<close>

record emp_update =
  eu_first_name :: string
  eu_last_name :: string
  eu_email :: string
  eu_department :: string
  eu_position :: string
  eu_salary :: "rat option"
  eu_join_date :: string
  eu_status :: string

record admin_state =
  adm_employees :: "admin_employee list option"
  adm_token :: "string option"
  adm_badge :: "(string \<times> bool) option"
  adm_white_box :: bool
  adm_banner :: "string option"
  adm_search :: string
  adm_dept_filter :: string
  adm_table :: "string list list"
  adm_view :: string
  adm_edit_form :: "admin_employee option"
  adm_modals :: "string set"
  adm_alerts :: "string list"
  adm_sent :: "emp_update http_request list"

definition adm_alert :: "string \<Rightarrow> admin_state \<Rightarrow> admin_state" where
  "adm_alert msg s = s\<lparr>adm_alerts := adm_alerts s @ [msg]\<rparr>"

definition adm_send :: "emp_update http_request \<Rightarrow> admin_state \<Rightarrow> admin_state" where
  "adm_send rq s = s\<lparr>adm_sent := adm_sent s @ [rq]\<rparr>"

text \<open>\<open>'Token ' + token\<close>: a missing token is concatenated as \<open>null\<close>.\<close>

definition js_concat_nullable :: "string \<Rightarrow> string option \<Rightarrow> string" where
  "js_concat_nullable a t = a @ (case t of None \<Rightarrow> ''null'' | Some x \<Rightarrow> x)"

definition employees_request :: "(string \<times> string) list \<Rightarrow> emp_update http_request" where
  "employees_request hs = \<lparr>rq_method = GET, rq_url = api_base @ ''/employees/'', rq_headers = hs, rq_body = None\<rparr>"

subsection \<open>The pending badge\<close>

text \<open>\<open>token ? { 'Authorization': `Token ${token}` } : {}\<close>.\<close>

definition token_headers :: "string option \<Rightarrow> (string \<times> string) list" where
  "token_headers t = (if js_truthy t then [(''Authorization'', ''Token '' @ the t)] else [])"

text \<open>
  \<^verbatim>\<open>loadPendingEmployees\<close>: the header is sent only with a non-empty token; on a 2xx
  JSON answer the badge shows the number of \<open>Pending\<close> employees and is hidden when
  it is 0, and the list is returned; otherwise the error is caught and \<open>[]\<close> returned.
\<close>

definition loadPendingEmployees ::
  "employee listing response \<Rightarrow> admin_state \<Rightarrow> employee list \<times> admin_state" where
  "loadPendingEmployees r s =
     (let s0 = adm_send (employees_request (token_headers (adm_token s))) s
      in case r of
           NetworkError \<Rightarrow> ([], s0)
         | Response st b \<Rightarrow>
             if resp_ok st then
               (case b of
                  BadJson \<Rightarrow> ([], s0)
                | Json d \<Rightarrow>
                    (let pend = filter (\<lambda>emp. emp_status emp = ''Pending'') (items d);
                         n = length pend
                     in (pend, s0\<lparr>adm_badge := map_option (\<lambda>_. (string_of_nat n, \<not> 0 < n)) (adm_badge s0)\<rparr>)))
             else ([], s0))"

subsection \<open>The pending list\<close>

definition pending_message :: "nat \<Rightarrow> string" where
  "pending_message n =
     ''You have '' @ string_of_nat n @ '' new employee'' @ (if n > 1 then ''s'' else '''')
     @ '' waiting to be processed!''"

text \<open>
  One row of the pending table: the initials (\<open>emp.first_name[0]\<close> is \<open>undefined\<close> on an
  empty name), the name, e-mail, department, position, salary, join date, status and
  the id the \<open>Setup Profile\<close> button passes to \<open>openEditEmployee\<close>. The salary cell's
  \<open>toLocaleString\<close> formatting is not modelled: the cell holds the backend's string.
\<close>

definition pending_row :: "employee \<Rightarrow> string list" where
  "pending_row emp =
     [js_template (str_at0 (first_name emp)) @ js_template (str_at0 (last_name emp)),
      first_name emp @ '' '' @ last_name emp, email emp, department emp, position emp, salary emp,
      join_date emp, emp_status emp, ''openEditEmployee('' @ string_of_nat (emp_id emp) @ '')'']"

definition no_pending_alert :: string where
  "no_pending_alert =
     ''No pending employees to process! <U+1F389>'' @ [CHR 0x0A, CHR 0x0A] @ ''All employees have been activated.''"

definition viewPendingEmployees :: "employee listing response \<Rightarrow> admin_state \<Rightarrow> admin_state" where
  "viewPendingEmployees r s =
     (let (pend, s1) = loadPendingEmployees r s
      in if length pend = 0 then adm_alert no_pending_alert s1
         else s1\<lparr>adm_banner := (if adm_white_box s1 then Some (pending_message (length pend)) else None),
                 adm_search := '''', adm_dept_filter := '''',
                 adm_table := map pending_row pend, adm_view := ''employees''\<rparr>)"

subsection \<open>The edit modal\<close>

definition open_edit_modal :: "admin_employee \<Rightarrow> admin_state \<Rightarrow> admin_state" where
  "open_edit_modal emp s = s\<lparr>adm_edit_form := Some emp, adm_modals := insert ''edit-employee-modal'' (adm_modals s)\<rparr>"

text \<open>
  \<^verbatim>\<open>openEditEmployee\<close>: the global array first; otherwise one GET of the employee,
  whose failure to fetch or to parse shows an alert, and whose non-2xx status leaves
  the employee missing.
\<close>

definition openEditEmployee :: "nat \<Rightarrow> employee response \<Rightarrow> admin_state \<Rightarrow> admin_state" where
  "openEditEmployee employeeId r s =
     (let found = (case adm_employees s of None \<Rightarrow> None | Some es \<Rightarrow> find (\<lambda>e. ae_id e = employeeId) es)
      in case found of
           Some emp \<Rightarrow> open_edit_modal emp s
         | None \<Rightarrow>
             (let s0 = adm_send \<lparr>rq_method = GET, rq_url = api_base @ ''/employees/'' @ string_of_nat employeeId @ ''/'',
                                  rq_headers = [(''Authorization'', js_concat_nullable ''Token '' (adm_token s))],
                                  rq_body = None\<rparr> s
              in case r of
                   NetworkError \<Rightarrow> adm_alert ''Failed to load employee data'' s0
                 | Response st b \<Rightarrow>
                     if resp_ok st then
                       (case b of
                          BadJson \<Rightarrow> adm_alert ''Failed to load employee data'' s0
                        | Json d \<Rightarrow> open_edit_modal (to_admin_employee d) s0)
                     else adm_alert ''Employee not found'' s0))"

text \<open>
  \<open>parseFloat\<close>: leading white space, a sign, digits, a fraction and an exponent, read
  as far as they go; \<open>None\<close> when no digit is read. The prefix \<open>Infinity\<close> is also
  \<open>None\<close>: the only use of the value is \<open>JSON.stringify\<close>, which writes \<open>null\<close> for
  both.
\<close>

definition js_space :: "char \<Rightarrow> bool" where
  "js_space c = (c \<in> set [CHR '' '', CHR 0x09, CHR 0x0A, CHR 0x0B, CHR 0x0C, CHR 0x0D, CHR 0xA0])"

definition read_sign :: "string \<Rightarrow> int \<times> string" where
  "read_sign t =
     (case t of c # u \<Rightarrow> if c = CHR ''-'' then (-1, u) else if c = CHR ''+'' then (1, u) else (1, t)
      | [] \<Rightarrow> (1, t))"

definition read_exponent :: "string \<Rightarrow> int" where
  "read_exponent t =
     (case t of
        c # u \<Rightarrow>
          if c = CHR ''e'' \<or> c = CHR ''E'' then
            (let (sg, v) = read_sign u; ds = takeWhile is_digit v
             in if ds = [] then 0 else sg * int (digits_acc 0 ds))
          else 0
      | [] \<Rightarrow> 0)"

definition parse_float :: "string \<Rightarrow> rat option" where
  "parse_float s =
     (let (sg, u) = read_sign (dropWhile js_space s);
          ip = takeWhile is_digit u;
          rest = dropWhile is_digit u;
          (fp, rest') = (case rest of
                           c # v \<Rightarrow> if c = CHR ''.'' then (takeWhile is_digit v, dropWhile is_digit v) else ([], rest)
                         | [] \<Rightarrow> ([], rest));
          e = read_exponent rest';
          m = of_int sg * (of_nat (digits_acc 0 ip) + of_nat (digits_acc 0 fp) / 10 ^ length fp)
      in if ip = [] \<and> fp = [] then None
         else Some (if 0 \<le> e then m * 10 ^ nat e else m / 10 ^ nat (- e)))"

record edit_form =
  fd_employeeId :: string
  fd_firstName :: string
  fd_lastName :: string
  fd_email :: string
  fd_department :: string
  fd_position :: string
  fd_salary :: string
  fd_joinDate :: string
  fd_status :: string

definition edit_body :: "edit_form \<Rightarrow> emp_update" where
  "edit_body f =
     \<lparr>eu_first_name = fd_firstName f, eu_last_name = fd_lastName f, eu_email = fd_email f,
      eu_department = fd_department f, eu_position = fd_position f, eu_salary = parse_float (fd_salary f),
      eu_join_date = fd_joinDate f, eu_status = fd_status f\<rparr>"

definition activated_alert :: string where
  "activated_alert =
     ''<U+2705> Employee profile activated successfully!'' @ [CHR 0x0A, CHR 0x0A]
     @ ''The employee can now access their dashboard.''"

definition updated_alert :: string where
  "updated_alert = ''<U+2705> Employee updated successfully!''"

text \<open>The PUT of the edit form, with the stored token (lines 202-210).\<close>

definition edit_request :: "edit_form \<Rightarrow> string option \<Rightarrow> emp_update http_request" where
  "edit_request f tok =
     \<lparr>rq_method = PUT, rq_url = api_base @ ''/employees/'' @ fd_employeeId f @ ''/'',
      rq_headers = [(''Authorization'', js_concat_nullable ''Token '' tok), (''Content-Type'', ''application/json'')],
      rq_body = Some (edit_body f)\<rparr>"

definition adm_closeModal :: "string \<Rightarrow> admin_state \<Rightarrow> admin_state" where
  "adm_closeModal m s = s\<lparr>adm_modals := adm_modals s - {m}\<rparr>"

text \<open>
  \<^verbatim>\<open>handleEditEmployee\<close>: the PUT, then on success the alert, the global
  \<^verbatim>\<open>loadDataFromAPI\<close> (\<open>load\<close>, whatever it is when the handler runs) and one more
  \<^verbatim>\<open>loadPendingEmployees\<close>; \<^verbatim>\<open>renderEmployees\<close> only redraws the table from the
  array. A failed PUT shows the stringified error body. \<open>rp\<close> is the PUT's answer,
  \<open>re\<close> the answer to the employees GET.
\<close>

definition handleEditEmployee ::
  "('e \<Rightarrow> string) \<Rightarrow> (admin_state \<Rightarrow> admin_state) \<Rightarrow> edit_form \<Rightarrow> 'e response \<Rightarrow> employee listing response
   \<Rightarrow> admin_state \<Rightarrow> admin_state" where
  "handleEditEmployee js load f rp re s =
     (let body = edit_body f;
          s0 = adm_send (edit_request f (adm_token s)) s
      in case rp of
           NetworkError \<Rightarrow> adm_alert ''Failed to update employee'' s0
         | Response st b \<Rightarrow>
             if resp_ok st then
               (let s1 = adm_alert (if eu_status body = ''Active'' then activated_alert else updated_alert)
                           (adm_closeModal ''edit-employee-modal'' s0)
                in snd (loadPendingEmployees re (load s1)))
             else
               (case b of
                  BadJson \<Rightarrow> adm_alert ''Failed to update employee'' s0
                | Json e \<Rightarrow> adm_alert (''Failed to update employee: '' @ js e) s0))"

subsection \<open>The reload hook\<close>

text \<open>
  On \<open>DOMContentLoaded\<close>, when the page defines \<^verbatim>\<open>loadDataFromAPI\<close>, it is replaced by
  the original followed by \<^verbatim>\<open>loadPendingEmployees\<close>.
\<close>

definition hook_loadDataFromAPI ::
  "(admin_state \<Rightarrow> admin_state) option \<Rightarrow> employee listing response \<Rightarrow> (admin_state \<Rightarrow> admin_state) option" where
  "hook_loadDataFromAPI orig re = map_option (\<lambda>f s. snd (loadPendingEmployees re (f s))) orig"

text \<open>
  The admin page's own \<^verbatim>\<open>loadDataFromAPI\<close> is not part of these sources; following
  the specification's reload protocol it fetches all employees and replaces the
  array on a 2xx JSON answer.
\<close>

definition loadDataFromAPI_spec :: "employee listing response \<Rightarrow> admin_state \<Rightarrow> admin_state" where
  "loadDataFromAPI_spec re s =
     (let s0 = adm_send (employees_request [(''Authorization'', js_concat_nullable ''Token '' (adm_token s))]) s
      in case re of
           Response st (Json d) \<Rightarrow> if resp_ok st then s0\<lparr>adm_employees := Some (map to_admin_employee (items d))\<rparr> else s0
         | _ \<Rightarrow> s0)"

abbreviation pending_of :: "employee list \<Rightarrow> employee list" where
  "pending_of es \<equiv> filter (\<lambda>emp. emp_status emp = ''Pending'') es"

subsection \<open>Properties\<close>

lemma pending_to_admin:
  "filter (\<lambda>e. ae_status e = ''Pending'') (map to_admin_employee es) = map to_admin_employee (pending_of es)"
  by (induction es) (simp_all add: to_admin_employee_def)

lemma digit_not_special: "is_digit c \<Longrightarrow> \<not> js_space c \<and> c \<noteq> CHR ''-'' \<and> c \<noteq> CHR ''+'' \<and> c \<noteq> CHR ''.''"
  by (auto simp: is_digit_def js_space_def)

lemma read_prefix_digits [simp]:
  "dropWhile js_space (string_of_nat a @ t) = string_of_nat a @ t"
  "read_sign (string_of_nat a @ t) = (1, string_of_nat a @ t)"
proof -
  obtain c cs where e: "string_of_nat a = c # cs" and d: "is_digit c" using string_of_nat_hd_digit by blast
  show "dropWhile js_space (string_of_nat a @ t) = string_of_nat a @ t"
    using e digit_not_special[OF d] by simp
  show "read_sign (string_of_nat a @ t) = (1, string_of_nat a @ t)"
    using e digit_not_special[OF d] by (simp add: read_sign_def)
qed

text \<open>
  C13: the pending badge counts the pending employees. On a 2xx JSON answer
  \<^verbatim>\<open>loadPendingEmployees\<close> returns exactly the employees whose status is
  \<open>Pending\<close>, in the backend's order, and the badge shows their number and is hidden
  exactly when it is 0.
\<close>

theorem pending_badge_count:
  assumes "resp_ok st" and "adm_badge s \<noteq> None"
  shows "fst (loadPendingEmployees (Response st (Json d)) s) = pending_of (items d)
       \<and> adm_badge (snd (loadPendingEmployees (Response st (Json d)) s))
           = Some (string_of_nat (length (pending_of (items d))), length (pending_of (items d)) = 0)"
  using assms by (auto simp: loadPendingEmployees_def Let_def adm_send_def)

text \<open>
  C14: when the employees GET fails (network failure, non-2xx status, or a body that
  is not JSON) the error is swallowed: the function returns the empty list and the
  badge keeps the count of the previous load, where the specification recomputes it
  after every reload.
\<close>

theorem pending_badge_stale:
  assumes "\<not> (\<exists>st d. r = Response st (Json d) \<and> resp_ok st)"
  shows "fst (loadPendingEmployees r s) = []
       \<and> adm_badge (snd (loadPendingEmployees r s)) = adm_badge s
       \<and> snd (loadPendingEmployees r s) = s\<lparr>adm_sent := adm_sent s @ [employees_request
            (token_headers (adm_token s))]\<rparr>"
  using assms by (auto simp: loadPendingEmployees_def Let_def adm_send_def split: response.split body.split)

text \<open>
  C15: a failed load is reported as success. When the employees GET fails,
  \<^verbatim>\<open>viewPendingEmployees\<close> tells the admin that there are no pending employees and
  that all employees have been activated.
\<close>

theorem viewPending_failure_misreports:
  assumes "\<not> (\<exists>st d. r = Response st (Json d) \<and> resp_ok st)"
  shows "adm_alerts (viewPendingEmployees r s) = adm_alerts s @ [no_pending_alert]"
  using assms
  by (auto simp: viewPendingEmployees_def loadPendingEmployees_def Let_def adm_send_def adm_alert_def
        split: response.split body.split)

text \<open>
  C35: the edit modal takes the employee from the page's array when it is there,
  without any request; otherwise it sends one GET of that employee and fills the form
  from a 2xx JSON answer, shows \<open>Employee not found\<close> on a non-2xx status, and
  \<open>Failed to load employee data\<close> when the fetch or the parse fails.
\<close>

theorem openEditEmployee_lookup:
  "(adm_employees s = Some es \<and> find (\<lambda>e. ae_id e = i) es = Some emp \<longrightarrow>
      openEditEmployee i r s = open_edit_modal emp s)
   \<and> ((case adm_employees s of None \<Rightarrow> None | Some es \<Rightarrow> find (\<lambda>e. ae_id e = i) es) = None \<longrightarrow>
      adm_sent (openEditEmployee i r s) = adm_sent s @
         [\<lparr>rq_method = GET, rq_url = api_base @ ''/employees/'' @ string_of_nat i @ ''/'',
           rq_headers = [(''Authorization'', js_concat_nullable ''Token '' (adm_token s))], rq_body = None\<rparr>]
      \<and> adm_edit_form (openEditEmployee i r s) =
          (case r of Response st (Json d) \<Rightarrow> if resp_ok st then Some (to_admin_employee d) else adm_edit_form s
           | _ \<Rightarrow> adm_edit_form s)
      \<and> adm_alerts (openEditEmployee i r s) =
          adm_alerts s @ (case r of NetworkError \<Rightarrow> [''Failed to load employee data'']
                           | Response st BadJson \<Rightarrow> if resp_ok st then [''Failed to load employee data''] else [''Employee not found'']
                           | Response st (Json d) \<Rightarrow> if resp_ok st then [] else [''Employee not found'']))"
  by (auto simp: openEditEmployee_def Let_def adm_send_def adm_alert_def open_edit_modal_def
           split: response.split body.split option.split)

text \<open>
  C11: every branch of the edit handler, whatever function \<^verbatim>\<open>loadDataFromAPI\<close> is
  when it runs. The PUT of the form is sent first. On a 2xx answer the modal is closed,
  one alert shown, then the page's reload runs and after it the handler's own
  \<^verbatim>\<open>loadPendingEmployees\<close>. The alert is the activation message exactly when the
  form's status is \<open>Active\<close>: whether the employee was \<open>Active\<close> before is not looked
  at, although the comment at line 215 speaks of a status changed to \<open>Active\<close>. A
  non-2xx answer with a JSON body shows that body, any other failure a fixed message;
  neither reloads nor closes the modal.
\<close>

theorem handleEditEmployee_branches:
  "(resp_ok st \<longrightarrow> handleEditEmployee js load f (Response st b) re s =
      snd (loadPendingEmployees re (load
        (s\<lparr>adm_sent := adm_sent s @ [edit_request f (adm_token s)],
           adm_modals := adm_modals s - {''edit-employee-modal''},
           adm_alerts := adm_alerts s @ [if fd_status f = ''Active'' then activated_alert else updated_alert]\<rparr>))))
   \<and> (\<not> resp_ok st \<longrightarrow> handleEditEmployee js load f (Response st (Json x)) re s =
      s\<lparr>adm_alerts := adm_alerts s @ [''Failed to update employee: '' @ js x],
        adm_sent := adm_sent s @ [edit_request f (adm_token s)]\<rparr>)
   \<and> (\<not> resp_ok st \<longrightarrow> handleEditEmployee js load f (Response st BadJson) re s =
      s\<lparr>adm_alerts := adm_alerts s @ [''Failed to update employee''],
        adm_sent := adm_sent s @ [edit_request f (adm_token s)]\<rparr>)
   \<and> handleEditEmployee js load f NetworkError re s =
      s\<lparr>adm_alerts := adm_alerts s @ [''Failed to update employee''],
        adm_sent := adm_sent s @ [edit_request f (adm_token s)]\<rparr>"
  by (simp add: handleEditEmployee_def Let_def adm_send_def adm_alert_def adm_closeModal_def edit_body_def)

text \<open>
  C12: after a successful edit the badge shows the backend's count of \<open>Pending\<close>
  employees and is hidden exactly when it is 0, because of the handler's own
  \<^verbatim>\<open>loadPendingEmployees\<close> call: this holds for any page reload that keeps the badge
  element, the hooked one and one without the hook alike, and the last request sent is
  that call's employees GET.
\<close>

theorem handleEditEmployee_badge_refreshed:
  assumes "resp_ok st" and "resp_ok se" and "adm_badge s \<noteq> None"
    and "\<forall>t. adm_badge t \<noteq> None \<longrightarrow> adm_badge (load t) \<noteq> None"
  shows "adm_badge (handleEditEmployee js load f (Response st b) (Response se (Json d)) s)
           = Some (string_of_nat (length (pending_of (items d))), length (pending_of (items d)) = 0)
       \<and> last (adm_sent (handleEditEmployee js load f (Response st b) (Response se (Json d)) s))
           = employees_request (token_headers (adm_token (handleEditEmployee js load f (Response st b)
               (Response se (Json d)) s)))"
proof -
  let ?s1 = "adm_alert (if eu_status (edit_body f) = ''Active'' then activated_alert else updated_alert)
               (adm_closeModal ''edit-employee-modal'' (adm_send (edit_request f (adm_token s)) s))"
  have "adm_badge (load ?s1) \<noteq> None"
    using assms(3,4) by (simp add: adm_alert_def adm_closeModal_def adm_send_def)
  then show ?thesis
    using assms(1,2) by (auto simp: handleEditEmployee_def Let_def loadPendingEmployees_def adm_send_def)
qed

text \<open>
  C36: the authorization header is applied inconsistently. Without a stored token
  the badge load sends no \<open>Authorization\<close> header, while the employee lookup of
  the edit modal sends \<open>Authorization: Token null\<close>.
\<close>

theorem missing_token_headers:
  assumes "adm_token s = None"
  shows "rq_headers (last (adm_sent (snd (loadPendingEmployees r s)))) = []
       \<and> (adm_employees s = None \<longrightarrow>
            rq_headers (last (adm_sent (openEditEmployee i r' s))) = [(''Authorization'', ''Token null'')])"
  using assms
  by (auto simp: loadPendingEmployees_def openEditEmployee_def Let_def adm_send_def adm_alert_def
        open_edit_modal_def token_headers_def employees_request_def js_concat_nullable_def
        split: response.split body.split)

text \<open>
  The salary of the edit form is read by \<open>parseFloat\<close>: a decimal
  \<open>a.f\<close> gives \<open>a + f / 10^|f|\<close>, an integer gives itself, and an empty field gives
  \<open>NaN\<close>, which the PUT body serialises as \<open>null\<close>.
\<close>

lemma parse_float_decimal:
  assumes "list_all is_digit f"
  shows "parse_float (string_of_nat a @ CHR ''.'' # f) = Some (of_nat a + of_nat (digits_acc 0 f) / 10 ^ length f)
       \<and> parse_float (string_of_nat a) = Some (of_nat a)
       \<and> parse_float [] = None"
proof -
  have dot: "\<not> is_digit CHR ''.''" by (simp add: is_digit_def)
  have f1: "takeWhile is_digit f = f" "dropWhile is_digit f = []"
    using assms by (induction f) simp_all
  have "parse_float (string_of_nat a @ CHR ''.'' # f) = Some (of_nat a + of_nat (digits_acc 0 f) / 10 ^ length f)"
    using dot by (simp add: parse_float_def read_exponent_def f1 takeWhile_all_digits dropWhile_all_digits)
  moreover have "parse_float (string_of_nat a @ []) = Some (of_nat a)"
    unfolding parse_float_def read_prefix_digits
    by (simp add: read_exponent_def takeWhile_all_digits dropWhile_all_digits del: append_Nil2) simp
  moreover have "parse_float [] = None"
    by (simp add: parse_float_def read_sign_def)
  ultimately show ?thesis by simp
qed

end
