(* ===== verification/Spec2Isabelle.thy ===== *)
theory Spec2Isabelle
  imports Chrome Admin
begin

text \<open>
  \<^bold>\<open>A verification model of the HR Nexus browser client.\<close>

  The repository's client is three scripts under \<^verbatim>\<open>src/frontend/static/\<close>:
  \<^verbatim>\<open>api.js\<close> (generic HTTP wrappers and one object of endpoint functions per
  resource), \<^verbatim>\<open>employee_dashboard.js\<close> (the employee's page: session guard, cache of
  the employee's own attendance, leave and payroll records, statistics, clock-in/out and
  leave forms, payslip) and \<^verbatim>\<open>admin_extensions.js\<close> (the admin page's pending-employee
  badge and employee edit form). The backend is an outside collaborator reached over
  HTTP; the browser (DOM, \<open>Date\<close>, \<open>JSON\<close>, \<open>fetch\<close>) is the environment.

  \<^bold>\<open>How the code is modelled.\<close> Every module-level variable a script mutates is a field
  of a state record, every handler a function from state to state (explicit state
  passing), every awaited \<open>fetch\<close> an input (a \<open>response\<close>: a network error, or a status
  and a body that is JSON or not), every caught exception the left summand of a sum
  threaded by \<open>ebind\<close>. The page is represented by what the handlers write into it: the
  statistics, rows and messages (\<open>dash_view\<close>), the alerts, the open modals, and the log
  of requests sent in order. Strings are \<open>string\<close>; JavaScript numbers that the code
  keeps integral are \<open>int\<close> or \<open>nat\<close> with \<open>NaN\<close> as \<open>None\<close>.

  \<^bold>\<open>Theories.\<close>
  \<^item> \<open>Prelude\<close>: JavaScript truthiness, \<open>||\<close>, string indexing, \<open>String(n)\<close> and
    \<open>Number(s)\<close> on digit strings (with their round trip), \<open>split\<close>, \<open>padStart\<close>,
    \<open>slice(-n)\<close>, and the exception sum; the collection \<open>js_simps\<close>.
  \<^item> \<open>Calendar\<close>: \<open>new Date("YYYY-MM-DD")\<close> (\<open>parse_iso_date\<close>) as midnight UTC,
    day numbers since the epoch (\<open>day_number\<close>, with \<open>next_day\<close> one day later), and the
    local date at a zone offset (\<open>local_date\<close>), which is what \<open>getMonth()\<close> and
    \<open>getFullYear()\<close> read. Round trip of the date format.
  \<^item> \<open>Attendance\<close> (\<^verbatim>\<open>employee_dashboard.js\<close> lines 96-104, 213-229, 280-318): the
    cached record, the month filter, present and absent days, the attendance rate
    (\<open>Math.round\<close> of \<open>present / 22 \<times> 100\<close>), the sorted table and
    \<^verbatim>\<open>calculateWorkingHours\<close>.
  \<^item> \<open>Leave\<close> (lines 112-121, 231-236, 376-426): the cached record, the day count of a new
    request, leave days taken this year.
  \<^item> \<open>Payroll\<close> (lines 458-492): payroll records, their order and table rows.
  \<^item> \<open>Session\<close> (lines 14-50, 142-162): \<^verbatim>\<open>checkAuth\<close>, the user panel, logout.
  \<^item> \<open>Dashboard\<close> (lines 7-139, 213-277, 321-455): the client state \<open>emp_state\<close>, the
    reload protocol \<^verbatim>\<open>loadMyData\<close> (three sequential GETs, then
    \<^verbatim>\<open>refreshDashboard\<close>), \<^verbatim>\<open>loadEmployeeProfile\<close>, \<^verbatim>\<open>loadUserInfo\<close>, and the
    handlers \<^verbatim>\<open>handleClockSubmit\<close> and \<^verbatim>\<open>handleLeaveRequest\<close>, each a POST followed by
    the full reload; the event relation \<open>dash_step\<close> and its reachable states.
  \<^item> \<open>Views\<close> (lines 280-307, 376-403, 494-581, 612-654): what
    \<^verbatim>\<open>loadMyAttendance\<close> (the month input's default and the table),
    \<^verbatim>\<open>renderMyProfile\<close>, \<^verbatim>\<open>renderMyLeaves\<close> and \<^verbatim>\<open>displayPayslip\<close> write, and
    the payslip fetch \<^verbatim>\<open>viewMyPayslip\<close>; the profile's statistics are shown equal to
    the dashboard's, and the payslip to reproduce the backend's amounts.
  \<^item> \<open>Api\<close> (\<^verbatim>\<open>api.js\<close>): the response shapes every page shares, the generic wrappers
    \<open>api_get\<close>, \<open>api_post\<close>, \<open>api_put\<close>, \<open>api_patch\<close>, \<open>api_delete\<close> (each returns the
    request it sends and its resolve/reject outcome), the \<open>URLSearchParams\<close> serialiser
    of \<^verbatim>\<open>getAll\<close>'s query string, the endpoints of the four
    resource objects as one group over \<open>resource\<close>, and all of them as the datatype
    \<open>api_op\<close> with the request each sends (\<open>api_request\<close>).
  \<^item> \<open>Chrome\<close> (lines 165-210, 585-610): the classes the page chrome toggles (record
    \<open>chrome\<close>), \<^verbatim>\<open>updateClock\<close>, \<^verbatim>\<open>toggleMobileMenu\<close>, \<^verbatim>\<open>switchView\<close> (composed
    with \<^verbatim>\<open>refreshDashboard\<close>), \<^verbatim>\<open>openModal\<close>, the window calls of
    \<^verbatim>\<open>printPayslip\<close>, and the chrome's events as a step relation.
  \<^item> \<open>Admin\<close> (\<^verbatim>\<open>admin_extensions.js\<close>): the admin page state \<open>admin_state\<close>,
    \<^verbatim>\<open>loadPendingEmployees\<close> (badge), \<^verbatim>\<open>viewPendingEmployees\<close>,
    \<^verbatim>\<open>openEditEmployee\<close>, \<open>parseFloat\<close>, \<^verbatim>\<open>handleEditEmployee\<close> (its PUT is
    \<open>edit_request\<close>) and the hook around the page's \<^verbatim>\<open>loadDataFromAPI\<close>. The handler
    takes the page's reload as a parameter \<open>load\<close> and its theorems hold for any; the
    original reload is not under \<^verbatim>\<open>src/\<close>, and the fixture \<open>loadDataFromAPI_spec\<close>
    follows the specification's reload protocol for the witnesses.

  \<^bold>\<open>What is proved.\<close> The reload refines the backend (the cache equals the backend's
  collections when the GETs succeed) and is idempotent; a non-2xx answer keeps a stale
  array, and a thrown fetch, whichever of the three GETs it is, ends the reload with the
  arrays loaded before it replaced and the dashboard not recomputed. The profile lookup
  loads the full dashboard of the employee matched by e-mail, whatever its status. The statistics: the rate is the nearest
  integer to \<open>100 p / 22\<close>, and exceeds 100\% exactly above 22 present days; the month
  filter is right at or east of UTC and off by one day west of it, while the attendance
  view's default month (\<open>valueAsDate\<close> of local midnight) is the previous month's last
  day east of UTC and the first of the month at or west of it. The leave day count is
  the inclusive number of calendar days, and symmetric in its dates. Working hours are
  right when the clock-out follows the clock-in and printed inconsistently otherwise.
  The leave table holds every cached leave, newest start first, stable on equal dates;
  the payslip's pay date is the date itself at or east of UTC and the day before west
  of it.
  The guard admits exactly employees with a token; logout sends later loads to the login
  page. The payroll table lists every record, newest period first, but prints no amount.
  In every reachable state of the dashboard whose GETs do not throw, the statistics shown
  are those of the cache; one thrown GET breaks this. The handlers post before they
  reload, and send nothing without a profile. On the admin side, the badge counts the
  \<open>Pending\<close> employees, keeps a stale count when the GET fails, and a failed load is
  reported as "no pending employees". Every branch of the edit handler is given for any
  page reload: the activation message depends on the submitted status only (not on a
  change of status, as the code's comment says), and the handler's own badge reload
  shows the backend's count after a successful edit whether or not the hook is in
  place. The API client has two error channels (\<open>post\<close> and the others), and every
  request it builds is well formed and unauthenticated. The chrome keeps
  sidebar and overlay together and at most one view section visible, though a switch on
  a narrow window toggles the menu whether it was open or not.

  \<^bold>\<open>Bounds and environment.\<close> Dates are the backend's \<open>YYYY-MM-DD\<close> strings; other
  shapes, which \<open>Date\<close> may accept, are treated as invalid. The time zone is one offset
  in minutes, within a day of UTC for the month-filter theorems (real zones are within
  \<open>-12h..+14h\<close>). \<open>Math.round\<close> is taken on the exact rational \<open>100 p / 22\<close>: its
  distance to a half-integer is at least \<open>1/22\<close>, so the double rounding of the code
  does not change the result. Characters are code points below 256: \<open>toUpperCase\<close>
  of the user panel is exact on them except for the two letters whose capital lies
  above U+00FF. No loop of the code is unbounded: every recursion of the
  model is structural or on a decreasing \<open>nat\<close>.

  \<^bold>\<open>Not modelled.\<close> HTML and CSS of the templates beyond the values they show, the
  Lucide icons, the fixed layout text of the payslip and of the print window, number
  formatting by \<open>toLocaleString\<close> (a parameter where amounts are printed), the locale's
  hour cycle (a parameter of the clock), \<^verbatim>\<open>console.error\<close> logging, the timing of
  \<open>setInterval\<close> and \<open>setTimeout\<close> (their callbacks are events or listed in order), and
  the backend's own behaviour. The admin page's own scripts (\<^verbatim>\<open>loadDataFromAPI\<close>,
  \<^verbatim>\<open>renderEmployees\<close>, the global \<open>employees\<close> array) are not in the repository's
  sources: only what the specification says of the reload is modelled.
\<close>

section \<open>Witnesses\<close>

text \<open>Each theorem with a hypothesis, applied at a concrete input.\<close>

definition demo_employee :: employee where
  "demo_employee =
     \<lparr>emp_id = 7, first_name = ''Ana'', last_name = ''Cruz'', email = ''ana@hr.test'',
      department = ''IT'', position = ''Dev'', salary = ''20000.00'', join_date = ''2024-01-08'',
      emp_status = ''Active''\<rparr>"

definition demo_state :: emp_state where
  "demo_state = (init_state ''in'')\<lparr>currentEmployee := Some demo_employee\<rparr>"

definition demo_backend :: backend where
  "demo_backend =
     \<lparr>employees_resp = Response 200 (Json (Bare [demo_employee])),
      attendance_resp = (\<lambda>_. Response 200 (Json (Bare []))),
      leaves_resp = (\<lambda>_. Response 200 (Json (Page []))),
      payroll_resp = (\<lambda>_. Response 200 (Json (Bare [])))\<rparr>"

definition demo_env :: env where
  "demo_env = \<lparr>tz_off = 480, today = \<lparr>year = 2024, month = 3, day = 15\<rparr>\<rparr>"

definition demo_leave :: "string \<Rightarrow> leave" where
  "demo_leave d = \<lparr>leave_id = 1, leave_employeeId = 7, leave_type = ''Annual'', startDate = d, endDate = d,
                   days = 1, leave_status = ''Approved'', reason = []\<rparr>"

definition demo_att :: "nat \<Rightarrow> string \<Rightarrow> attendance" where
  "demo_att i d = \<lparr>att_id = i, att_employeeId = 7, att_date = d, att_status = ''Present'',
                   clockIn = Some ''08:00:00'', clockOut = None, att_notes = ''''\<rparr>"

definition demo_admin :: admin_state where
  "demo_admin =
     \<lparr>adm_employees = None, adm_token = None, adm_badge = Some (''0'', True), adm_white_box = True,
      adm_banner = None, adm_search = ''Cruz'', adm_dept_filter = ''IT'', adm_table = [], adm_view = ''dashboard'',
      adm_edit_form = None, adm_modals = {''edit-employee-modal''}, adm_alerts = [], adm_sent = []\<rparr>"

text \<open>The specification's badge fixture: three \<open>Pending\<close> and five \<open>Active\<close> employees.\<close>

definition spec_staff :: "employee list" where
  "spec_staff =
     map (\<lambda>i. demo_employee\<lparr>emp_id := i, emp_status := ''Pending''\<rparr>) [1, 2, 3]
     @ map (\<lambda>i. demo_employee\<lparr>emp_id := i\<rparr>) [4, 5, 6, 7, 8]"

definition demo_form :: edit_form where
  "demo_form =
     \<lparr>fd_employeeId = ''1'', fd_firstName = ''Ana'', fd_lastName = ''Cruz'', fd_email = ''ana@hr.test'',
      fd_department = ''IT'', fd_position = ''Dev'', fd_salary = ''25000.50'', fd_joinDate = ''2024-01-08'',
      fd_status = ''Active''\<rparr>"

text \<open>The admin page's reload after the extension's hook, against the fixture backend.\<close>

definition demo_load :: "admin_state \<Rightarrow> admin_state" where
  "demo_load = (\<lambda>s. snd (loadPendingEmployees (Response 200 (Json (Bare spec_staff)))
                         (loadDataFromAPI_spec (Response 200 (Json (Bare spec_staff))) s)))"

text \<open>The specification's payroll fixture as a payslip whose amounts are strings.\<close>

definition demo_payslip :: "string payslip" where
  "demo_payslip =
     \<lparr>ps_month = 5, ps_year = 2024, ps_pay_date = ''2024-05-31'', ps_name = ''Ana Cruz'', ps_department = ''IT'',
      ps_position = ''Dev'', ps_employee_id = ''EMP-0007'', ps_basic_salary = ''20000.00'', ps_allowances = ''2000.00'',
      ps_overtime = ''500.00'', ps_gross_salary = ''22500.00'', ps_deductions_total = ''1500.00'',
      ps_net_salary = ''21000.00''\<rparr>"

text \<open>The markup's sections and initial classes, with the menu closed.\<close>

definition demo_chrome :: chrome where
  "demo_chrome =
     \<lparr>ch_sections = [''dashboard'', ''attendance'', ''leave'', ''payroll'', ''profile''],
      ch_visible = {''dashboard''}, ch_active = {''dashboard''}, ch_sidebar_hidden = True,
      ch_overlay_hidden = True, ch_time = [], ch_date = [], ch_rendered = []\<rparr>"

theorem calculateWorkingHours_correct_witness:
  "calculateWorkingHours (Some (format_hhmm 8 30 @ [])) (Some (format_hhmm 17 45 @ [])) = ''9h 15m''"
  using calculateWorkingHours_correct[of "[]" "[]" 8 30 17 45]
  by (simp add: string_of_nat.simps digit_char_def)

theorem present_days_east_witness:
  "present_days 480 \<lparr>year = 2024, month = 3, day = 15\<rparr>
     [\<lparr>att_id = 1, att_employeeId = 1, att_date = ''2024-03-01'', att_status = ''Present'',
       clockIn = None, clockOut = None, att_notes = ''''\<rparr>] = 1"
  using present_days_east[of 480 "\<lparr>year = 2024, month = 3, day = 15\<rparr>"
      "[\<lparr>att_id = 1, att_employeeId = 1, att_date = ''2024-03-01'', att_status = ''Present'',
       clockIn = None, clockOut = None, att_notes = ''''\<rparr>]"]
  by (simp add: parse_2024_03_01 valid_date_def days_in_month_def is_present_def)

theorem request_days_inclusive_witness:
  "request_days ''2024-02-28'' ''2024-03-01'' = Some 3"
proof -
  have v: "valid_date \<lparr>year = 2024, month = 2, day = 28\<rparr>"
    by (simp add: valid_date_def days_in_month_def is_leap_def)
  have f: "format_iso_date \<lparr>year = 2024, month = 2, day = 28\<rparr> = ''2024-02-28''"
    by (simp add: format_iso_date_def pad_start_def string_of_nat.simps digit_char_def)
  have p: "parse_iso_date ''2024-02-28'' = Some \<lparr>year = 2024, month = 2, day = 28\<rparr>"
    using parse_format_iso_date[OF v] f by simp
  have "(next_day ^^ 2) \<lparr>year = 2024, month = 2, day = 28\<rparr> = \<lparr>year = 2024, month = 3, day = 1\<rparr>"
    by (simp add: numeral_2_eq_2 next_day_def days_in_month_def is_leap_def)
  then show ?thesis
    using request_days_inclusive[OF p, of "''2024-03-01''" 2] parse_2024_03_01 by simp
qed

theorem payroll_row_ignores_amounts_witness:
  "payroll_row \<lparr>pay_id = 3, pay_employee = 7, pay_month = 5, pay_year = 2024, basic_salary = ''20000.00'',
      allowances = ''2000.00'', overtime = ''500.00'', deductions = ''1500.00'', net_salary = ''21000.00''\<rparr>
   = payroll_row \<lparr>pay_id = 3, pay_employee = 7, pay_month = 5, pay_year = 2024, basic_salary = ''0.00'',
      allowances = ''0.00'', overtime = ''0.00'', deductions = ''0.00'', net_salary = ''0.00''\<rparr>"
  by (rule payroll_row_ignores_amounts) simp_all

theorem checkAuth_admits_witness:
  "checkAuth (\<lambda>_. None) \<lparr>st_token = None, st_user = Some ''{}''\<rparr> = Redirect ''/login''"
  using checkAuth_admits[of "\<lambda>_. None" "\<lparr>st_token = None, st_user = Some ''{}''\<rparr>"] by simp

theorem logout_then_login_witness:
  "checkAuth (\<lambda>_. None) (fst (handleLogout True \<lparr>st_token = Some ''abc'', st_user = Some ''{}''\<rparr>))
     = Redirect ''/login''"
  using logout_then_login[of "\<lparr>st_token = Some ''abc'', st_user = Some ''{}''\<rparr>"]
  by (metis prod.collapse)

theorem loadMyData_refines_backend_witness:
  "myAttendance (loadMyData demo_backend demo_env demo_state) = []
   \<and> view (loadMyData demo_backend demo_env demo_state) = Some (dashboard_view demo_env [] [])"
  using loadMyData_refines_backend[of demo_state demo_employee demo_backend 200 "Bare []" 200 "Page []" 200 "Bare []"]
  by (simp add: demo_state_def demo_backend_def resp_ok_def items_def init_state_def)

theorem loadMyData_keeps_stale_witness:
  "myAttendance (loadMyData (demo_backend\<lparr>attendance_resp := (\<lambda>_. Response 500 BadJson)\<rparr>) demo_env demo_state) = []"
  using loadMyData_keeps_stale[of demo_state demo_employee
      "demo_backend\<lparr>attendance_resp := (\<lambda>_. Response 500 BadJson)\<rparr>" 500 BadJson "[]" "[]" demo_env]
  by (simp add: demo_state_def demo_backend_def resp_ok_def items_def init_state_def)

theorem loadMyData_throw_ends_reload_witness:
  "loadMyData (demo_backend\<lparr>leaves_resp := (\<lambda>_. NetworkError)\<rparr>) demo_env demo_state
     = demo_state\<lparr>sent := [Request ''GET'' (collection_url ''attendance'' 7) NoBody,
                           Request ''GET'' (collection_url ''leaves'' 7) NoBody]\<rparr>"
  using loadMyData_throw_ends_reload[of demo_state demo_employee "demo_backend\<lparr>leaves_resp := (\<lambda>_. NetworkError)\<rparr>"
      demo_env "Some []"]
  by (simp add: demo_state_def demo_employee_def demo_backend_def init_state_def resp_ok_def items_def)

theorem sorted_attendance_correct_witness:
  "sorted_attendance [demo_att 1 ''2024-03-01'', demo_att 2 ''2024-04-01'']
     = Some [demo_att 2 ''2024-04-01'', demo_att 1 ''2024-03-01'']
   \<and> att_day (demo_att 1 ''2024-03-01'') \<le> att_day (demo_att 2 ''2024-04-01'')"
proof -
  have dn: "att_day (demo_att 1 ''2024-03-01'') = 19783" "att_day (demo_att 2 ''2024-04-01'') = 19814"
    by (simp_all add: att_day_def demo_att_def parse_2024_03_01 parse_2024_04_01 day_number_def
        days_before_year_def days_before_month_def days_in_month_def is_leap_def upt_rec)
  have s: "sorted_attendance [demo_att 1 ''2024-03-01'', demo_att 2 ''2024-04-01'']
     = Some [demo_att 2 ''2024-04-01'', demo_att 1 ''2024-03-01'']"
    using dn by (simp add: sorted_attendance_def demo_att_def parse_2024_03_01 parse_2024_04_01
        att_day_def[symmetric])
  show ?thesis
    using sorted_attendance_correct[OF s] s by (simp add: dn)
qed

theorem dash_reachable_view_consistent_witness:
  "view_consistent demo_env
     (loadMyData demo_backend demo_env
        (fst (loadUserInfo (\<lambda>_. None) \<lparr>st_token = None, st_user = None\<rparr> demo_backend demo_env (init_state ''in''))))"
proof -
  have nt: "no_throw_all demo_backend"
    by (simp add: no_throw_all_def demo_backend_def)
  have "dash_reachable demo_env
          (loadMyData demo_backend demo_env
             (fst (loadUserInfo (\<lambda>_. None) \<lparr>st_token = None, st_user = None\<rparr> demo_backend demo_env (init_state ''in''))))"
    by (rule dash_reachable.step[OF dash_reachable.start[OF nt] dash_step.reload[OF nt]])
  then show ?thesis by (rule dash_reachable_view_consistent)
qed

theorem handleClockSubmit_write_then_reload_witness:
  "sent (handleClockSubmit (Response 200 (Json None)) demo_backend demo_env demo_state) =
     [Request ''POST'' (api_base @ ''/attendance/clock/'') (ClockBody 7 ''in''),
      Request ''GET'' (collection_url ''attendance'' 7) NoBody,
      Request ''GET'' (collection_url ''leaves'' 7) NoBody,
      Request ''GET'' (collection_url ''payroll'' 7) NoBody]
   \<and> alerts (handleClockSubmit (Response 200 (Json None)) demo_backend demo_env demo_state) = [''Successfully clocked in!'']"
  using handleClockSubmit_write_then_reload[of demo_state demo_employee 200 demo_backend 200 "Bare []" 200 "Page []"
      200 "Bare []" None demo_env]
  by (simp add: demo_state_def demo_backend_def demo_employee_def resp_ok_def init_state_def)

theorem handlers_need_profile_witness:
  "sent (handleClockSubmit NetworkError demo_backend demo_env (init_state ''in'')) = []
   \<and> alerts (handleLeaveRequest \<lparr>f_type = ''Sick'', f_startDate = ''2024-03-01'', f_endDate = ''2024-03-01'',
        f_reason = ''''\<rparr> NetworkError demo_backend demo_env (init_state ''in'')) = [''Employee profile not loaded'']"
  using handlers_need_profile[of "init_state ''in''" NetworkError demo_backend demo_env
      "\<lparr>f_type = ''Sick'', f_startDate = ''2024-03-01'', f_endDate = ''2024-03-01'', f_reason = ''''\<rparr>" NetworkError]
  by (simp add: init_state_def alert_def)

theorem handleLeaveRequest_posts_days_witness:
  "hd (sent (handleLeaveRequest \<lparr>f_type = ''Sick'', f_startDate = ''2024-02-28'', f_endDate = ''2024-03-01'',
        f_reason = ''''\<rparr> NetworkError demo_backend demo_env demo_state)) =
     Request ''POST'' (api_base @ ''/leaves/'')
       (LeaveBody \<lparr>lr_employee = 7, lr_leave_type = ''Sick'', lr_start_date = ''2024-02-28'',
                   lr_end_date = ''2024-03-01'', lr_days = request_days ''2024-02-28'' ''2024-03-01'', lr_reason = ''''\<rparr>)"
proof -
  obtain l where "sent (handleLeaveRequest \<lparr>f_type = ''Sick'', f_startDate = ''2024-02-28'', f_endDate = ''2024-03-01'',
        f_reason = ''''\<rparr> NetworkError demo_backend demo_env demo_state) =
     sent demo_state @ Request ''POST'' (api_base @ ''/leaves/'')
       (LeaveBody \<lparr>lr_employee = emp_id demo_employee, lr_leave_type = ''Sick'', lr_start_date = ''2024-02-28'',
                   lr_end_date = ''2024-03-01'', lr_days = request_days ''2024-02-28'' ''2024-03-01'', lr_reason = ''''\<rparr>) # l"
    using handleLeaveRequest_posts_days[of demo_state demo_employee
        "\<lparr>f_type = ''Sick'', f_startDate = ''2024-02-28'', f_endDate = ''2024-03-01'', f_reason = ''''\<rparr>"
        NetworkError demo_backend demo_env]
    by (auto simp: demo_state_def)
  then show ?thesis by (simp add: demo_state_def init_state_def demo_employee_def)
qed

theorem loadEmployeeProfile_any_status_witness:
  "currentEmployee (loadEmployeeProfile
      (demo_backend\<lparr>employees_resp := Response 200 (Json (Bare [demo_employee\<lparr>emp_status := ''Pending''\<rparr>]))\<rparr>)
      demo_env ((init_state ''in'')\<lparr>currentUser := Some \<lparr>role = ''employee'', u_first_name = None, u_last_name = None,
        u_email = ''ana@hr.test'', username = None\<rparr>\<rparr>))
   = Some (demo_employee\<lparr>emp_status := ''Pending''\<rparr>)"
  using loadEmployeeProfile_any_status[of "(init_state ''in'')\<lparr>currentUser := Some \<lparr>role = ''employee'', u_first_name = None,
        u_last_name = None, u_email = ''ana@hr.test'', username = None\<rparr>\<rparr>"
      "\<lparr>role = ''employee'', u_first_name = None, u_last_name = None, u_email = ''ana@hr.test'', username = None\<rparr>"
      "demo_backend\<lparr>employees_resp := Response 200 (Json (Bare [demo_employee\<lparr>emp_status := ''Pending''\<rparr>]))\<rparr>"
      200 "Bare [demo_employee\<lparr>emp_status := ''Pending''\<rparr>]" "demo_employee\<lparr>emp_status := ''Pending''\<rparr>" "[]" "[]" "[]" demo_env]
  by (simp add: resp_ok_def items_def demo_employee_def demo_backend_def)

theorem api_error_channels_witness:
  "snd (api_get ''/employees/'' (Response 404 (Json ''nope'')) :: unit http_request \<times> _)
     = Inl (http_error 404)
   \<and> snd (api_post (\<lambda>e. e) ''/employees/'' () (Response 400 (Json ''{bad}''))) = Inl (ErrorMessage ''{bad}'')"
  using api_error_channels[where 'p = unit, of 404 "''/employees/''" "Json ''nope''" "()" "\<lambda>e. e" "''nope''"]
    api_error_channels[where 'p = unit, of 400 "''/employees/''" "Json ''{bad}''" "()" "\<lambda>e. e" "''{bad}''"]
  by (simp add: resp_ok_def)

theorem pending_badge_count_witness:
  "adm_badge (snd (loadPendingEmployees (Response 200 (Json (Bare spec_staff))) demo_admin)) = Some (''3'', False)
   \<and> adm_badge (snd (loadPendingEmployees (Response 200 (Json (Bare [demo_employee]))) demo_admin)) = Some (''0'', True)"
  using pending_badge_count[of 200 demo_admin "Bare spec_staff"] pending_badge_count[of 200 demo_admin "Bare [demo_employee]"]
  by (simp add: resp_ok_def demo_admin_def spec_staff_def demo_employee_def items_def digit_char_def)

theorem pending_badge_stale_witness:
  "adm_badge (snd (loadPendingEmployees (Response 503 (Json (Bare spec_staff))) demo_admin)) = Some (''0'', True)"
  using pending_badge_stale[of "Response 503 (Json (Bare spec_staff))" demo_admin]
  by (simp add: resp_ok_def demo_admin_def)

theorem viewPending_failure_misreports_witness:
  "adm_alerts (viewPendingEmployees NetworkError demo_admin) = [no_pending_alert]"
  using viewPending_failure_misreports[of NetworkError demo_admin] by (simp add: demo_admin_def)

theorem openEditEmployee_lookup_witness:
  "adm_alerts (openEditEmployee 9 (Response 404 (Json demo_employee)) demo_admin) = [''Employee not found'']
   \<and> adm_edit_form (openEditEmployee 7 (Response 200 (Json demo_employee)) demo_admin) = Some (to_admin_employee demo_employee)"
  using openEditEmployee_lookup[of demo_admin _ 9 _ "Response 404 (Json demo_employee)"]
    openEditEmployee_lookup[of demo_admin _ 7 _ "Response 200 (Json demo_employee)"]
  by (simp_all add: demo_admin_def resp_ok_def)

lemma demo_load_keeps_badge: "\<forall>t. adm_badge t \<noteq> None \<longrightarrow> adm_badge (demo_load t) \<noteq> None"
  by (simp add: demo_load_def loadPendingEmployees_def loadDataFromAPI_spec_def Let_def adm_send_def resp_ok_def)

theorem handleEditEmployee_branches_witness:
  "ae_status (the (adm_edit_form (demo_admin\<lparr>adm_edit_form := Some (to_admin_employee demo_employee)\<rparr>))) = ''Active''
   \<and> adm_alerts (handleEditEmployee (\<lambda>e. e) demo_load demo_form (Response 200 (Json ''{}''))
      (Response 200 (Json (Bare spec_staff))) (demo_admin\<lparr>adm_edit_form := Some (to_admin_employee demo_employee)\<rparr>))
     = [activated_alert]"
  using handleEditEmployee_branches[where st = 200 and s = "demo_admin\<lparr>adm_edit_form := Some (to_admin_employee demo_employee)\<rparr>"
      and load = demo_load and js = "\<lambda>e. e" and f = demo_form and b = "Json ''{}''"
      and re = "Response 200 (Json (Bare spec_staff))"]
  by (simp add: resp_ok_def demo_admin_def demo_form_def demo_employee_def to_admin_employee_def demo_load_def
      loadPendingEmployees_def loadDataFromAPI_spec_def Let_def adm_send_def)

lemma pending_three: "length (pending_of (items (Bare spec_staff))) = 3"
  by (simp add: items_def spec_staff_def demo_employee_def)

theorem handleEditEmployee_badge_refreshed_witness:
  "adm_badge (handleEditEmployee (\<lambda>e. e) demo_load demo_form (Response 200 (Json ''{}''))
      (Response 200 (Json (Bare spec_staff))) demo_admin) = Some (string_of_nat 3, False)"
  using handleEditEmployee_badge_refreshed[where st = 200 and se = 200 and s = demo_admin and d = "Bare spec_staff"
      and load = demo_load and js = "\<lambda>e. e" and f = demo_form and b = "Json ''{}''", OF _ _ _ demo_load_keeps_badge]
    and pending_three
  by (simp add: resp_ok_def demo_admin_def)

theorem missing_token_headers_witness:
  "rq_headers (last (adm_sent (openEditEmployee 9 NetworkError demo_admin))) = [(''Authorization'', ''Token null'')]"
  using missing_token_headers[of demo_admin NetworkError 9 NetworkError] by (simp add: demo_admin_def)

theorem profile_matches_dashboard_witness:
  "\<exists>p v. renderMyProfile demo_env demo_state = Some p \<and> view (refreshDashboard demo_env demo_state) = Some v
     \<and> pf_present p = stat_days_present v \<and> pf_absent p = stat_days_absent v
     \<and> pf_leaves p = stat_leaves_taken v \<and> pf_rate p = stat_attendance_rate v"
  using profile_matches_dashboard[of demo_state demo_env] by (simp add: demo_state_def init_state_def)

theorem emp_id_label_roundtrip_witness: "emp_id_label 7 = ''EMP-0007'' \<and> length (emp_id_label 7) = 8"
  using emp_id_label_roundtrip[of 7]
  by (simp add: emp_id_label_def pad_start_def string_of_nat.simps digit_char_def numeral_3_eq_3)

theorem viewMyPayslip_outcome_witness:
  "last (map snd (pv_rows (the (fst (viewMyPayslip (\<lambda>x. x) 3 (Response 200 (Json demo_payslip)) demo_env demo_state)))))
     = ''<U+20B1>21000.00''
   \<and> alerts (snd (viewMyPayslip (\<lambda>x. x) 3 NetworkError demo_env demo_state)) = [''Failed to load payslip'']"
  using viewMyPayslip_outcome[of 200 "\<lambda>x. x" 3 demo_payslip demo_env demo_state NetworkError]
  by (simp add: resp_ok_def demo_payslip_def demo_state_def init_state_def)

theorem api_request_wellformed_witness:
  "take (length api_base + 1) (rq_url (the (api_request (OpApprove 5 :: unit api_op)))) = api_base @ ''/''
   \<and> rq_headers (the (api_request (OpApprove 5 :: unit api_op))) = [(''Content-Type'', ''application/json'')]"
proof -
  have "api_request (OpApprove 5 :: unit api_op) = Some (the (api_request (OpApprove 5 :: unit api_op)))"
    by (simp add: api_request_def)
  from api_request_wellformed[OF this] show ?thesis
    by (simp add: api_request_def approve_def api_patch_def json_request_def rq_retype_def)
qed

theorem chrome_invariant_witness:
  "chrome_ok (fst (switchView demo_env 800 ''leave'' (demo_chrome, demo_state)))
   \<and> \<not> ch_sidebar_hidden (fst (switchView demo_env 800 ''leave'' (demo_chrome, demo_state)))"
proof -
  have "chrome_reachable demo_env (demo_chrome, demo_state)"
    unfolding demo_chrome_def by (rule chrome_reachable.start) simp
  then have "chrome_reachable demo_env (switchView demo_env 800 ''leave'' (demo_chrome, demo_state))"
    by (rule chrome_reachable.step[OF _ chrome_step.switch])
  then have "chrome_ok (fst (switchView demo_env 800 ''leave'' (demo_chrome, demo_state)))"
    by (rule chrome_invariant)
  moreover have "\<not> ch_sidebar_hidden (fst (switchView demo_env 800 ''leave'' (demo_chrome, demo_state)))"
    by (simp add: switchView_def demo_chrome_def toggleMobileMenu_def Let_def)
  ultimately show ?thesis by simp
qed

theorem attendance_date_default_witness:
  "fst (the (loadMyAttendance demo_env [] demo_state)) = ''2024-02-29''"
proof -
  have "fst (the (loadMyAttendance demo_env [] demo_state))
          = format_iso_date (prev_day (first_of_month (today demo_env)))"
    using attendance_date_default[of demo_state demo_env "[]"]
    by (simp add: demo_state_def demo_env_def init_state_def)
  then show ?thesis
    by (simp add: demo_env_def first_of_month_def prev_day_def days_in_month_def is_leap_def
        format_iso_date_def pad_start_def string_of_nat.simps digit_char_def)
qed




theorem renderMyLeaves_table_witness:
  "\<exists>ls. lv_rows (the (renderMyLeaves (demo_state\<lparr>myLeaves := [demo_leave ''2024-03-01'', demo_leave ''2024-04-01'']\<rparr>)))
          = Some (map leave_row ls)
      \<and> mset ls = mset [demo_leave ''2024-03-01'', demo_leave ''2024-04-01'']
      \<and> sorted_wrt (\<lambda>a b. day_number (the (parse_iso_date (startDate b)))
                          \<le> day_number (the (parse_iso_date (startDate a)))) ls"
  using renderMyLeaves_table[of "demo_state\<lparr>myLeaves := [demo_leave ''2024-03-01'', demo_leave ''2024-04-01'']\<rparr>"]
  by (simp add: demo_state_def demo_leave_def parse_2024_03_01 parse_2024_04_01) blast

end
